(* ===== verification/Prelude.thy ===== *)
theory Prelude
  imports Main "HOL-Library.Word"
begin

text \<open>
  Shared vocabulary of the model: the Python run-time values the application
  handles (bytes, strings, exceptions) and the built-in conversions between them
  that \<open>src/apps/home/util.py\<close> and \<open>src/apps/home/routes.py\<close> call
  (\<open>str.encode\<close>, \<open>bytes.decode\<close>, \<open>binascii.hexlify\<close>, \<open>hexdigest\<close>,
  SQL \<open>lower\<close>).  A Python \<open>str\<close> is a HOL \<open>string\<close>: each \<open>char\<close> is one
  code point in the range 0--255 (Latin-1), which covers every string the
  application itself produces; a Python \<open>bytes\<close> object is a \<open>byte list\<close>.
  A raised exception is the left side of a sum \<open>py_exc + 'a\<close>, and
  \<open>sbind\<close> propagates it the way an uncaught exception leaves a Python
  expression.
\<close>

named_theorems py_simps "evaluation rules of the modelled Python built-ins"

type_synonym byte = "8 word"

datatype py_exc =
    ValueError
  | UnicodeDecodeError
  | UnicodeEncodeError
  | InvalidToken
  | NameError
  | TypeError
  | NonLatin1
  | AttributeError
  | IntegrityError
  | StripeError
  | KeyError
  | TemplateNotFound
  | SMTPException
  | OperationalError
  | StatementError
  | InterfaceError
  | OverflowError

definition sbind :: "'e + 'a \<Rightarrow> ('a \<Rightarrow> 'e + 'b) \<Rightarrow> 'e + 'b" where
  "sbind m f = (case m of Inl e \<Rightarrow> Inl e | Inr x \<Rightarrow> f x)"

subsection \<open>Characters and bytes\<close>

definition byte_of_char :: "char \<Rightarrow> byte" where
  "byte_of_char c = of_nat (of_char c)"

definition char_of_byte :: "byte \<Rightarrow> char" where
  "char_of_byte b = char_of (unat b)"

definition is_ascii :: "char \<Rightarrow> bool" where
  "is_ascii c \<longleftrightarrow> (of_char c :: nat) < 128"

definition is_ascii_byte :: "byte \<Rightarrow> bool" where
  "is_ascii_byte b \<longleftrightarrow> unat b < 128"

text \<open>\<open>str.encode("ascii")\<close> and \<open>bytes.decode("ascii")\<close>.\<close>

definition ascii_encode :: "string \<Rightarrow> py_exc + byte list" where
  "ascii_encode s =
     (if list_all is_ascii s then Inr (map byte_of_char s) else Inl UnicodeEncodeError)"

definition ascii_decode :: "byte list \<Rightarrow> py_exc + string" where
  "ascii_decode bs =
     (if list_all is_ascii_byte bs then Inr (map char_of_byte bs) else Inl UnicodeDecodeError)"

text \<open>
  \<open>str.encode()\<close> (UTF-8) of a Latin-1 string: one byte below 128, two bytes
  \<open>0xC2\<close>/\<open>0xC3\<close> followed by a continuation byte otherwise.
\<close>

fun utf8_encode :: "string \<Rightarrow> byte list" where
  "utf8_encode [] = []"
| "utf8_encode (c # cs) =
     (let n = (of_char c :: nat) in
      if n < 128 then of_nat n # utf8_encode cs
      else of_nat (192 + n div 64) # of_nat (128 + n mod 64) # utf8_encode cs)"

text \<open>
  \<open>bytes.decode()\<close> (UTF-8).  Continuation bytes, the overlong leads
  \<open>0xC0\<close>, \<open>0xC1\<close> and the leads above \<open>0xF4\<close> raise
  \<open>UnicodeDecodeError\<close>, as does a two-byte lead without its continuation.  A
  lead byte from \<open>0xC4\<close> to \<open>0xF4\<close> starts a code point beyond Latin-1, which
  the model's strings cannot hold: it yields \<open>NonLatin1\<close>.
\<close>

fun utf8_decode :: "byte list \<Rightarrow> py_exc + string" where
  "utf8_decode [] = Inr []"
| "utf8_decode (b # bs) =
     (if unat b < 128 then sbind (utf8_decode bs) (\<lambda>s. Inr (char_of (unat b) # s))
      else if unat b = 194 \<or> unat b = 195 then
        (case bs of
           [] \<Rightarrow> Inl UnicodeDecodeError
         | b2 # bs' \<Rightarrow>
             (if 128 \<le> unat b2 \<and> unat b2 < 192
              then sbind (utf8_decode bs')
                     (\<lambda>s. Inr (char_of ((unat b - 192) * 64 + (unat b2 - 128)) # s))
              else Inl UnicodeDecodeError))
      else if unat b < 196 \<or> 244 < unat b then Inl UnicodeDecodeError
      else Inl NonLatin1)"

subsection \<open>Hexadecimal\<close>

definition hex_char :: "nat \<Rightarrow> char" where
  "hex_char n = (if n < 10 then char_of (48 + n) else char_of (87 + n))"

definition unhex_char :: "char \<Rightarrow> nat" where
  "unhex_char c = (let n = (of_char c :: nat) in if n < 58 then n - 48 else n - 87)"

text \<open>\<open>hashlib.hexdigest()\<close>: two lower-case hex digits per byte, as a \<open>str\<close>.\<close>

definition hex_str :: "byte list \<Rightarrow> string" where
  "hex_str bs = concat (map (\<lambda>b. [hex_char (unat b div 16), hex_char (unat b mod 16)]) bs)"

text \<open>\<open>binascii.hexlify\<close>: the same digits, as \<open>bytes\<close>.\<close>

definition hexlify :: "byte list \<Rightarrow> byte list" where
  "hexlify bs = map byte_of_char (hex_str bs)"

fun unhex_str :: "string \<Rightarrow> byte list" where
  "unhex_str (c # d # cs) = of_nat (16 * unhex_char c + unhex_char d) # unhex_str cs"
| "unhex_str _ = []"

subsection \<open>Case folding\<close>

text \<open>SQL \<open>lower()\<close> (SQLite folds ASCII letters only).\<close>

definition lower_char :: "char \<Rightarrow> char" where
  "lower_char c =
     (let n = (of_char c :: nat) in if 65 \<le> n \<and> n \<le> 90 then char_of (n + 32) else c)"

definition sql_lower :: "string \<Rightarrow> string" where
  "sql_lower s = map lower_char s"

subsection \<open>Lemmas\<close>

lemma sbind_simps [simp, py_simps]:
  "sbind (Inl e) f = Inl e"
  "sbind (Inr x) f = f x"
  by (simp_all add: sbind_def)

lemma sbind_eq_Inr [simp]:
  "sbind m f = Inr y \<longleftrightarrow> (\<exists>x. m = Inr x \<and> f x = Inr y)"
  by (cases m) (simp_all add: sbind_def)

lemma unat_byte_less [simp]: "unat (b :: byte) < 256"
  using unsigned_less [of b] by simp

lemma unat_of_nat_byte [simp]: "m < 256 \<Longrightarrow> unat (of_nat m :: byte) = m"
  by (simp add: unat_of_nat)

lemma unat_byte_of_char [simp]: "unat (byte_of_char c) = of_char c"
  by (simp add: byte_of_char_def unat_of_nat)

lemma char_of_byte_of_char [simp]: "char_of_byte (byte_of_char c) = c"
  by (simp add: char_of_byte_def)

lemma byte_of_char_of_byte [simp]: "byte_of_char (char_of_byte b) = b"
proof -
  have "unat b < 256" by simp
  then show ?thesis by (simp add: char_of_byte_def byte_of_char_def)
qed

lemma inj_byte_of_char: "inj byte_of_char"
  by (rule inj_on_inverseI [where g = char_of_byte]) simp

lemma is_ascii_byte_of_char [simp]: "is_ascii_byte (byte_of_char c) \<longleftrightarrow> is_ascii c"
  by (simp add: is_ascii_byte_def is_ascii_def)

lemma ascii_decode_encode [py_simps]:
  "ascii_encode s = Inr bs \<Longrightarrow> ascii_decode bs = Inr s"
  by (auto simp add: ascii_encode_def ascii_decode_def list.pred_map comp_def
      split: if_splits)

lemma ascii_decode_map [simp]:
  "list_all is_ascii s \<Longrightarrow> ascii_decode (map byte_of_char s) = Inr s"
  by (simp add: ascii_decode_def list.pred_map comp_def)

lemma ascii_encode_map [simp]:
  "list_all is_ascii s \<Longrightarrow> ascii_encode s = Inr (map byte_of_char s)"
  by (simp add: ascii_encode_def)

lemma utf8_encode_ascii [simp]:
  "list_all is_ascii s \<Longrightarrow> utf8_encode s = map byte_of_char s"
  by (induction s) (simp_all add: is_ascii_def byte_of_char_def)

lemma utf8_decode_encode [py_simps]: "utf8_decode (utf8_encode s) = Inr s"
proof (induction s)
  case Nil
  then show ?case by simp
next
  case (Cons c cs)
  define n where "n = (of_char c :: nat)"
  have n256: "n < 256" by (simp add: n_def)
  have c: "char_of n = c" by (simp add: n_def)
  show ?case
  proof (cases "n < 128")
    case True
    with Cons c show ?thesis by (simp add: n_def [symmetric] unat_of_nat)
  next
    case False
    then have hi: "192 + n div 64 = 194 \<or> 192 + n div 64 = 195" using n256 by linarith
    have lo: "128 + n mod 64 < 192" by simp
    have "(192 + n div 64 - 192) * 64 + (128 + n mod 64 - 128) = n"
      by simp
    have u1: "unat (of_nat (192 + n div 64) :: byte) = 192 + n div 64"
      using n256 by (intro unat_of_nat_byte) linarith
    have u2: "unat (of_nat (128 + n mod 64) :: byte) = 128 + n mod 64"
      by (intro unat_of_nat_byte) linarith
    from False hi lo Cons c u1 u2 show ?thesis
      by (simp add: n_def [symmetric] Let_def del: of_nat_add)
  qed
qed

lemma hex_char_is_ascii [simp]: "n < 16 \<Longrightarrow> is_ascii (hex_char n)"
  by (simp add: hex_char_def is_ascii_def)

lemma unhex_hex_char [simp]: "n < 16 \<Longrightarrow> unhex_char (hex_char n) = n"
  by (auto simp add: hex_char_def unhex_char_def Let_def)

lemma length_hex_str [simp]: "length (hex_str bs) = 2 * length bs"
  by (induction bs) (simp_all add: hex_str_def)

lemma length_hexlify [simp]: "length (hexlify bs) = 2 * length bs"
  by (simp add: hexlify_def)

lemma hex_str_Cons [simp]:
  "hex_str (b # bs) = hex_char (unat b div 16) # hex_char (unat b mod 16) # hex_str bs"
  by (simp add: hex_str_def)

lemma hex_str_Nil [simp]: "hex_str [] = []"
  by (simp add: hex_str_def)

lemma hex_str_ascii [simp]: "list_all is_ascii (hex_str bs)"
proof (induction bs)
  case Nil
  then show ?case by simp
next
  case (Cons b bs)
  have "unat b div 16 < 16"
    using unat_byte_less [of b] by (simp add: div_less_iff_less_mult)
  with Cons show ?case by simp
qed

lemma unhex_hex_str [simp]: "unhex_str (hex_str bs) = bs"
proof (induction bs)
  case Nil
  then show ?case by simp
next
  case (Cons b bs)
  have "unat b div 16 < 16"
    using unat_byte_less [of b] by (simp add: div_less_iff_less_mult)
  then have "16 * unhex_char (hex_char (unat b div 16)) + unhex_char (hex_char (unat b mod 16))
      = unat b" by simp
  with Cons show ?case by simp
qed

lemma inj_hex_str: "inj hex_str"
  by (rule inj_on_inverseI [where g = unhex_str]) simp

lemma hex_str_eq_iff [simp]: "hex_str a = hex_str b \<longleftrightarrow> a = b"
  using inj_hex_str by (auto dest: injD)

lemma hexlify_ascii_decode [simp]: "ascii_decode (hexlify bs) = Inr (hex_str bs)"
  by (simp add: hexlify_def)

lemma hexlify_eq_iff [simp]: "hexlify a = hexlify b \<longleftrightarrow> a = b"
proof
  assume "hexlify a = hexlify b"
  then have "ascii_decode (hexlify a) = ascii_decode (hexlify b)" by simp
  then show "a = b" by simp
qed simp

lemma list_all_is_ascii_byte_hexlify [simp]: "list_all is_ascii_byte (hexlify bs)"
  by (simp add: hexlify_def list.pred_map comp_def)

lemma is_ascii_char_of_byte [simp]: "is_ascii (char_of_byte b) \<longleftrightarrow> is_ascii_byte b"
  by (simp add: is_ascii_def is_ascii_byte_def char_of_byte_def)

lemma utf8_decode_ascii [py_simps]:
  "list_all is_ascii_byte bs \<Longrightarrow> utf8_decode bs = Inr (map char_of_byte bs)"
  by (induction bs) (simp_all add: is_ascii_byte_def char_of_byte_def)

lemma utf8_encode_char_of_byte [py_simps]:
  "list_all is_ascii_byte bs \<Longrightarrow> utf8_encode (map char_of_byte bs) = bs"
proof -
  assume a: "list_all is_ascii_byte bs"
  then have "list_all is_ascii (map char_of_byte bs)"
    by (simp add: list.pred_map comp_def)
  then have "utf8_encode (map char_of_byte bs) = map byte_of_char (map char_of_byte bs)"
    by (rule utf8_encode_ascii)
  then show ?thesis by (simp add: comp_def)
qed

lemma find_append:
  "find P (xs @ ys) = (case find P xs of None \<Rightarrow> find P ys | Some x \<Rightarrow> Some x)"
  by (induction xs) auto

lemma map_of_map_filter:
  "map_of (map (\<lambda>x. (k x, v x)) (filter (\<lambda>x. k x \<noteq> i) xs)) = (map_of (map (\<lambda>x. (k x, v x)) xs))(i := None)"
  by (induction xs) (auto simp add: fun_upd_twist)

lemma map_of_map_update_other:
  assumes "\<And>x. k (h x) = k x" and "j \<noteq> i"
  shows "map_of (map (\<lambda>x. (k x, v x)) (map (\<lambda>x. if k x = i then h x else x) xs)) j =
         map_of (map (\<lambda>x. (k x, v x)) xs) j"
  using assms by (induction xs) auto

lemma map_of_map_update:
  assumes "\<And>x. k (h x) = k x" and "\<And>x. v (h x) = b" and "i \<in> k ` set xs"
  shows "map_of (map (\<lambda>x. (k x, v x)) (map (\<lambda>x. if k x = i then h x else x) xs)) =
         (map_of (map (\<lambda>x. (k x, v x)) xs))(i \<mapsto> b)"
proof
  fix j
  show "map_of (map (\<lambda>x. (k x, v x)) (map (\<lambda>x. if k x = i then h x else x) xs)) j =
        ((map_of (map (\<lambda>x. (k x, v x)) xs))(i \<mapsto> b)) j"
  proof (cases "j = i")
    case True
    from assms(3) show ?thesis unfolding True using assms(1,2) by (induction xs) auto
  next
    case False
    then show ?thesis using map_of_map_update_other [where k = k and h = h and v = v, OF assms(1) False] by simp
  qed
qed

lemma map_of_map_key:
  "distinct (map k xs) \<Longrightarrow> x \<in> set xs \<Longrightarrow> map_of (map (\<lambda>x. (k x, v x)) xs) (k x) = Some (v x)"
  by (induction xs) (auto simp add: image_iff)

lemma map_of_map_None:
  "map_of (map (\<lambda>x. (k x, v x)) xs) i = None \<longleftrightarrow> i \<notin> k ` set xs"
  by (induction xs) auto

lemma fold_upd_map_of: "fold (\<lambda>(k, v) m. m(k \<mapsto> v)) kv m0 = m0 ++ map_of (rev kv)"
proof (induction kv arbitrary: m0)
  case Nil
  then show ?case by simp
next
  case (Cons p kv)
  obtain k v where p: "p = (k, v)" by fastforce
  have "fold (\<lambda>(k, v) m. m(k \<mapsto> v)) (p # kv) m0 = fold (\<lambda>(k, v) m. m(k \<mapsto> v)) kv (m0(k \<mapsto> v))"
    by (simp add: p)
  also have "\<dots> = m0(k \<mapsto> v) ++ map_of (rev kv)"
    by (rule Cons.IH)
  also have "\<dots> = m0 ++ map_of (rev (p # kv))"
    by (simp add: p map_add_upd_left [symmetric] fun_eq_iff map_add_def split: option.splits)
  finally show ?case .
qed

end
