(* ===== verification/Password.thy ===== *)
theory Password
  imports Prelude
begin

text \<open>
  The password hasher and the password policy of \<open>src/apps/home/util.py\<close>:
  \<open>password_callable\<close> and \<open>is_valid_password\<close> (lines 65--72), \<open>hash_pass\<close>
  (lines 76--82) and \<open>verify_pass\<close> (lines 85--95).  The digests come from
  \<open>hashlib\<close>; they enter the model as an interface record \<open>hashlib\<close> with the
  contract that SHA-256 yields 32 bytes and PBKDF2-HMAC-SHA512 yields its
  default 64 bytes.  The 60 bytes of \<open>os.urandom(60)\<close> are an explicit
  argument of \<open>hash_pass\<close>.  A credential is the 64 hex digits of the salt
  followed by the 128 hex digits of the derived key, as \<open>bytes\<close>.
\<close>

record hashlib =
  sha256 :: "byte list \<Rightarrow> byte list"
  pbkdf2_hmac :: "string \<Rightarrow> byte list \<Rightarrow> byte list \<Rightarrow> nat \<Rightarrow> byte list"

definition hashlib_contract :: "hashlib \<Rightarrow> bool" where
  "hashlib_contract h \<longleftrightarrow>
     (\<forall>x. length (sha256 h x) = 32) \<and>
     (\<forall>p s n. length (pbkdf2_hmac h ''sha512'' p s n) = 64)"

subsection \<open>Hashing and verification\<close>

definition hash_pass :: "hashlib \<Rightarrow> byte list \<Rightarrow> string \<Rightarrow> py_exc + byte list" where
  "hash_pass h urandom60 password =
     sbind (ascii_encode (hex_str (sha256 h urandom60))) (\<lambda>salt.
       let pwdhash = pbkdf2_hmac h ''sha512'' (utf8_encode password) salt 100000;
           pwdhash = hexlify pwdhash
       in Inr (salt @ pwdhash))"

definition verify_pass :: "hashlib \<Rightarrow> string \<Rightarrow> byte list \<Rightarrow> py_exc + bool" where
  "verify_pass h provided_password stored_password =
     sbind (ascii_decode stored_password) (\<lambda>stored_password.
       let salt = take 64 stored_password;
           stored_password = drop 64 stored_password
       in sbind (ascii_encode salt) (\<lambda>salt_bytes.
            let pwdhash = pbkdf2_hmac h ''sha512'' (utf8_encode provided_password) salt_bytes 100000
            in sbind (ascii_decode (hexlify pwdhash)) (\<lambda>pwdhash.
                 Inr (pwdhash = stored_password))))"

text \<open>A credential as \<open>hash_pass\<close> lays it out: 192 lower-case hex digits.\<close>

definition is_hex_byte :: "byte \<Rightarrow> bool" where
  "is_hex_byte b \<longleftrightarrow> (48 \<le> unat b \<and> unat b \<le> 57) \<or> (97 \<le> unat b \<and> unat b \<le> 102)"

definition well_formed_credential :: "byte list \<Rightarrow> bool" where
  "well_formed_credential c \<longleftrightarrow> length c = 192 \<and> list_all is_hex_byte c"

subsection \<open>Password policy\<close>

text \<open>\<open>str.isdigit\<close>, \<open>str.isupper\<close>, \<open>str.isalnum\<close> on one Latin-1 character.\<close>

definition py_isdigit :: "char \<Rightarrow> bool" where
  "py_isdigit c \<longleftrightarrow> (let n = (of_char c :: nat) in (48 \<le> n \<and> n \<le> 57) \<or> n = 178 \<or> n = 179 \<or> n = 185)"

definition py_isupper :: "char \<Rightarrow> bool" where
  "py_isupper c \<longleftrightarrow> (let n = (of_char c :: nat) in
     (65 \<le> n \<and> n \<le> 90) \<or> (192 \<le> n \<and> n \<le> 214) \<or> (216 \<le> n \<and> n \<le> 222))"

definition py_isalnum :: "char \<Rightarrow> bool" where
  "py_isalnum c \<longleftrightarrow> (let n = (of_char c :: nat) in
     (48 \<le> n \<and> n \<le> 57) \<or> (65 \<le> n \<and> n \<le> 90) \<or> (97 \<le> n \<and> n \<le> 122) \<or>
     n = 170 \<or> n = 178 \<or> n = 179 \<or> n = 181 \<or> n = 185 \<or> n = 186 \<or>
     (188 \<le> n \<and> n \<le> 190) \<or> (192 \<le> n \<and> n \<le> 214) \<or> (216 \<le> n \<and> n \<le> 246) \<or> 248 \<le> n)"

definition password_callable :: "char \<Rightarrow> bool" where
  "password_callable character \<longleftrightarrow>
     py_isdigit character \<or> py_isupper character \<or> \<not> py_isalnum character"

text \<open>
  \<open>any(lambda a: password_callable(char) for char in password)\<close> iterates over
  a generator of function objects, one per character; \<open>any\<close> tests their
  truth value, and a function object is always true.  The values the
  generator yields are modelled as Python objects.
\<close>

datatype pyobj = PyBool bool | PyFunction "char \<Rightarrow> bool"

fun truthy :: "pyobj \<Rightarrow> bool" where
  "truthy (PyBool b) = b"
| "truthy (PyFunction f) = True"

definition py_any :: "pyobj list \<Rightarrow> bool" where
  "py_any xs = list_ex truthy xs"

text \<open>
  \<open>any\<close> as Python runs it: it calls \<open>next\<close> on the iterator until
  \<open>StopIteration\<close> (\<open>None\<close> here) or a true value.  On an iterator that
  never stops and never yields a true value it runs forever, so it is a
  partial function: \<open>None\<close> is "does not return".  The generator expression
  of \<open>is_valid_password\<close> is the iterator \<open>password_gen\<close>, whose state is
  the characters not yet consumed.
\<close>

partial_function (option) py_any_iter :: "('s \<Rightarrow> (pyobj \<times> 's) option) \<Rightarrow> 's \<Rightarrow> bool option" where
  "py_any_iter next_item s =
     (case next_item s of
        None \<Rightarrow> Some False
      | Some (x, s') \<Rightarrow> if truthy x then Some True else py_any_iter next_item s')"

definition password_gen :: "string \<Rightarrow> (pyobj \<times> string) option" where
  "password_gen cs =
     (case cs of [] \<Rightarrow> None | char # cs' \<Rightarrow> Some (PyFunction (\<lambda>a. password_callable char), cs'))"

definition is_valid_password :: "string \<Rightarrow> bool" where
  "is_valid_password password =
     (if length password < 8 then False
      else py_any (map (\<lambda>char. PyFunction (\<lambda>a. password_callable char)) password))"

text \<open>An executable \<open>hashlib\<close> that meets the contract, for the witnesses.\<close>

definition toy_hashlib :: hashlib where
  "toy_hashlib =
     \<lparr>sha256 = (\<lambda>x. take 32 (x @ replicate 32 0)),
      pbkdf2_hmac = (\<lambda>name p s n. take 64 (p @ s @ replicate 64 0))\<rparr>"

subsection \<open>Lemmas\<close>

lemma hashlib_contractD:
  assumes "hashlib_contract h"
  shows "length (sha256 h x) = 32" and "length (pbkdf2_hmac h ''sha512'' p s n) = 64"
  using assms by (simp_all add: hashlib_contract_def)

lemma hash_pass_eq:
  "hash_pass h r pw =
     Inr (hexlify (sha256 h r) @
          hexlify (pbkdf2_hmac h ''sha512'' (utf8_encode pw) (hexlify (sha256 h r)) 100000))"
  by (simp add: hash_pass_def hexlify_def)

lemma ascii_decode_hexlify_append:
  "ascii_decode (hexlify a @ hexlify b) = Inr (hex_str a @ hex_str b)"
  by (simp add: ascii_decode_def hexlify_def list.pred_map comp_def)

lemma verify_pass_hexlify:
  assumes "length s = 32"
  shows "verify_pass h pw (hexlify s @ hexlify d) =
           Inr (pbkdf2_hmac h ''sha512'' (utf8_encode pw) (hexlify s) 100000 = d)"
proof -
  have "take 64 (hex_str s @ hex_str d) = hex_str s" and "drop 64 (hex_str s @ hex_str d) = hex_str d"
    using assms by simp_all
  then show ?thesis
    by (simp add: verify_pass_def ascii_decode_hexlify_append hexlify_def [symmetric])
qed

lemma is_hex_byte_hexlify: "list_all is_hex_byte (hexlify bs)"
proof (induction bs)
  case Nil
  then show ?case by (simp add: hexlify_def)
next
  case (Cons b bs)
  have "unat b div 16 < 16"
    using unat_byte_less [of b] by (simp add: div_less_iff_less_mult)
  moreover have "is_hex_byte (byte_of_char (hex_char n))" if "n < 16" for n
    using that by (auto simp add: hex_char_def is_hex_byte_def)
  ultimately show ?case using Cons by (simp add: hexlify_def)
qed

lemma list_all_ascii_take [simp]:
  "list_all is_ascii_byte bs \<Longrightarrow> list_all is_ascii (take n (map char_of_byte bs))"
  unfolding take_map by (auto simp add: list_all_iff dest: in_set_takeD)

lemma verify_pass_of_hash:
  assumes "hashlib_contract h" and "hash_pass h r pw = Inr c"
  shows "verify_pass h pw c = Inr True"
proof -
  have "c = hexlify (sha256 h r) @ hexlify (pbkdf2_hmac h ''sha512'' (utf8_encode pw) (hexlify (sha256 h r)) 100000)"
    using assms(2) by (simp add: hash_pass_eq)
  then show ?thesis using verify_pass_hexlify [OF hashlib_contractD(1) [OF assms(1)]] by simp
qed

lemma py_any_lambdas:
  "py_any (map (\<lambda>char. PyFunction (\<lambda>a. password_callable char)) pw) \<longleftrightarrow> pw \<noteq> []"
  by (induction pw) (simp_all add: py_any_def)

lemma toy_hashlib_contract: "hashlib_contract toy_hashlib"
  by (auto simp add: hashlib_contract_def toy_hashlib_def min_def)

subsection \<open>Properties\<close>

text \<open>
  C3. Verification accepts the password a credential was made from: hashing
  never fails, and \<open>verify_pass\<close> of the same password against the result
  returns \<open>True\<close>, whatever salt was drawn.
\<close>

theorem verify_pass_hash_pass:
  assumes "hashlib_contract h"
  shows "\<exists>c. hash_pass h r pw = Inr c \<and> verify_pass h pw c = Inr True"
  using verify_pass_hexlify [OF hashlib_contractD(1) [OF assms]] by (simp add: hash_pass_eq)

theorem verify_pass_hash_pass_witness:
  "hashlib_contract toy_hashlib \<and>
   (\<exists>c. hash_pass toy_hashlib (replicate 60 7) ''secret'' = Inr c \<and>
        verify_pass toy_hashlib ''secret'' c = Inr True)"
  using verify_pass_hash_pass [OF toy_hashlib_contract] toy_hashlib_contract by blast

text \<open>
  C22. What verification decides: against a credential made from password
  \<open>pw\<close>, a candidate \<open>pw'\<close> is accepted exactly when PBKDF2 with the stored
  salt derives the same key from both; it re-derives with the salt stored in the
  credential, never a fresh one.
\<close>

theorem verify_pass_iff:
  assumes "hashlib_contract h" and "hash_pass h r pw = Inr c"
  shows "verify_pass h pw' c =
           Inr (pbkdf2_hmac h ''sha512'' (utf8_encode pw') (take 64 c) 100000 =
                pbkdf2_hmac h ''sha512'' (utf8_encode pw) (take 64 c) 100000)"
proof -
  have len: "length (sha256 h r) = 32" using assms(1) by (rule hashlib_contractD)
  from assms(2) have c: "c = hexlify (sha256 h r) @
      hexlify (pbkdf2_hmac h ''sha512'' (utf8_encode pw) (hexlify (sha256 h r)) 100000)"
    by (simp add: hash_pass_eq)
  with len show ?thesis by (simp add: verify_pass_hexlify)
qed

theorem verify_pass_iff_witness:
  "hashlib_contract toy_hashlib \<and>
   hash_pass toy_hashlib [] ''secret'' =
     Inr (hexlify (sha256 toy_hashlib []) @
          hexlify (pbkdf2_hmac toy_hashlib ''sha512'' (utf8_encode ''secret'') (hexlify (sha256 toy_hashlib [])) 100000)) \<and>
   verify_pass toy_hashlib ''wrong''
     (hexlify (sha256 toy_hashlib []) @
      hexlify (pbkdf2_hmac toy_hashlib ''sha512'' (utf8_encode ''secret'') (hexlify (sha256 toy_hashlib [])) 100000)) = Inr False"
proof -
  let ?s = "hexlify (sha256 toy_hashlib [])"
  let ?c = "?s @ hexlify (pbkdf2_hmac toy_hashlib ''sha512'' (utf8_encode ''secret'') ?s 100000)"
  have h: "hash_pass toy_hashlib [] ''secret'' = Inr ?c" by (rule hash_pass_eq)
  have "length ?s = 64" using hashlib_contractD(1) [OF toy_hashlib_contract] by simp
  then have t: "take 64 ?c = ?s" by simp
  have d: "pbkdf2_hmac toy_hashlib ''sha512'' (utf8_encode ''wrong'') ?s 100000 \<noteq>
           pbkdf2_hmac toy_hashlib ''sha512'' (utf8_encode ''secret'') ?s 100000"
    by (simp add: toy_hashlib_def)
  have "verify_pass toy_hashlib ''wrong'' ?c = Inr False"
    using verify_pass_iff [OF toy_hashlib_contract h, of "''wrong''"] t d by simp
  with toy_hashlib_contract h show ?thesis by (intro conjI)
qed

text \<open>
  C24. Every credential \<open>hash_pass\<close> produces is well formed: 192 lower-case
  hex digits, the 64 of the salt followed by the 128 of the derived key.
\<close>

theorem hash_pass_well_formed:
  assumes "hashlib_contract h" and "hash_pass h r pw = Inr c"
  shows "well_formed_credential c"
proof -
  from assms(2) have c: "c = hexlify (sha256 h r) @
      hexlify (pbkdf2_hmac h ''sha512'' (utf8_encode pw) (hexlify (sha256 h r)) 100000)"
    by (simp add: hash_pass_eq)
  with hashlib_contractD [OF assms(1)] show ?thesis
    by (simp add: well_formed_credential_def is_hex_byte_hexlify)
qed

theorem hash_pass_well_formed_witness:
  "hashlib_contract toy_hashlib \<and>
   hash_pass toy_hashlib [] ''pw'' =
     Inr (hexlify (sha256 toy_hashlib []) @
          hexlify (pbkdf2_hmac toy_hashlib ''sha512'' (utf8_encode ''pw'') (hexlify (sha256 toy_hashlib [])) 100000)) \<and>
   well_formed_credential (hexlify (sha256 toy_hashlib []) @
          hexlify (pbkdf2_hmac toy_hashlib ''sha512'' (utf8_encode ''pw'') (hexlify (sha256 toy_hashlib [])) 100000))"
proof -
  have h: "hash_pass toy_hashlib [] ''pw'' =
     Inr (hexlify (sha256 toy_hashlib []) @
          hexlify (pbkdf2_hmac toy_hashlib ''sha512'' (utf8_encode ''pw'') (hexlify (sha256 toy_hashlib [])) 100000))"
    by (rule hash_pass_eq)
  from toy_hashlib_contract h have "well_formed_credential (hexlify (sha256 toy_hashlib []) @
          hexlify (pbkdf2_hmac toy_hashlib ''sha512'' (utf8_encode ''pw'') (hexlify (sha256 toy_hashlib [])) 100000))"
    by (rule hash_pass_well_formed)
  with toy_hashlib_contract h show ?thesis by (intro conjI)
qed

text \<open>
  C25. Hashing is not deterministic: two salts whose SHA-256 digests differ give
  two different credentials for the same password.
\<close>

theorem hash_pass_salt_distinct:
  assumes "hashlib_contract h" and "sha256 h r1 \<noteq> sha256 h r2"
  shows "hash_pass h r1 pw \<noteq> hash_pass h r2 pw"
proof
  assume eq: "hash_pass h r1 pw = hash_pass h r2 pw"
  have l1: "length (hexlify (sha256 h r1)) = 64" and l2: "length (hexlify (sha256 h r2)) = 64"
    using hashlib_contractD(1) [OF assms(1)] by simp_all
  from eq have "take 64 (hexlify (sha256 h r1) @ hexlify (pbkdf2_hmac h ''sha512'' (utf8_encode pw) (hexlify (sha256 h r1)) 100000))
      = take 64 (hexlify (sha256 h r2) @ hexlify (pbkdf2_hmac h ''sha512'' (utf8_encode pw) (hexlify (sha256 h r2)) 100000))"
    by (simp add: hash_pass_eq)
  with l1 l2 have "hexlify (sha256 h r1) = hexlify (sha256 h r2)" by simp
  with assms(2) show False by simp
qed

theorem hash_pass_salt_distinct_witness:
  "hashlib_contract toy_hashlib \<and> sha256 toy_hashlib [1] \<noteq> sha256 toy_hashlib [2] \<and>
   hash_pass toy_hashlib [1] ''secret'' \<noteq> hash_pass toy_hashlib [2] ''secret''"
proof -
  have d: "sha256 toy_hashlib [1] \<noteq> sha256 toy_hashlib [2]" by (simp add: toy_hashlib_def)
  show ?thesis using hash_pass_salt_distinct [OF toy_hashlib_contract d] toy_hashlib_contract d
    by simp
qed

text \<open>
  C35. A malformed ASCII credential (any length but 192) is answered with
  \<open>False\<close>, exactly like a wrong password: \<open>verify_pass\<close> raises no
  \<open>MalformedCredentialError\<close>, although the specification (section 4.1) asks
  for one.
\<close>

theorem verify_pass_malformed:
  assumes "hashlib_contract h" and "list_all is_ascii_byte stored"
    and "length stored \<noteq> 192"
  shows "verify_pass h pw stored = Inr False"
proof -
  let ?salt = "map byte_of_char (take 64 (map char_of_byte stored))"
  have "length (hex_str (pbkdf2_hmac h ''sha512'' (utf8_encode pw) ?salt 100000)) = 128"
    using hashlib_contractD(2) [OF assms(1)] by simp
  moreover have "length (drop 64 (map char_of_byte stored)) \<noteq> 128"
    using assms(3) by simp
  ultimately have "hex_str (pbkdf2_hmac h ''sha512'' (utf8_encode pw) ?salt 100000)
      \<noteq> drop 64 (map char_of_byte stored)" by metis
  moreover have "ascii_decode stored = Inr (map char_of_byte stored)"
    using assms(2) by (simp add: ascii_decode_def)
  ultimately show ?thesis
    using assms(2) by (simp add: verify_pass_def Let_def)
qed

theorem verify_pass_malformed_witness:
  "hashlib_contract toy_hashlib \<and> list_all is_ascii_byte (utf8_encode ''too-short'') \<and>
   length (utf8_encode ''too-short'') \<noteq> 192 \<and>
   verify_pass toy_hashlib ''anything'' (utf8_encode ''too-short'') = Inr False"
proof -
  have a: "list_all is_ascii_byte (utf8_encode ''too-short'')" by code_simp
  have l: "length (utf8_encode ''too-short'') \<noteq> 192" by code_simp
  show ?thesis using verify_pass_malformed [OF toy_hashlib_contract a l] toy_hashlib_contract a l
    by simp
qed

text \<open>
  C36. A stored credential with a byte above 127 makes \<open>verify_pass\<close> raise
  \<open>UnicodeDecodeError\<close> (from \<open>stored_password.decode("ascii")\<close>) instead of
  answering.
\<close>

theorem verify_pass_non_ascii:
  assumes "\<not> list_all is_ascii_byte stored"
  shows "verify_pass h pw stored = Inl UnicodeDecodeError"
  using assms by (simp add: verify_pass_def ascii_decode_def)

theorem verify_pass_non_ascii_witness:
  "verify_pass toy_hashlib ''pw'' [200] = Inl UnicodeDecodeError"
proof -
  have "\<not> list_all is_ascii_byte [200 :: byte]" by (simp add: is_ascii_byte_def)
  then show ?thesis by (rule verify_pass_non_ascii)
qed

text \<open>
  The password policy checks only the length: \<open>is_valid_password\<close>
  accepts every string of at least 8 characters, since the generator passed to
  \<open>any\<close> yields function objects, which are always true, and never calls
  \<open>password_callable\<close>.  (The error message the register handler shows
  asks for 6 characters, a digit, an upper-case letter and a symbol.)
\<close>

theorem is_valid_password_length: "is_valid_password pw \<longleftrightarrow> 8 \<le> length pw"
  using py_any_lambdas [of pw] by (auto simp add: is_valid_password_def)

text \<open>
  C38. Termination of \<open>any\<close> over the password's generator: it returns for
  every password, after a single call of \<open>next\<close> (the first function
  object is already true), with \<open>True\<close> exactly for a non-empty password;
  and \<open>is_valid_password\<close> is the length check joined with that result.
\<close>

theorem password_any_terminates:
  "py_any_iter password_gen pw = Some (pw \<noteq> []) \<and>
   (is_valid_password pw \<longleftrightarrow> 8 \<le> length pw \<and> py_any_iter password_gen pw = Some True)"
proof -
  have it: "py_any_iter password_gen pw = Some (pw \<noteq> [])"
    by (cases pw) (simp_all add: py_any_iter.simps password_gen_def)
  moreover have "is_valid_password pw \<longleftrightarrow> 8 \<le> length pw \<and> pw \<noteq> []"
    using py_any_lambdas [of pw] by (auto simp add: is_valid_password_def)
  ultimately show ?thesis by auto
qed

end
