(* ===== verification/PyInt.thy ===== *)
theory PyInt
  imports Prelude
begin

text \<open>
  Python's decimal conversions of \<open>int\<close>, as \<open>src/apps/home/util.py\<close> uses
  them: \<open>str(order_id)\<close> in \<open>encrypt_order_id\<close> (line 22) and \<open>int(...)\<close> in
  \<open>decrypt_order_id\<close> (line 27).  \<open>int(s)\<close> strips the white space Python
  strips around a number (code points 9--13, 32, 133 and 160 in Latin-1),
  takes an optional sign and then needs one or more decimal digits, where
  single underscores may separate digits.  Everything else raises
  \<open>ValueError\<close>.  The main fact is the round trip \<open>int(str(n)) = n\<close>.
  The theory also says which values \<open>float()\<close> converts, as SQLAlchemy's
  \<open>Numeric\<close> bind processor applies it to an order's total price.
\<close>

definition digit_char :: "nat \<Rightarrow> char" where
  "digit_char d = char_of (48 + d)"

definition is_digit :: "char \<Rightarrow> bool" where
  "is_digit c \<longleftrightarrow> 48 \<le> (of_char c :: nat) \<and> (of_char c :: nat) \<le> 57"

definition digit_val :: "char \<Rightarrow> nat" where
  "digit_val c = of_char c - 48"

text \<open>\<open>str(n)\<close> for \<open>n \<ge> 0\<close>: the most significant digit first.\<close>

fun dec_str :: "nat \<Rightarrow> string" where
  "dec_str n = (if n < 10 then [digit_char n] else dec_str (n div 10) @ [digit_char (n mod 10)])"

declare dec_str.simps [simp del]

definition py_str_int :: "int \<Rightarrow> string" where
  "py_str_int i = (if i < 0 then CHR ''-'' # dec_str (nat (- i)) else dec_str (nat i))"

definition is_int_space :: "char \<Rightarrow> bool" where
  "is_int_space c \<longleftrightarrow>
     (let n = (of_char c :: nat) in (9 \<le> n \<and> n \<le> 13) \<or> n = 32 \<or> n = 133 \<or> n = 160)"

definition strip_int_space :: "string \<Rightarrow> string" where
  "strip_int_space s = rev (dropWhile is_int_space (rev (dropWhile is_int_space s)))"

text \<open>The digit part: digits, single underscores allowed between two digits.\<close>

fun dec_ok :: "string \<Rightarrow> bool" where
  "dec_ok [] = False"
| "dec_ok [c] = is_digit c"
| "dec_ok (c # d # cs) = (is_digit c \<and> (if d = CHR ''_'' then dec_ok cs else dec_ok (d # cs)))"

definition dec_value :: "string \<Rightarrow> nat" where
  "dec_value cs = foldl (\<lambda>acc c. 10 * acc + digit_val c) 0 (filter (\<lambda>c. c \<noteq> CHR ''_'') cs)"

definition py_int :: "string \<Rightarrow> py_exc + int" where
  "py_int s =
     (let t = strip_int_space s in
      case t of
        [] \<Rightarrow> Inl ValueError
      | c # cs \<Rightarrow>
          (if c = CHR ''-'' then (if dec_ok cs then Inr (- int (dec_value cs)) else Inl ValueError)
           else if c = CHR ''+'' then (if dec_ok cs then Inr (int (dec_value cs)) else Inl ValueError)
           else if dec_ok t then Inr (int (dec_value t)) else Inl ValueError))"

subsection \<open>\<open>float()\<close>\<close>

text \<open>
  \<open>float(s)\<close> on a string, as SQLAlchemy's \<open>Numeric\<close> bind processor calls
  it: the same white space is stripped as for \<open>int()\<close>, then an optional
  sign and either \<open>inf\<close>, \<open>infinity\<close> or \<open>nan\<close> in any case, or a
  decimal literal: digits with an optional fraction (at least one digit on
  one side of the point) and an optional exponent \<open>e\<close>/\<open>E\<close> with an
  optional sign.  Single underscores may separate digits.  Any other string
  raises \<open>ValueError\<close>.
\<close>

definition float_unsigned :: "string \<Rightarrow> string" where
  "float_unsigned s =
     (let t = strip_int_space s in
      case t of c # cs \<Rightarrow> if c = CHR ''+'' \<or> c = CHR ''-'' then cs else t | [] \<Rightarrow> [])"

definition float_mantissa_ok :: "string \<Rightarrow> bool" where
  "float_mantissa_ok m =
     (let a = takeWhile (\<lambda>c. c \<noteq> CHR ''.'') m; b = dropWhile (\<lambda>c. c \<noteq> CHR ''.'') m in
      case b of
        [] \<Rightarrow> dec_ok a
      | _ # f \<Rightarrow> (dec_ok a \<and> (f = [] \<or> dec_ok f)) \<or> (a = [] \<and> dec_ok f))"

definition float_exponent_ok :: "string \<Rightarrow> bool" where
  "float_exponent_ok e =
     (case e of
        [] \<Rightarrow> True
      | _ # x \<Rightarrow> (case x of c # cs \<Rightarrow> if c = CHR ''+'' \<or> c = CHR ''-'' then dec_ok cs else dec_ok x | [] \<Rightarrow> False))"

definition py_float_str_ok :: "string \<Rightarrow> bool" where
  "py_float_str_ok s =
     (let u = float_unsigned s; isexp = (\<lambda>c. c = CHR ''e'' \<or> c = CHR ''E'') in
      sql_lower u \<in> {''inf'', ''infinity'', ''nan''} \<or>
      (float_mantissa_ok (takeWhile (\<lambda>c. \<not> isexp c) u) \<and> float_exponent_ok (dropWhile (\<lambda>c. \<not> isexp c) u)))"

definition py_float_nan :: "string \<Rightarrow> bool" where
  "py_float_nan s \<longleftrightarrow> sql_lower (float_unsigned s) = ''nan''"

text \<open>
  \<open>float(n)\<close> of an \<open>int\<close> rounds to the nearest double and raises
  \<open>OverflowError\<close> when that is infinite: from \<open>2^1024 - 2^970\<close> on, the
  half-way point above the largest double.
\<close>

definition py_float_int_ok :: "int \<Rightarrow> bool" where
  "py_float_int_ok n \<longleftrightarrow> \<bar>n\<bar> < 2 ^ 1024 - 2 ^ 970"

subsection \<open>Lemmas\<close>

lemma is_digit_digit_char [simp]: "d < 10 \<Longrightarrow> is_digit (digit_char d)"
  by (simp add: is_digit_def digit_char_def)

lemma digit_val_digit_char [simp]: "d < 10 \<Longrightarrow> digit_val (digit_char d) = d"
  by (simp add: digit_val_def digit_char_def)

lemma digit_not_space [simp]: "is_digit c \<Longrightarrow> \<not> is_int_space c"
  by (auto simp add: is_digit_def is_int_space_def Let_def)

lemma digit_not_underscore [simp]: "is_digit c \<Longrightarrow> c \<noteq> CHR ''_''"
  by (auto simp add: is_digit_def)

lemma digit_not_sign [simp]:
  "is_digit c \<Longrightarrow> c \<noteq> CHR ''-''"
  "is_digit c \<Longrightarrow> c \<noteq> CHR ''+''"
  by (auto simp add: is_digit_def)

lemma dec_str_digits: "list_all is_digit (dec_str n)"
  by (induction n rule: dec_str.induct) (simp add: dec_str.simps)

lemma dec_str_not_Nil [simp]: "dec_str n \<noteq> []"
  by (simp add: dec_str.simps)

lemma dec_str_value: "foldl (\<lambda>acc c. 10 * acc + digit_val c) 0 (dec_str n) = n"
proof (induction n rule: dec_str.induct)
  case (1 n)
  show ?case
  proof (cases "n < 10")
    case True
    then show ?thesis by (simp add: dec_str.simps)
  next
    case False
    with "1.IH" show ?thesis by (simp add: dec_str.simps [of n])
  qed
qed

lemma dec_ok_digits: "list_all is_digit cs \<Longrightarrow> cs \<noteq> [] \<Longrightarrow> dec_ok cs"
  by (induction cs rule: dec_ok.induct) auto

lemma dec_value_digits:
  "list_all is_digit cs \<Longrightarrow> dec_value cs = foldl (\<lambda>acc c. 10 * acc + digit_val c) 0 cs"
proof -
  assume "list_all is_digit cs"
  then have "filter (\<lambda>c. c \<noteq> CHR ''_'') cs = cs"
    by (induction cs) auto
  then show ?thesis by (simp add: dec_value_def)
qed

lemma dropWhile_digit_first:
  "cs \<noteq> [] \<Longrightarrow> \<not> is_int_space (hd cs) \<Longrightarrow> dropWhile is_int_space cs = cs"
  by (cases cs) auto

lemma strip_int_space_dec_str: "strip_int_space (dec_str n) = dec_str n"
proof -
  have d: "list_all is_digit (dec_str n)" by (rule dec_str_digits)
  have "hd (dec_str n) \<in> set (dec_str n)" by simp
  with d have h: "\<not> is_int_space (hd (dec_str n))"
    by (auto simp add: list_all_iff)
  have "last (dec_str n) \<in> set (dec_str n)" by simp
  with d have l: "\<not> is_int_space (hd (rev (dec_str n)))"
    by (auto simp add: list_all_iff hd_rev)
  from h l show ?thesis
    by (simp add: strip_int_space_def dropWhile_digit_first)
qed

lemma strip_int_space_neg_dec_str:
  "strip_int_space (CHR ''-'' # dec_str n) = CHR ''-'' # dec_str n"
proof -
  have d: "list_all is_digit (dec_str n)" by (rule dec_str_digits)
  have "last (dec_str n) \<in> set (dec_str n)" by simp
  with d have l: "\<not> is_int_space (hd (rev (dec_str n)))"
    by (auto simp add: list_all_iff hd_rev)
  have m: "\<not> is_int_space (CHR ''-'')" by (simp add: is_int_space_def)
  from l m show ?thesis
    by (simp add: strip_int_space_def dropWhile_digit_first)
qed

lemma py_int_digits:
  assumes "list_all is_digit cs" and "cs \<noteq> []" and "strip_int_space cs = cs"
  shows "py_int cs = Inr (int (foldl (\<lambda>acc c. 10 * acc + digit_val c) 0 cs))"
proof (cases cs)
  case Nil
  with assms(2) show ?thesis by simp
next
  case (Cons c cs')
  with assms(1) have "is_digit c" by simp
  with assms Cons show ?thesis
    by (simp add: py_int_def dec_ok_digits dec_value_digits)
qed

lemma py_int_dec_str: "py_int (dec_str n) = Inr (int n)"
  using py_int_digits [OF dec_str_digits dec_str_not_Nil strip_int_space_dec_str]
  by (simp add: dec_str_value)

lemma py_int_neg_dec_str: "py_int (CHR ''-'' # dec_str n) = Inr (- int n)"
proof -
  have d: "list_all is_digit (dec_str n)" by (rule dec_str_digits)
  then show ?thesis
    by (simp add: py_int_def strip_int_space_neg_dec_str dec_ok_digits dec_value_digits
        dec_str_value)
qed

lemma py_str_int_ascii [simp]: "list_all is_ascii (py_str_int i)"
proof -
  have "list_all is_ascii (dec_str n)" for n
    using dec_str_digits [of n]
    by (auto simp add: list_all_iff is_digit_def is_ascii_def)
  then show ?thesis by (simp add: py_str_int_def is_ascii_def)
qed

end
