(* ===== verification/Models.thy ===== *)
theory Models
  imports Password PyInt
begin

text \<open>
  The ORM layer of \<open>src/apps/home/models.py\<close> as the handlers use it.  A row
  of \<open>jd_users\<close> is the record \<open>user\<close> and a row of \<open>jd_orders\<close> the
  record \<open>order\<close> (field names prefixed \<open>u_\<close>/\<open>o_\<close>, since \<open>id\<close>,
  \<open>email\<close>, \<open>username\<close> are also local names in the handlers).  A table is
  the list of its rows in rowid order, which is the order SQLite returns
  them in for the queries of this application, so that \<open>.first()\<close> is
  \<open>find\<close>.  An INSERT takes the next rowid (one more than the largest) and
  checks the table's NOT NULL and UNIQUE constraints, failing with
  \<open>IntegrityError\<close>; Python's \<open>None\<close> is \<open>None\<close> (or \<open>JNull\<close> for values
  that arrive as JSON).  The login manager's \<open>user_loader\<close> and
  \<open>request_loader\<close> (lines 202--211) are queries on this database.
  \<open>SocialMediaChannel\<close>, \<open>AssignedPricingTask\<close>, \<open>PaymentInformation\<close>,
  \<open>Subscription\<close>, \<open>UserAccountMonitor\<close> and \<open>OrderItem\<close> rows are never
  written by any handler that can succeed, and are left out.
\<close>

datatype jval =
    JNull
  | JBool bool
  | JInt int
  | JStr string
  | JList "jval list"
  | JObj "(string \<times> jval) list"

record user =
  u_id :: nat
  u_first_name :: string
  u_last_name :: string
  u_email :: string
  u_username :: string
  u_biography :: "string option"
  u_house_address :: "string option"
  u_is_active :: bool
  u_is_admin :: bool
  u_password :: "byte list"

record order =
  o_id :: nat
  o_user_id :: jval
  o_order_date :: nat
  o_total_price :: jval
  o_payment_status :: bool

record db =
  users :: "user list"
  orders :: "order list"

subsection \<open>Constructors and methods\<close>

text \<open>\<open>User.__init__\<close>: \<open>biography\<close> is never set, so it stays \<open>None\<close>.\<close>

definition user_init ::
  "hashlib \<Rightarrow> byte list \<Rightarrow> string \<Rightarrow> string \<Rightarrow> string \<Rightarrow> string \<Rightarrow> string \<Rightarrow> py_exc + user" where
  "user_init h urandom60 first_name last_name username email password =
     sbind (hash_pass h urandom60 password) (\<lambda>pw.
       Inr \<lparr>u_id = 0, u_first_name = first_name, u_last_name = last_name, u_email = email,
            u_username = username, u_biography = None, u_house_address = None,
            u_is_active = True, u_is_admin = False, u_password = pw\<rparr>)"

definition user_set_password :: "hashlib \<Rightarrow> byte list \<Rightarrow> user \<Rightarrow> string \<Rightarrow> py_exc + user" where
  "user_set_password h urandom60 u plain_password =
     sbind (hash_pass h urandom60 plain_password) (\<lambda>pw. Inr (u\<lparr>u_password := pw\<rparr>))"

definition opt_json :: "string option \<Rightarrow> jval" where
  "opt_json v = (case v of None \<Rightarrow> JNull | Some s \<Rightarrow> JStr s)"

definition user_format :: "user \<Rightarrow> jval" where
  "user_format u =
     JObj [(''id'', JInt (int (u_id u))), (''first_name'', JStr (u_first_name u)),
           (''last_name'', JStr (u_last_name u)), (''username'', JStr (u_username u)),
           (''email'', JStr (u_email u)), (''house_address'', opt_json (u_house_address u)),
           (''is_active'', JBool (u_is_active u)), (''is_admin'', JBool (u_is_admin u))]"

definition order_init :: "jval \<Rightarrow> nat \<Rightarrow> jval \<Rightarrow> order" where
  "order_init user_id order_date total_price =
     \<lparr>o_id = 0, o_user_id = user_id, o_order_date = order_date,
      o_total_price = total_price, o_payment_status = False\<rparr>"

text \<open>
  \<open>User.get_id\<close> (what flask_login stores in the session) and the
  \<open>User.name\<close> property.
\<close>

definition user_get_id :: "user \<Rightarrow> string" where
  "user_get_id u = py_str_int (int (u_id u))"

definition user_name :: "user \<Rightarrow> string" where
  "user_name u = u_first_name u @ '' '' @ u_last_name u"

text \<open>\<open>Order.format\<close>; the order date is the time stamp the model keeps for it.\<close>

definition order_format :: "order \<Rightarrow> jval" where
  "order_format r =
     JObj [(''orderId'', JInt (int (o_id r))), (''userId'', o_user_id r),
           (''orderDate'', JInt (int (o_order_date r))), (''totalPrice'', o_total_price r),
           (''paymentStatus'', JBool (o_payment_status r))]"

text \<open>\<open>Order.__repr__\<close> of a stored row, whose id is an integer.\<close>

definition order_repr :: "order \<Rightarrow> string" where
  "order_repr r = py_str_int (int (o_id r))"

subsection \<open>Tables no handler writes\<close>

text \<open>
  The remaining tables of \<open>models.py\<close>, column for column (\<open>Integer\<close> as
  \<open>nat\<close>, \<open>String\<close> as \<open>string\<close>, \<open>DateTime\<close> as a time stamp,
  \<open>Numeric\<close> as the JSON value it arrives as, a nullable column as an
  \<open>option\<close>).  No view of \<open>routes.py\<close> that can complete inserts a row
  into any of them, so they are not part of the database state \<open>db\<close>: in
  every state reached from empty tables they stay empty, and the
  \<open>delete-orphan\<close> cascades of \<open>User\<close> and \<open>Order\<close> delete nothing.
\<close>

record user_account_monitor =
  uam_ID :: nat
  uam_user_id :: nat
  uam_api_key :: string
  uam_secret_key :: string
  uam_passphrase :: string
  uam_exchange_name :: string
  uam_trade_type :: "nat option"
  uam_task_status :: nat
  uam_date_added :: nat
  uam_date_updated :: nat

record subscription =
  sub_ID :: nat
  sub_user_id :: nat
  sub_is_active :: bool
  sub_start_date :: nat
  sub_end_date :: "nat option"
  sub_date_subscribed :: nat
  sub_type :: string

record social_media_channel =
  smc_ID :: nat
  smc_user_id :: nat
  smc_channel_name :: string
  smc_username :: string

text \<open>The \<open>sm_unique_constraint\<close> on (user, channel, username) of \<open>SocialMediaChannel\<close>.\<close>

definition social_media_unique :: "social_media_channel list \<Rightarrow> bool" where
  "social_media_unique rows =
     distinct (map (\<lambda>r. (smc_user_id r, smc_channel_name r, smc_username r)) rows)"

record assigned_pricing_task =
  apt_id :: nat
  apt_user_id :: nat
  apt_date_created :: nat
  apt_date_updated :: nat
  apt_symbols :: string
  apt_trade_type :: string
  apt_exchange :: string
  apt_percentage :: "nat option"
  apt_direction :: "string option"
  apt_time_ms :: "nat option"
  apt_duration :: "string option"
  apt_status :: "string option"

text \<open>The column defaults of \<open>AssignedPricingTask\<close> for a row created at time \<open>now\<close>.\<close>

definition pricing_task_defaults :: "nat \<Rightarrow> nat \<Rightarrow> nat \<Rightarrow> string \<Rightarrow> assigned_pricing_task" where
  "pricing_task_defaults i user_id now exchange =
     \<lparr>apt_id = i, apt_user_id = user_id, apt_date_created = now, apt_date_updated = now,
      apt_symbols = ''BTCUSDT'', apt_trade_type = ''spot'', apt_exchange = exchange,
      apt_percentage = None, apt_direction = None, apt_time_ms = None, apt_duration = None,
      apt_status = None\<rparr>"

record payment_information =
  pi_id :: nat
  pi_belongs_to :: "nat option"
  pi_name_on_card :: string
  pi_card_number :: string
  pi_cvv2 :: string
  pi_expiry_month :: nat
  pi_expiry_year :: nat

record order_item =
  oi_id :: nat
  oi_order_id :: nat
  oi_quantity :: nat
  oi_price :: jval

definition order_item_init :: "nat \<Rightarrow> nat \<Rightarrow> jval \<Rightarrow> order_item" where
  "order_item_init order_id quantity price =
     \<lparr>oi_id = 0, oi_order_id = order_id, oi_quantity = quantity, oi_price = price\<rparr>"

definition order_item_format :: "order_item \<Rightarrow> jval" where
  "order_item_format r =
     JObj [(''orderItemId'', JInt (int (oi_id r))), (''orderId'', JInt (int (oi_order_id r))),
           (''quantity'', JInt (int (oi_quantity r))), (''price'', oi_price r)]"

definition order_item_repr :: "order_item \<Rightarrow> string" where
  "order_item_repr r = py_str_int (int (oi_id r))"

subsection \<open>Queries\<close>

definition query_get_user :: "db \<Rightarrow> nat \<Rightarrow> user option" where
  "query_get_user d i = find (\<lambda>u. u_id u = i) (users d)"

definition first_by_username :: "db \<Rightarrow> string \<Rightarrow> user option" where
  "first_by_username d n = find (\<lambda>u. u_username u = n) (users d)"

definition first_by_email :: "db \<Rightarrow> string \<Rightarrow> user option" where
  "first_by_email d e = find (\<lambda>u. u_email u = e) (users d)"

text \<open>\<open>filter(func.lower(User.username) == func.lower(username)).first()\<close>\<close>

definition first_by_lower_username :: "db \<Rightarrow> string \<Rightarrow> user option" where
  "first_by_lower_username d n = find (\<lambda>u. sql_lower (u_username u) = sql_lower n) (users d)"

definition query_get_order :: "db \<Rightarrow> int \<Rightarrow> order option" where
  "query_get_order d i = find (\<lambda>r. int (o_id r) = i) (orders d)"

definition user_loader :: "db \<Rightarrow> nat \<Rightarrow> user option" where
  "user_loader d user_id = find (\<lambda>u. u_id u = user_id) (users d)"

text \<open>
  \<open>request_loader\<close>: the user named by the request's form field
  \<open>username\<close>, if any; \<open>filter_by(username=None)\<close> matches no row, since
  the column is NOT NULL.
\<close>

definition request_loader :: "db \<Rightarrow> (string \<times> string) list \<Rightarrow> user option" where
  "request_loader d form =
     (case map_of form ''username'' of
        None \<Rightarrow> None
      | Some username \<Rightarrow> first_by_username d username)"

subsection \<open>Writes\<close>

definition next_rowid :: "nat list \<Rightarrow> nat" where
  "next_rowid ids = Suc (fold max ids 0)"

definition insert_user :: "db \<Rightarrow> user \<Rightarrow> py_exc + db" where
  "insert_user d u =
     (if u_biography u = None
         \<or> list_ex (\<lambda>v. u_username v = u_username u) (users d)
         \<or> list_ex (\<lambda>v. u_email v = u_email u) (users d)
      then Inl IntegrityError
      else Inr (d\<lparr>users := users d @ [u\<lparr>u_id := next_rowid (map u_id (users d))\<rparr>]\<rparr>))"

text \<open>
  Binding an order's JSON values to the columns of \<open>jd_orders\<close> on SQLite.
  The \<open>Numeric\<close> column \<open>total_price\<close> goes through SQLAlchemy's bind
  processor \<open>float()\<close>, whose failure is wrapped as \<open>StatementError\<close>;
  \<open>None\<close> passes through, and a NaN is stored by SQLite as NULL.  The
  \<open>Integer\<close> column \<open>user_id\<close> is handed to \<open>sqlite3\<close> as it is: a list
  or dictionary cannot be bound (\<open>InterfaceError\<close>) and an integer
  outside SQLite's signed 64-bit range raises \<open>OverflowError\<close>.  The bind
  processor runs before \<open>sqlite3\<close> binds, which runs before the NOT NULL
  constraints are checked.
\<close>

definition sqlite_int_ok :: "int \<Rightarrow> bool" where
  "sqlite_int_ok n \<longleftrightarrow> - (2 ^ 63) \<le> n \<and> n < 2 ^ 63"

fun numeric_bind_error :: "jval \<Rightarrow> bool" where
  "numeric_bind_error JNull = False"
| "numeric_bind_error (JBool _) = False"
| "numeric_bind_error (JInt n) = (\<not> py_float_int_ok n)"
| "numeric_bind_error (JStr s) = (\<not> py_float_str_ok s)"
| "numeric_bind_error (JList _) = True"
| "numeric_bind_error (JObj _) = True"

fun numeric_null :: "jval \<Rightarrow> bool" where
  "numeric_null JNull = True"
| "numeric_null (JStr s) = py_float_nan s"
| "numeric_null _ = False"

fun integer_bind_error :: "jval \<Rightarrow> py_exc option" where
  "integer_bind_error (JInt n) = (if sqlite_int_ok n then None else Some OverflowError)"
| "integer_bind_error (JList _) = Some InterfaceError"
| "integer_bind_error (JObj _) = Some InterfaceError"
| "integer_bind_error _ = None"

definition order_bind_error :: "jval \<Rightarrow> jval \<Rightarrow> py_exc option" where
  "order_bind_error user_id total_price =
     (if numeric_bind_error total_price then Some StatementError
      else case integer_bind_error user_id of
        Some e \<Rightarrow> Some e
      | None \<Rightarrow> if user_id = JNull \<or> numeric_null total_price then Some IntegrityError else None)"

definition insert_order :: "db \<Rightarrow> order \<Rightarrow> py_exc + db \<times> nat" where
  "insert_order d r =
     (case order_bind_error (o_user_id r) (o_total_price r) of
        Some e \<Rightarrow> Inl e
      | None \<Rightarrow>
          let i = next_rowid (map o_id (orders d))
          in Inr (d\<lparr>orders := orders d @ [r\<lparr>o_id := i\<rparr>]\<rparr>, i))"

definition delete_user_row :: "db \<Rightarrow> nat \<Rightarrow> db" where
  "delete_user_row d i = d\<lparr>users := filter (\<lambda>u. u_id u \<noteq> i) (users d)\<rparr>"

definition update_user :: "db \<Rightarrow> nat \<Rightarrow> (user \<Rightarrow> user) \<Rightarrow> db" where
  "update_user d i f = d\<lparr>users := map (\<lambda>u. if u_id u = i then f u else u) (users d)\<rparr>"

definition update_order :: "db \<Rightarrow> nat \<Rightarrow> (order \<Rightarrow> order) \<Rightarrow> db" where
  "update_order d i f = d\<lparr>orders := map (\<lambda>r. if o_id r = i then f r else r) (orders d)\<rparr>"

subsection \<open>Well-formed tables\<close>

text \<open>
  What the schema and SQLite's rowids guarantee of the stored tables: rowids
  strictly increasing, UNIQUE usernames and e-mails, NOT NULL columns set.
\<close>

definition users_wf :: "user list \<Rightarrow> bool" where
  "users_wf us \<longleftrightarrow>
     sorted_wrt (<) (map u_id us) \<and> distinct (map u_username us) \<and> distinct (map u_email us)
     \<and> list_all (\<lambda>u. u_biography u \<noteq> None) us"

definition orders_wf :: "order list \<Rightarrow> bool" where
  "orders_wf os \<longleftrightarrow>
     sorted_wrt (<) (map o_id os) \<and> list_all (\<lambda>r. o_user_id r \<noteq> JNull \<and> o_total_price r \<noteq> JNull) os"

definition db_wf :: "db \<Rightarrow> bool" where
  "db_wf d \<longleftrightarrow> users_wf (users d) \<and> orders_wf (orders d)"

text \<open>Paid orders stay paid: every paid order of \<open>os\<close> has a paid row with its id in \<open>os'\<close>.\<close>

definition paid_kept :: "order list \<Rightarrow> order list \<Rightarrow> bool" where
  "paid_kept os os' \<longleftrightarrow>
     (\<forall>r\<in>set os. o_payment_status r \<longrightarrow> (\<exists>r'\<in>set os'. o_id r' = o_id r \<and> o_payment_status r'))"

subsection \<open>Lemmas\<close>

lemma insert_order_Inr:
  "insert_order d r = Inr (d', i) \<longleftrightarrow>
     order_bind_error (o_user_id r) (o_total_price r) = None \<and> i = next_rowid (map o_id (orders d)) \<and>
     d' = d\<lparr>orders := orders d @ [r\<lparr>o_id := i\<rparr>]\<rparr>"
  by (auto simp add: insert_order_def Let_def split: option.split)

lemma order_bind_error_None:
  "order_bind_error u p = None \<Longrightarrow> u \<noteq> JNull \<and> p \<noteq> JNull"
  by (auto simp add: order_bind_error_def split: if_splits option.splits)

lemma insert_order_Inl:
  "insert_order d r = Inl e \<longleftrightarrow> order_bind_error (o_user_id r) (o_total_price r) = Some e"
  by (auto simp add: insert_order_def Let_def split: option.split)

named_theorems db_simps "evaluation rules of the table operations"

lemmas query_defs [db_simps] = query_get_user_def first_by_username_def first_by_email_def
  first_by_lower_username_def query_get_order_def user_loader_def request_loader_def

lemma fold_max_ge: "x \<in> set ids \<or> x \<le> a \<Longrightarrow> x \<le> fold max ids (a :: nat)"
proof (induction ids arbitrary: a)
  case Nil
  then show ?case by simp
next
  case (Cons y ys)
  then have "x \<in> set ys \<or> x \<le> max y a" by (auto simp add: max_def)
  then show ?case using Cons.IH by simp
qed

lemma next_rowid_gt: "x \<in> set ids \<Longrightarrow> x < next_rowid ids"
  using fold_max_ge [of x ids 0] by (simp add: next_rowid_def)

lemma user_init_biography:
  "user_init h r fn ln un em pw = Inr u \<Longrightarrow> u_biography u = None"
  by (auto simp add: user_init_def)

lemma insert_user_init_fails:
  "user_init h r fn ln un em pw = Inr u \<Longrightarrow> insert_user d u = Inl IntegrityError"
  by (simp add: insert_user_def user_init_biography)

lemma insert_user_wf:
  assumes "users_wf (users d)" and "insert_user d u = Inr d'"
  shows "users_wf (users d') \<and> orders d' = orders d"
proof -
  let ?u = "u\<lparr>u_id := next_rowid (map u_id (users d))\<rparr>"
  from assms(2) have d': "d' = d\<lparr>users := users d @ [?u]\<rparr>"
    and nn: "u_biography u \<noteq> None"
    and un: "\<not> list_ex (\<lambda>v. u_username v = u_username u) (users d)"
    and em: "\<not> list_ex (\<lambda>v. u_email v = u_email u) (users d)"
    by (auto simp add: insert_user_def split: if_splits)
  have "\<forall>x\<in>set (map u_id (users d)). x < u_id ?u"
    by (simp add: next_rowid_gt)
  with assms(1) nn un em d' show ?thesis
    by (auto simp add: users_wf_def sorted_wrt_append list_ex_iff)
qed

lemma insert_order_wf:
  assumes "orders_wf (orders d)" and "insert_order d r = Inr (d', i)"
  shows "orders_wf (orders d') \<and> users d' = users d \<and> i \<notin> set (map o_id (orders d))"
proof -
  from assms(2) have d': "d' = d\<lparr>orders := orders d @ [r\<lparr>o_id := i\<rparr>]\<rparr>"
    and i: "i = next_rowid (map o_id (orders d))"
    and nn: "o_user_id r \<noteq> JNull" "o_total_price r \<noteq> JNull"
    by (auto simp add: insert_order_Inr dest: order_bind_error_None)
  have gt: "\<forall>x\<in>set (map o_id (orders d)). x < i"
    using i by (simp add: next_rowid_gt)
  with assms(1) nn d' show ?thesis
    by (auto simp add: orders_wf_def sorted_wrt_append)
qed

lemma delete_user_row_wf: "users_wf (users d) \<Longrightarrow> users_wf (users (delete_user_row d i))"
  by (auto simp add: users_wf_def delete_user_row_def sorted_wrt_map sorted_wrt_filter
      distinct_map_filter list_all_iff)

lemma map_update_same [simp]:
  "(\<And>u. g (f u) = g u) \<Longrightarrow> map (g \<circ> (\<lambda>u. if P u then f u else u)) us = map g us"
  by (induction us) auto

lemma update_user_wf:
  assumes "users_wf (users d)"
    and "\<And>u. u_id (f u) = u_id u" "\<And>u. u_username (f u) = u_username u"
    and "\<And>u. u_email (f u) = u_email u" "\<And>u. u_biography (f u) = u_biography u"
  shows "users_wf (users (update_user d i f))"
  using assms by (auto simp add: users_wf_def update_user_def list_all_iff)

lemma update_order_wf:
  assumes "orders_wf (orders d)"
    and "\<And>r. o_id (f r) = o_id r" "\<And>r. o_user_id (f r) = o_user_id r"
    and "\<And>r. o_total_price (f r) = o_total_price r"
  shows "orders_wf (orders (update_order d i f))"
  using assms by (auto simp add: orders_wf_def update_order_def list_all_iff)

lemma find_unique_id:
  "sorted_wrt (<) (map u_id us) \<Longrightarrow> u \<in> set us \<Longrightarrow> find (\<lambda>v. u_id v = u_id u) us = Some u"
proof (induction us)
  case Nil
  then show ?case by simp
next
  case (Cons v us)
  then show ?case by (auto simp add: find_Some_iff)
qed

lemma query_get_order_insert:
  assumes "insert_order d r = Inr (d', i)"
  shows "query_get_order d' (int i) = Some (r\<lparr>o_id := i\<rparr>)"
proof -
  have i: "i = next_rowid (map o_id (orders d))" and d': "d' = d\<lparr>orders := orders d @ [r\<lparr>o_id := i\<rparr>]\<rparr>"
    using assms by (auto simp add: insert_order_Inr)
  have "\<forall>x\<in>set (orders d). o_id x < i"
    using i by (auto intro: next_rowid_gt)
  then have "find (\<lambda>x. int (o_id x) = int i) (orders d) = None"
    by (auto simp add: find_None_iff)
  then show ?thesis using d' by (simp add: query_get_order_def find_append)
qed

lemma query_get_order_update:
  assumes "sorted_wrt (<) (map o_id os)" and "find (\<lambda>x. int (o_id x) = int i) os = Some r"
    and "\<And>x. o_id (f x) = o_id x"
  shows "find (\<lambda>x. int (o_id x) = int i) (map (\<lambda>x. if o_id x = i then f x else x) os) = Some (f r)"
  using assms by (induction os) (auto split: if_splits)

lemma insert_order_paid:
  "insert_order d (order_init a b c) = Inr (d', i) \<Longrightarrow>
     filter o_payment_status (orders d') = filter o_payment_status (orders d)"
  by (auto simp add: insert_order_Inr order_init_def)

lemma paid_kept_refl [simp]: "paid_kept os os"
  by (auto simp add: paid_kept_def)

lemma paid_kept_append [simp]: "paid_kept os (os @ xs)"
  by (auto simp add: paid_kept_def)

lemma paid_kept_update:
  assumes "\<And>r. o_id (f r) = o_id r" and "\<And>r. o_payment_status r \<Longrightarrow> o_payment_status (f r)"
  shows "paid_kept (orders d) (orders (update_order d i f))"
  unfolding paid_kept_def
proof (intro ballI impI)
  fix r
  assume "r \<in> set (orders d)" and "o_payment_status r"
  then show "\<exists>r'\<in>set (orders (update_order d i f)). o_id r' = o_id r \<and> o_payment_status r'"
    using assms by (intro bexI [of _ "if o_id r = i then f r else r"]) (auto simp add: update_order_def)
qed

lemma insert_order_orders:
  "insert_order d r = Inr (d', i) \<Longrightarrow> orders d' = orders d @ [r\<lparr>o_id := i\<rparr>]"
  by (auto simp add: insert_order_Inr)

lemma find_unique_order:
  "sorted_wrt (<) (map o_id os) \<Longrightarrow> r \<in> set os \<Longrightarrow> find (\<lambda>x. int (o_id x) = int (o_id r)) os = Some r"
  by (induction os) auto

end
