(* ===== verification/Codec.thy ===== *)
theory Codec
  imports PyInt
begin

text \<open>
  The order-id codec of \<open>src/apps/home/util.py\<close> (lines 16--27):
  \<open>encrypt_order_id\<close> and \<open>decrypt_order_id\<close> around the process-wide
  \<open>Fernet\<close> object \<open>cipher_suite\<close>.  The cipher belongs to the
  \<open>cryptography\<close> library, so it enters the model as an interface: a record
  of its two operations, with the randomness that \<open>Fernet.encrypt\<close> draws
  on each call (time stamp and IV) as an explicit argument, and a contract
  \<open>fernet_contract\<close> that the library promises: decryption inverts
  encryption, and tokens are URL-safe base64 text.  The codec's lemmas are
  stated for any cipher that meets the contract; \<open>hex_fernet\<close> is a small
  executable cipher that meets it, so that the hypotheses are satisfiable and
  the witnesses evaluate.
\<close>

record fernet =
  f_encrypt :: "nat \<Rightarrow> byte list \<Rightarrow> byte list"
  f_decrypt :: "byte list \<Rightarrow> py_exc + byte list"

text \<open>The URL-safe base64 alphabet of Fernet tokens: \<open>A-Z a-z 0-9 - _ =\<close>.\<close>

definition is_urlsafe_byte :: "byte \<Rightarrow> bool" where
  "is_urlsafe_byte b \<longleftrightarrow>
     (let n = unat b in
      (65 \<le> n \<and> n \<le> 90) \<or> (97 \<le> n \<and> n \<le> 122) \<or> (48 \<le> n \<and> n \<le> 57)
      \<or> n = 45 \<or> n = 95 \<or> n = 61)"

definition fernet_contract :: "fernet \<Rightarrow> bool" where
  "fernet_contract c \<longleftrightarrow>
     (\<forall>r m. f_decrypt c (f_encrypt c r m) = Inr m \<and> list_all is_urlsafe_byte (f_encrypt c r m))"

text \<open>
  \<^verbatim>\<open>return cipher_suite.encrypt(str(order_id).encode()).decode()\<close>
\<close>

definition encrypt_order_id :: "fernet \<Rightarrow> nat \<Rightarrow> int \<Rightarrow> py_exc + string" where
  "encrypt_order_id c r order_id = utf8_decode (f_encrypt c r (utf8_encode (py_str_int order_id)))"

text \<open>
  \<^verbatim>\<open>return int(cipher_suite.decrypt(encrypted_order_id.encode()).decode())\<close>
\<close>

definition decrypt_order_id :: "fernet \<Rightarrow> string \<Rightarrow> py_exc + int" where
  "decrypt_order_id c encrypted_order_id =
     sbind (f_decrypt c (utf8_encode encrypted_order_id)) (\<lambda>pt. sbind (utf8_decode pt) py_int)"

text \<open>
  The module-level \<^verbatim>\<open>cipher_suite = Fernet(os.getenv("FERNET_KEY").encode())\<close>:
  without the variable \<open>None.encode\<close> raises \<open>AttributeError\<close> when
  \<open>util.py\<close> is imported; otherwise Fernet's constructor, an interface,
  checks the key.
\<close>

definition cipher_suite ::
  "(string \<Rightarrow> string option) \<Rightarrow> (byte list \<Rightarrow> py_exc + fernet) \<Rightarrow> py_exc + fernet" where
  "cipher_suite environ fernet_new =
     (case environ ''FERNET_KEY'' of None \<Rightarrow> Inl AttributeError | Some k \<Rightarrow> fernet_new (utf8_encode k))"

subsection \<open>An executable instance of the interface\<close>

text \<open>
  Tokens are the hex digits of the randomness byte followed by the message;
  decryption accepts exactly the hex strings of non-empty byte strings.
\<close>

definition hex_decrypt :: "byte list \<Rightarrow> py_exc + byte list" where
  "hex_decrypt t =
     (case ascii_decode t of
        Inl e \<Rightarrow> Inl InvalidToken
      | Inr s \<Rightarrow> (let bs = unhex_str s in
                  if bs \<noteq> [] \<and> hexlify bs = t then Inr (tl bs) else Inl InvalidToken))"

definition hex_fernet :: fernet where
  "hex_fernet = \<lparr>f_encrypt = (\<lambda>r m. hexlify (of_nat r # m)), f_decrypt = hex_decrypt\<rparr>"

subsection \<open>Lemmas\<close>

lemma is_urlsafe_byte_ascii: "is_urlsafe_byte b \<Longrightarrow> is_ascii_byte b"
  by (auto simp add: is_urlsafe_byte_def is_ascii_byte_def Let_def)

lemma list_all_urlsafe_ascii:
  "list_all is_urlsafe_byte bs \<Longrightarrow> list_all is_ascii_byte bs"
  by (induction bs) (simp_all add: is_urlsafe_byte_ascii)

lemma fernet_contractD:
  assumes "fernet_contract c"
  shows "f_decrypt c (f_encrypt c r m) = Inr m"
    and "list_all is_urlsafe_byte (f_encrypt c r m)"
  using assms by (simp_all add: fernet_contract_def)

lemma encrypt_order_id_token:
  assumes "fernet_contract c"
  shows "encrypt_order_id c r i =
           Inr (map char_of_byte (f_encrypt c r (utf8_encode (py_str_int i))))"
  using fernet_contractD(2) [OF assms] list_all_urlsafe_ascii
  by (simp add: encrypt_order_id_def utf8_decode_ascii)

lemma py_int_py_str_int [simp]: "py_int (py_str_int i) = Inr i"
  by (simp add: py_str_int_def py_int_dec_str py_int_neg_dec_str)

lemma hex_char_urlsafe: "n < 16 \<Longrightarrow> is_urlsafe_byte (byte_of_char (hex_char n))"
  by (auto simp add: hex_char_def is_urlsafe_byte_def Let_def)

lemma hexlify_urlsafe: "list_all is_urlsafe_byte (hexlify bs)"
proof (induction bs)
  case Nil
  then show ?case by (simp add: hexlify_def)
next
  case (Cons b bs)
  have "unat b div 16 < 16"
    using unat_byte_less [of b] by (simp add: div_less_iff_less_mult)
  with Cons show ?case by (simp add: hexlify_def hex_char_urlsafe)
qed

lemma hex_decrypt_hexlify: "bs \<noteq> [] \<Longrightarrow> hex_decrypt (hexlify bs) = Inr (tl bs)"
  by (simp add: hex_decrypt_def)

lemma hex_fernet_contract: "fernet_contract hex_fernet"
  by (simp add: fernet_contract_def hex_fernet_def hex_decrypt_hexlify hexlify_urlsafe)

lemma decrypt_order_id_token:
  assumes "fernet_contract c" and "encrypt_order_id c r i = Inr t"
  shows "decrypt_order_id c t = Inr i"
proof -
  let ?tok = "f_encrypt c r (utf8_encode (py_str_int i))"
  have t: "t = map char_of_byte ?tok"
    using assms encrypt_order_id_token by (metis sum.inject(2))
  have "list_all is_ascii_byte ?tok"
    using fernet_contractD(2) [OF assms(1)] by (rule list_all_urlsafe_ascii)
  then have "utf8_encode (map char_of_byte ?tok) = ?tok"
    by (rule utf8_encode_char_of_byte)
  then show ?thesis
    using t fernet_contractD(1) [OF assms(1)] utf8_decode_encode [of "py_str_int i"]
    by (simp add: decrypt_order_id_def)
qed

subsection \<open>Properties\<close>

text \<open>
  C1. Round trip: for every integer the application encrypts, encryption
  succeeds and decrypting the token it returns gives the integer back, for any
  cipher that meets the library's contract (whatever randomness it drew).
\<close>

theorem decrypt_encrypt_order_id:
  assumes "fernet_contract c"
  shows "\<exists>t. encrypt_order_id c r i = Inr t \<and> decrypt_order_id c t = Inr i"
  using encrypt_order_id_token [OF assms] decrypt_order_id_token [OF assms] by blast

theorem decrypt_encrypt_order_id_witness:
  "fernet_contract hex_fernet \<and>
   encrypt_order_id hex_fernet 7 42 = Inr ''073432'' \<and> decrypt_order_id hex_fernet ''073432'' = Inr 42"
proof -
  obtain t where t: "encrypt_order_id hex_fernet 7 42 = Inr t"
    and d: "decrypt_order_id hex_fernet t = Inr 42"
    using decrypt_encrypt_order_id [OF hex_fernet_contract, of 7 42] by blast
  have "encrypt_order_id hex_fernet 7 42 = Inr ''073432''" by code_simp
  with t d hex_fernet_contract show ?thesis by simp
qed

text \<open>
  C23. A token the cipher rejects (tampered, truncated, or made with another key)
  makes \<open>decrypt_order_id\<close> raise the cipher's exception: it never returns
  an integer for it.
\<close>

theorem decrypt_order_id_rejects:
  assumes "f_decrypt c (utf8_encode t) = Inl e"
  shows "decrypt_order_id c t = Inl e"
  using assms by (simp add: decrypt_order_id_def)

theorem decrypt_order_id_rejects_witness:
  "decrypt_order_id hex_fernet ''072b0'' = Inl InvalidToken"
proof -
  have "f_decrypt hex_fernet (utf8_encode ''072b0'') = Inl InvalidToken" by code_simp
  then show ?thesis by (rule decrypt_order_id_rejects)
qed

end
