(* ===== verification/Web.thy ===== *)
theory Web
  imports Models Codec
begin

text \<open>
  The request-handling frame around the handlers of \<open>src/apps/home/routes.py\<close>.
  The application state \<open>app\<close> is the database, the Flask session of each
  client (the user id flask_login stores in it at \<open>login_user\<close>) and what the
  process has printed to stdout.  A request carries the client, method, form,
  query arguments and JSON body, whether its CSRF token is valid, and the
  values the handlers draw from the environment (\<open>request.url_root\<close>,
  \<open>datetime.utcnow()\<close>, \<open>os.urandom(60)\<close>, Fernet's randomness).  The
  record \<open>env\<close> gathers the libraries the handlers call, as interfaces:
  \<open>hashlib\<close>, the Fernet cipher, the WTForms \<open>Email()\<close> check, Stripe's
  \<open>checkout.Session.create\<close> and the set of templates that exist.

  \<open>current_user\<close> is flask_login's \<open>_load_user\<close>: the session's user id
  through \<open>user_loader\<close>; when there is none, or it names no user,
  \<open>request_loader\<close> on the request's form.  \<open>admin_required\<close> and
  \<open>user_logged_in\<close> (\<open>util.py\<close> 39--62) and flask_login's
  \<open>login_required\<close> wrap a view with their guards.  Flash messages and
  \<open>logging.info\<close> (below the default log level) are not modelled; the text of
  an exception (\<open>str(e)\<close>) is abstracted to the name of its class.
\<close>

type_synonym form = "(string \<times> string) list"

datatype http_method = GET | POST | DELETE

record request =
  rq_client :: nat
  rq_method :: http_method
  rq_form :: form
  rq_args :: form
  rq_json :: "jval option"
  rq_csrf_ok :: bool
  rq_url_root :: string
  rq_now :: nat
  rq_urandom :: "byte list"
  rq_nonce :: nat

record app =
  app_db :: db
  sessions :: "nat \<rightharpoonup> nat"
  stdout :: "string list"

datatype response =
    Render string "string option" nat
  | Redirect string
  | Json jval nat
  | HttpError nat

record env =
  e_hashlib :: hashlib
  e_fernet :: fernet
  e_email_ok :: "string \<Rightarrow> bool"
  e_stripe :: "jval list \<Rightarrow> string \<Rightarrow> string \<Rightarrow> py_exc + string \<times> string"
  e_template_exists :: "string \<Rightarrow> bool"
  e_csrf_token :: "nat \<Rightarrow> string"

subsection \<open>Responses\<close>

text \<open>An uncaught exception reaches the blueprint's \<open>errorhandler(500)\<close>.\<close>

definition server_error :: response where
  "server_error = Render ''home/page-500.html'' None 500"

definition json_msg :: "string \<Rightarrow> nat \<Rightarrow> response" where
  "json_msg m status = Json (JObj [(''message'', JStr m)]) status"

fun exc_name :: "py_exc \<Rightarrow> string" where
  "exc_name ValueError = ''ValueError''"
| "exc_name UnicodeDecodeError = ''UnicodeDecodeError''"
| "exc_name UnicodeEncodeError = ''UnicodeEncodeError''"
| "exc_name InvalidToken = ''InvalidToken''"
| "exc_name NameError = ''NameError''"
| "exc_name TypeError = ''TypeError''"
| "exc_name NonLatin1 = ''UnicodeDecodeError''"
| "exc_name AttributeError = ''AttributeError''"
| "exc_name IntegrityError = ''IntegrityError''"
| "exc_name StripeError = ''StripeError''"
| "exc_name KeyError = ''KeyError''"
| "exc_name TemplateNotFound = ''TemplateNotFound''"
| "exc_name SMTPException = ''SMTPException''"
| "exc_name OperationalError = ''OperationalError''"
| "exc_name StatementError = ''StatementError''"
| "exc_name InterfaceError = ''InterfaceError''"
| "exc_name OverflowError = ''OverflowError''"

subsection \<open>Sessions and the current user\<close>

definition current_user :: "app \<Rightarrow> request \<Rightarrow> user option" where
  "current_user st rq =
     (case sessions st (rq_client rq) of
        Some uid \<Rightarrow>
          (case user_loader (app_db st) uid of
             Some u \<Rightarrow> Some u
           | None \<Rightarrow> request_loader (app_db st) (rq_form rq))
      | None \<Rightarrow> request_loader (app_db st) (rq_form rq))"

text \<open>flask_login's \<open>login_user\<close> and \<open>logout_user\<close>: an inactive user is not logged in.\<close>

definition login_user :: "app \<Rightarrow> nat \<Rightarrow> user \<Rightarrow> app" where
  "login_user st c u =
     (if u_is_active u then st\<lparr>sessions := (sessions st)(c \<mapsto> u_id u)\<rparr> else st)"

definition logout_user :: "app \<Rightarrow> nat \<Rightarrow> app" where
  "logout_user st c = st\<lparr>sessions := (sessions st)(c := None)\<rparr>"

subsection \<open>Decorators\<close>

type_synonym view = "user \<Rightarrow> app \<Rightarrow> response \<times> app"

definition admin_required :: "view \<Rightarrow> app \<Rightarrow> request \<Rightarrow> response \<times> app" where
  "admin_required func st rq =
     (case current_user st rq of
        None \<Rightarrow> (Redirect ''home_blueprint.login'', st)
      | Some u \<Rightarrow>
          (if \<not> u_is_admin u then (Render ''home/admin-page-404.html'' None 404, st)
           else func u st))"

definition user_logged_in :: "view \<Rightarrow> app \<Rightarrow> request \<Rightarrow> response \<times> app" where
  "user_logged_in func st rq =
     (case current_user st rq of
        None \<Rightarrow> (Redirect ''home_blueprint.login'', st)
      | Some u \<Rightarrow> func u st)"

text \<open>flask_login's \<open>login_required\<close>, with this app's \<open>unauthorized_handler\<close>.\<close>

definition login_required :: "view \<Rightarrow> app \<Rightarrow> request \<Rightarrow> response \<times> app" where
  "login_required func st rq =
     (case current_user st rq of
        None \<Rightarrow> (Render ''home/page-403.html'' None 403, st)
      | Some u \<Rightarrow> func u st)"

subsection \<open>Form fields\<close>

text \<open>\<open>str.isspace\<close> on Latin-1, and \<open>str.strip()\<close>.\<close>

definition py_isspace :: "char \<Rightarrow> bool" where
  "py_isspace c \<longleftrightarrow>
     (let n = (of_char c :: nat) in (9 \<le> n \<and> n \<le> 13) \<or> (28 \<le> n \<and> n \<le> 32) \<or> n = 133 \<or> n = 160)"

definition py_strip :: "string \<Rightarrow> string" where
  "py_strip s = rev (dropWhile py_isspace (rev (dropWhile py_isspace s)))"

text \<open>WTForms' \<open>DataRequired\<close> on a string field's data (\<open>None\<close> when absent).\<close>

definition data_required :: "string option \<Rightarrow> bool" where
  "data_required v = (case v of None \<Rightarrow> False | Some s \<Rightarrow> py_strip s \<noteq> [])"

text \<open>\<open>BooleanField\<close>: false for an absent field and for \<open>"false"\<close> and \<open>""\<close>.\<close>

definition bool_field :: "string option \<Rightarrow> bool" where
  "bool_field v = (case v of None \<Rightarrow> False | Some s \<Rightarrow> s \<noteq> ''false'' \<and> s \<noteq> [])"

definition is_submitted :: "request \<Rightarrow> bool" where
  "is_submitted rq \<longleftrightarrow> rq_method rq = POST \<or> rq_method rq = DELETE"

text \<open>
  \<open>LoginForm.validate_on_submit()\<close> (\<open>forms.py\<close> 6--9): the submitted
  username, password and remember-me values when the form validates.
\<close>

definition login_form_data :: "request \<Rightarrow> (string \<times> string \<times> bool) option" where
  "login_form_data rq =
     (let f = map_of (rq_form rq) in
      if is_submitted rq \<and> rq_csrf_ok rq \<and> data_required (f ''username'') \<and> data_required (f ''password'')
      then (case (f ''username'', f ''password'') of
              (Some username, Some password) \<Rightarrow> Some (username, password, bool_field (f ''remember_me''))
            | _ \<Rightarrow> None)
      else None)"

text \<open>\<open>CreateAccountForm.validate_on_submit()\<close> (\<open>forms.py\<close> 17--35).\<close>

definition register_form_data ::
  "env \<Rightarrow> request \<Rightarrow> (string \<times> string \<times> string \<times> string \<times> string) option" where
  "register_form_data E rq =
     (let f = map_of (rq_form rq) in
      if is_submitted rq \<and> rq_csrf_ok rq
         \<and> list_all (\<lambda>k. data_required (f k))
             [''first_name'', ''last_name'', ''username'', ''email'', ''confirm_email'',
              ''password'', ''confirm_password'']
      then (case (f ''first_name'', f ''last_name'', f ''username'', f ''email'',
                  f ''confirm_email'', f ''password'') of
              (Some first_name, Some last_name, Some username, Some email, Some confirm_email,
               Some password) \<Rightarrow>
                if e_email_ok E email \<and> e_email_ok E confirm_email
                then Some (first_name, last_name, username, email, password) else None
            | _ \<Rightarrow> None)
      else None)"

text \<open>
  \<open>SearchForm.validate_on_submit()\<close> (\<open>forms.py\<close> 12--14): the query when the
  form validates.  The index page only renders the form; no view validates it.
\<close>

definition search_form_data :: "request \<Rightarrow> string option" where
  "search_form_data rq =
     (let f = map_of (rq_form rq) in
      if is_submitted rq \<and> rq_csrf_ok rq \<and> data_required (f ''search_query'') then f ''search_query''
      else None)"

subsection \<open>Lemmas\<close>

named_theorems web_simps "unfolding rules of the request frame"

lemmas frame_defs [web_simps] = admin_required_def user_logged_in_def login_required_def
  login_user_def logout_user_def

lemma login_user_db [simp]: "app_db (login_user st c u) = app_db st"
  by (simp add: login_user_def)

lemma logout_user_db [simp]: "app_db (logout_user st c) = app_db st"
  by (simp add: logout_user_def)

lemma admin_required_cases:
  "admin_required func st rq = (r, st') \<Longrightarrow>
     st' = st \<or> (\<exists>u. current_user st rq = Some u \<and> u_is_admin u \<and> func u st = (r, st'))"
  by (auto simp add: admin_required_def split: option.splits if_splits)

end
