(* ===== verification/Routes.thy ===== *)
theory Routes
  imports Web
begin

text \<open>
  The view functions of \<open>src/apps/home/routes.py\<close>, one definition each, as
  functions \<open>env \<Rightarrow> app \<Rightarrow> request \<Rightarrow> response \<times> app\<close>: every early
  return is a branch, an uncaught exception is \<open>server_error\<close> with the state
  as committed so far, and a caught one is the handler's \<open>except\<close> branch.
  \<open>db.session.commit()\<close> makes the pending writes part of the returned
  state; writes that never reach a commit are dropped, as the session is
  rolled back at teardown.  \<open>step\<close> dispatches a request to a route the way
  Flask does: a method the route does not accept is 405, a POST or DELETE
  without a valid CSRF token is rejected by \<open>CSRFProtect\<close> with 400 (it
  skips a request whose URL matched no route, which ends in the 404 page),
  and otherwise the view runs.
\<close>

subsection \<open>Login and registration\<close>

definition login_page :: "string option \<Rightarrow> response" where
  "login_page msg = Render ''accounts/login.html'' msg 200"

definition login :: "env \<Rightarrow> app \<Rightarrow> request \<Rightarrow> response \<times> app" where
  "login E st rq =
     (case login_form_data rq of
        None \<Rightarrow> (login_page None, st)
      | Some (username, password, remember_me) \<Rightarrow>
          (let st = st\<lparr>stdout := stdout st @
                        [''Username given is '' @ username @ '' and password is '' @ password]\<rparr>
           in case first_by_lower_username (app_db st) username of
                None \<Rightarrow> (login_page (Some ''Invalid Username or Password.''), st)
              | Some user \<Rightarrow>
                  (case verify_pass (e_hashlib E) password (u_password user) of
                     Inl e \<Rightarrow> (server_error, st)
                   | Inr True \<Rightarrow> (Redirect ''home_blueprint.index'', login_user st (rq_client rq) user)
                   | Inr False \<Rightarrow> (login_page (Some ''Invalid Username or Password.''), st))))"

definition register_page :: "string option \<Rightarrow> response" where
  "register_page msg = Render ''accounts/register.html'' msg 200"

definition register :: "env \<Rightarrow> app \<Rightarrow> request \<Rightarrow> response \<times> app" where
  "register E st rq =
     (let f = map_of (rq_form rq) in
      if rq_method rq \<noteq> POST then (register_page None, st)
      else if f ''password'' \<noteq> f ''confirm_password'' then (register_page (Some ''Passwords do not match''), st)
      else if f ''email'' \<noteq> f ''confirm_email'' then (register_page (Some ''Email addresses do not match''), st)
      else case f ''password'' of
        None \<Rightarrow> (server_error, st)
      | Some pw \<Rightarrow>
          if \<not> is_valid_password pw then
            (register_page (Some (''Make sure the password is at least 6 characters long, contains at least ''
               @ ''one digit, one upper case and one special symbol'')), st)
          else case register_form_data E rq of
            None \<Rightarrow> (register_page None, st)
          | Some (first_name, last_name, username, email, password) \<Rightarrow>
              if \<not> bool_field (f ''term_agreement'') then
                (register_page (Some ''You need to agree to the terms''), st)
              else if first_by_username (app_db st) username \<noteq> None then
                (register_page (Some ''Username already registered''), st)
              else if first_by_email (app_db st) email \<noteq> None then
                (register_page (Some ''Email already registered''), st)
              else case user_init (e_hashlib E) (rq_urandom rq) first_name last_name username email password of
                Inl e \<Rightarrow> (server_error, st)
              | Inr user \<Rightarrow>
                  (case insert_user (app_db st) user of
                     Inl e \<Rightarrow> (server_error, st)
                   | Inr d \<Rightarrow> (Redirect ''home_blueprint.login'', st\<lparr>app_db := d\<rparr>)))"

definition logout :: "env \<Rightarrow> app \<Rightarrow> request \<Rightarrow> response \<times> app" where
  "logout E st rq = (Redirect ''home_blueprint.login'', logout_user st (rq_client rq))"

subsection \<open>Administration\<close>

definition delete_user :: "nat \<Rightarrow> env \<Rightarrow> app \<Rightarrow> request \<Rightarrow> response \<times> app" where
  "delete_user user_id E =
     admin_required (\<lambda>cu st.
       case query_get_user (app_db st) user_id of
         None \<Rightarrow> (json_msg ''User not found'' 404, st)
       | Some user \<Rightarrow>
           (json_msg ''User deleted successfully'' 201, st\<lparr>app_db := delete_user_row (app_db st) user_id\<rparr>))"

definition get_users :: "env \<Rightarrow> app \<Rightarrow> request \<Rightarrow> response \<times> app" where
  "get_users E =
     admin_required (\<lambda>cu st.
       let users = users (app_db st)
       in (Json (JObj [(''data'', JList (map user_format users)), (''total'', JInt (int (length users)))]) 200, st))"

definition set_admin_flag :: "bool \<Rightarrow> string \<Rightarrow> nat \<Rightarrow> view" where
  "set_admin_flag flag msg user_id cu st =
     (case query_get_user (app_db st) user_id of
        None \<Rightarrow> (json_msg ''User not found'' 404, st)
      | Some user \<Rightarrow>
          (json_msg msg 200, st\<lparr>app_db := update_user (app_db st) user_id (\<lambda>u. u\<lparr>u_is_admin := flag\<rparr>)\<rparr>))"

definition make_admin :: "nat \<Rightarrow> env \<Rightarrow> app \<Rightarrow> request \<Rightarrow> response \<times> app" where
  "make_admin user_id E = admin_required (set_admin_flag True ''User is now admin'' user_id)"

definition remove_admin :: "nat \<Rightarrow> env \<Rightarrow> app \<Rightarrow> request \<Rightarrow> response \<times> app" where
  "remove_admin user_id E = admin_required (set_admin_flag False ''User is no longer admin'' user_id)"

definition admin_home :: "env \<Rightarrow> app \<Rightarrow> request \<Rightarrow> response \<times> app" where
  "admin_home E = admin_required (\<lambda>cu st. (Render ''home/admin-home.html'' None 200, st))"

subsection \<open>Checkout and payment\<close>

text \<open>\<open>dict.get\<close> on a decoded JSON object (the last duplicate key wins).\<close>

definition jget :: "(string \<times> jval) list \<Rightarrow> string \<Rightarrow> jval" where
  "jget kv k = (case map_of (rev kv) k of None \<Rightarrow> JNull | Some v \<Rightarrow> v)"

text \<open>\<open>for item in v\<close> over a decoded JSON value.\<close>

fun py_iter :: "jval \<Rightarrow> py_exc + jval list" where
  "py_iter (JList xs) = Inr xs"
| "py_iter (JStr s) = Inr (map (\<lambda>c. JStr [c]) s)"
| "py_iter (JObj kv) = Inr (map JStr (remdups (map fst kv)))"
| "py_iter _ = Inl TypeError"

definition checkout_error :: "app \<Rightarrow> py_exc \<Rightarrow> response \<times> app" where
  "checkout_error st e =
     (json_msg (exc_name e) 500, st\<lparr>stdout := stdout st @ [exc_name e]\<rparr>)"

text \<open>
  The body of the loop over \<open>cart_items\<close> never completes an iteration:
  \<open>item.get\<close> raises \<open>AttributeError\<close> unless the item is an object, and
  then \<open>Product\<close>, which \<open>routes.py\<close> never imports, raises
  \<open>NameError\<close>.  The loop therefore finishes only when \<open>cart_items\<close> is
  empty, with no line items.
\<close>

definition create_checkout_session :: "env \<Rightarrow> app \<Rightarrow> request \<Rightarrow> response \<times> app" where
  "create_checkout_session E st rq =
     (case rq_json rq of
        Some (JObj data) \<Rightarrow>
          (let user_id = jget data ''user_id''; total_price = jget data ''total_price'';
               cart_items = jget data ''cart_items''
           in case insert_order (app_db st) (order_init user_id (rq_now rq) total_price) of
                Inl e \<Rightarrow> checkout_error st e
              | Inr (d, order_id) \<Rightarrow>
                  (let st = st\<lparr>app_db := d\<rparr> in
                   case py_iter cart_items of
                     Inl e \<Rightarrow> checkout_error st e
                   | Inr (item # items) \<Rightarrow>
                       checkout_error st (case item of JObj _ \<Rightarrow> NameError | _ \<Rightarrow> AttributeError)
                   | Inr [] \<Rightarrow>
                       (let st = st\<lparr>stdout := stdout st @ [''[]'']\<rparr>;
                            your_domain = butlast (rq_url_root rq)
                        in case encrypt_order_id (e_fernet E) (rq_nonce rq) (int order_id) of
                             Inl e \<Rightarrow> checkout_error st e
                           | Inr encrypted_order_id \<Rightarrow>
                               (let success_url = butlast (rq_url_root rq) @ ''/success/'' @
                                      encrypted_order_id @ ''?appreciate=thanksfortheorder''
                                in case e_stripe E [] success_url (your_domain @ ''/cancel'') of
                                     Inl e \<Rightarrow> checkout_error st e
                                   | Inr (session_id, session_url) \<Rightarrow>
                                       (Json (JObj [(''checkout_session_id'', JStr session_id),
                                                    (''checkout_session_url'', JStr session_url)]) 200,
                                        st)))))
      | _ \<Rightarrow> checkout_error st AttributeError)"

definition success :: "string \<Rightarrow> env \<Rightarrow> app \<Rightarrow> request \<Rightarrow> response \<times> app" where
  "success encrypted_order_id E st rq =
     (if map_of (rq_args rq) ''appreciate'' \<noteq> Some ''thanksfortheorder''
      then (json_msg ''Invalid Request'' 403, st)
      else case decrypt_order_id (e_fernet E) encrypted_order_id of
        Inl e \<Rightarrow> (server_error, st)
      | Inr order_id \<Rightarrow>
          (case query_get_order (app_db st) order_id of
             None \<Rightarrow> (json_msg ''Order not found'' 404, st)
           | Some order \<Rightarrow>
               (Render ''home/payment-success.html'' None 200,
                st\<lparr>app_db := update_order (app_db st) (o_id order)
                               (\<lambda>r. r\<lparr>o_payment_status := True\<rparr>)\<rparr>)))"

definition cancel :: "env \<Rightarrow> app \<Rightarrow> request \<Rightarrow> response \<times> app" where
  "cancel E st rq = (Render ''home/payment-cancel.html'' None 200, st)"

text \<open>\<open>get_orders\<close>: \<open>Product=Product\<close> raises \<open>NameError\<close>, caught and printed.\<close>

definition get_orders :: "env \<Rightarrow> app \<Rightarrow> request \<Rightarrow> response \<times> app" where
  "get_orders E = user_logged_in (\<lambda>cu st. checkout_error st NameError)"

subsection \<open>Pages\<close>

definition contact_us :: "env \<Rightarrow> app \<Rightarrow> request \<Rightarrow> response \<times> app" where
  "contact_us E st rq =
     (if rq_method rq = POST then
        (if list_all (\<lambda>k. map_of (rq_form rq) k \<noteq> None) [''Name'', ''Email'', ''Message...'']
         then (server_error, st)
         else (HttpError 400, st))
      else (Render ''home/contact.html'' None 200, st))"

text \<open>
  \<open>get_csrf_token\<close>: the token Flask-WTF's \<open>csrf_token()\<close> issues for the
  client's session, as an interface of the environment; the raw token it
  keeps in the signed session cookie is not part of the modelled state.
\<close>

definition get_csrf_token :: "env \<Rightarrow> app \<Rightarrow> request \<Rightarrow> response \<times> app" where
  "get_csrf_token E st rq = (Json (JObj [(''csrf_token'', JStr (e_csrf_token E (rq_client rq)))]) 200, st)"

text \<open>
  A URL that matches no route: the application's \<open>errorhandler(404)\<close> of
  \<open>create_app\<close> renders the 404 page, whatever the method.
\<close>

definition page_not_found :: "env \<Rightarrow> app \<Rightarrow> request \<Rightarrow> response \<times> app" where
  "page_not_found E st rq = (Render ''home/page-404.html'' None 404, st)"

definition templates :: "string \<Rightarrow> env \<Rightarrow> app \<Rightarrow> request \<Rightarrow> response \<times> app" where
  "templates template_name E st rq =
     (let t = ''home/'' @ template_name @ ''.html''
      in if e_template_exists E t then (Render t None 200, st) else (server_error, st))"

definition page :: "string \<Rightarrow> env \<Rightarrow> app \<Rightarrow> request \<Rightarrow> response \<times> app" where
  "page t E = login_required (\<lambda>cu st. (Render t None 200, st))"

definition redirect_to_pricing :: "bool \<Rightarrow> env \<Rightarrow> app \<Rightarrow> request \<Rightarrow> response \<times> app" where
  "redirect_to_pricing needs_login E st rq =
     (if needs_login
      then login_required (\<lambda>cu st. (Redirect ''home_blueprint.price_monitoring_tasks_route'', st)) st rq
      else (Redirect ''home_blueprint.price_monitoring_tasks_route'', st))"

subsection \<open>Dispatch\<close>

datatype route =
    RIndex | RDefault | RSupport | REditProfile | RPriceMonitoring | RAccountMonitoring
  | RLogin | RRegister | RDeleteUser nat | RAllUsers | RLogout | RContact
  | RTemplate string | RAdminHome | RMakeAdmin nat | RRemoveAdmin nat
  | RCheckout | RSuccess string | RCancel | ROrders | RCsrfToken | RNotFound

fun methods :: "route \<Rightarrow> http_method list" where
  "methods RLogin = [GET, POST]"
| "methods RRegister = [GET, POST]"
| "methods RContact = [GET, POST]"
| "methods (RDeleteUser _) = [DELETE]"
| "methods (RMakeAdmin _) = [POST]"
| "methods (RRemoveAdmin _) = [POST]"
| "methods RCheckout = [POST]"
| "methods RNotFound = [GET, POST, DELETE]"
| "methods _ = [GET]"

fun view :: "route \<Rightarrow> env \<Rightarrow> app \<Rightarrow> request \<Rightarrow> response \<times> app" where
  "view RIndex = page ''home/index.html''"
| "view RDefault = redirect_to_pricing False"
| "view RSupport = redirect_to_pricing True"
| "view REditProfile = page ''home/edit_profile.html''"
| "view RPriceMonitoring = page ''home/pricing.html''"
| "view RAccountMonitoring = page ''home/pricing.html''"
| "view RLogin = login"
| "view RRegister = register"
| "view (RDeleteUser i) = delete_user i"
| "view RAllUsers = get_users"
| "view RLogout = logout"
| "view RContact = contact_us"
| "view (RTemplate t) = templates t"
| "view RAdminHome = admin_home"
| "view (RMakeAdmin i) = make_admin i"
| "view (RRemoveAdmin i) = remove_admin i"
| "view RCheckout = create_checkout_session"
| "view (RSuccess t) = success t"
| "view RCancel = cancel"
| "view ROrders = get_orders"
| "view RCsrfToken = get_csrf_token"
| "view RNotFound = page_not_found"

definition step :: "env \<Rightarrow> app \<Rightarrow> route \<times> request \<Rightarrow> response \<times> app" where
  "step E st x =
     (case x of (rt, rq) \<Rightarrow>
        if rq_method rq \<notin> set (methods rt) then (HttpError 405, st)
        else if rq_method rq \<noteq> GET \<and> \<not> rq_csrf_ok rq \<and> rt \<noteq> RNotFound then (HttpError 400, st)
        else view rt E st rq)"

subsection \<open>Lemmas\<close>

named_theorems view_defs "definitions of the views"

lemmas [view_defs] = login_def register_def logout_def delete_user_def get_users_def
  make_admin_def remove_admin_def admin_home_def create_checkout_session_def success_def
  cancel_def get_orders_def contact_us_def templates_def page_def redirect_to_pricing_def
  get_csrf_token_def page_not_found_def

lemma register_unchanged: "snd (register E st rq) = st"
  by (auto simp add: register_def Let_def insert_user_init_fails
      split: option.splits sum.splits prod.splits if_splits)

lemma register_never_redirects:
  "fst (register E st rq) \<noteq> Redirect ''home_blueprint.login''"
  by (auto simp add: register_def Let_def insert_user_init_fails register_page_def server_error_def
      split: option.splits sum.splits prod.splits if_splits)

lemma login_db: "app_db (snd (login E st rq)) = app_db st"
  by (auto simp add: login_def Let_def split: option.splits sum.splits prod.splits bool.splits)

lemma checkout_error_db [simp]: "app_db (snd (checkout_error st e)) = app_db st"
  by (simp add: checkout_error_def)

lemma insert_order_users: "insert_order d r = Inr (d', i) \<Longrightarrow> users d' = users d"
  by (auto simp add: insert_order_Inr)

lemma checkout_users: "users (app_db (snd (create_checkout_session E st rq))) = users (app_db st)"
  by (auto simp add: create_checkout_session_def Let_def insert_order_users
      split: option.splits jval.splits sum.splits list.splits prod.splits)

lemma success_users: "users (app_db (snd (success t E st rq))) = users (app_db st)"
  by (auto simp add: success_def update_order_def split: option.splits sum.splits)

lemma guarded_db:
  "app_db (snd (login_required func st rq)) \<noteq> app_db st \<Longrightarrow>
     \<exists>u. current_user st rq = Some u \<and> app_db (snd (func u st)) \<noteq> app_db st"
  "app_db (snd (user_logged_in func st rq)) \<noteq> app_db st \<Longrightarrow>
     \<exists>u. current_user st rq = Some u \<and> app_db (snd (func u st)) \<noteq> app_db st"
  by (auto simp add: login_required_def user_logged_in_def split: option.splits)

lemma admin_required_db:
  "app_db (snd (admin_required func st rq)) \<noteq> app_db st \<Longrightarrow>
     \<exists>u. current_user st rq = Some u \<and> u_is_admin u"
  by (auto simp add: admin_required_def split: option.splits if_splits)

text \<open>The views that do not touch the users table, whoever calls them.\<close>

lemma view_users_open:
  assumes "rt \<notin> range RDeleteUser \<union> range RMakeAdmin \<union> range RRemoveAdmin \<union> {RAllUsers, RAdminHome}"
  shows "users (app_db (snd (view rt E st rq))) = users (app_db st)"
proof (cases rt)
  case RLogin
  then show ?thesis by (simp add: login_db)
next
  case RRegister
  then show ?thesis by (simp add: register_unchanged)
next
  case RCheckout
  then show ?thesis by (simp add: checkout_users)
next
  case (RSuccess t)
  then show ?thesis by (simp add: success_users)
next
  case ROrders
  then show ?thesis
    by (auto simp add: get_orders_def user_logged_in_def split: option.splits)
qed (use assms in \<open>auto simp add: view_defs login_required_def Let_def
       split: option.splits if_splits\<close>)

lemma step_cases:
  "step E st (rt, rq) = (r, st') \<Longrightarrow> st' = st \<or> view rt E st rq = (r, st')"
  by (auto simp add: step_def split: if_splits)

lemma current_user_in_db:
  "current_user st rq = Some u \<Longrightarrow> u \<in> set (users (app_db st))"
  by (auto simp add: current_user_def user_loader_def request_loader_def first_by_username_def
      split: option.splits dest: find_Some_iff [THEN iffD1] simp: find_Some_iff in_set_conv_nth)

lemma find_username:
  "distinct (map u_username us) \<Longrightarrow> a \<in> set us \<Longrightarrow> find (\<lambda>u. u_username u = u_username a) us = Some a"
  by (induction us) (auto simp add: image_iff)

lemma guard_pres:
  assumes "P (app_db st)" and "\<And>u st. P (app_db st) \<Longrightarrow> P (app_db (snd (f u st)))"
  shows "P (app_db (snd (admin_required f st rq)))"
    and "P (app_db (snd (login_required f st rq)))"
    and "P (app_db (snd (user_logged_in f st rq)))"
  using assms by (auto simp add: frame_defs split: option.splits)

lemma checkout_db_cases:
  "app_db (snd (create_checkout_session E st rq)) = app_db st \<or>
   (\<exists>a b c d i. insert_order (app_db st) (order_init a b c) = Inr (d, i) \<and>
      app_db (snd (create_checkout_session E st rq)) = d)"
  by (auto simp add: create_checkout_session_def Let_def
      split: option.splits jval.splits sum.splits list.splits prod.splits)

lemma checkout_db_wf:
  "db_wf (app_db st) \<Longrightarrow> db_wf (app_db (snd (create_checkout_session E st rq)))"
  using checkout_db_cases [of E st rq] insert_order_wf by (fastforce simp add: db_wf_def)

lemma update_frames [simp]:
  "orders (update_user d i f) = orders d"
  "users (update_order d i g) = users d"
  "orders (delete_user_row d i) = orders d"
  by (simp_all add: update_user_def update_order_def delete_user_row_def)

lemma success_db_wf: "db_wf (app_db st) \<Longrightarrow> db_wf (app_db (snd (success t E st rq)))"
  by (auto simp add: success_def db_wf_def intro: update_order_wf split: option.splits sum.splits)

lemma set_admin_flag_db_wf:
  "db_wf (app_db st) \<Longrightarrow> db_wf (app_db (snd (set_admin_flag flag msg i cu st)))"
  by (auto simp add: set_admin_flag_def db_wf_def intro: update_user_wf split: option.splits)

lemma view_db_wf: "db_wf (app_db st) \<Longrightarrow> db_wf (app_db (snd (view rt E st rq)))"
proof (induction rt)
  case (RDeleteUser i)
  then show ?case unfolding view.simps delete_user_def
    by (rule guard_pres(1))
       (auto simp add: db_wf_def delete_user_row_wf split: option.splits)
next
  case (RMakeAdmin i)
  then show ?case unfolding view.simps make_admin_def
    by (rule guard_pres(1)) (rule set_admin_flag_db_wf)
next
  case (RRemoveAdmin i)
  then show ?case unfolding view.simps remove_admin_def
    by (rule guard_pres(1)) (rule set_admin_flag_db_wf)
next
  case RAllUsers
  then show ?case unfolding view.simps get_users_def by (rule guard_pres(1)) (simp add: Let_def)
next
  case RAdminHome
  then show ?case unfolding view.simps admin_home_def by (rule guard_pres(1)) simp
next
  case ROrders
  then show ?case unfolding view.simps get_orders_def by (rule guard_pres(3)) simp
next
  case RIndex
  then show ?case unfolding view.simps page_def by (rule guard_pres(2)) simp
next
  case REditProfile
  then show ?case unfolding view.simps page_def by (rule guard_pres(2)) simp
next
  case RPriceMonitoring
  then show ?case unfolding view.simps page_def by (rule guard_pres(2)) simp
next
  case RAccountMonitoring
  then show ?case unfolding view.simps page_def by (rule guard_pres(2)) simp
next
  case RSupport
  then show ?case unfolding view.simps redirect_to_pricing_def if_True by (rule guard_pres(2)) simp
next
  case RLogin
  then show ?case by (simp add: login_db)
next
  case RRegister
  then show ?case by (simp add: register_unchanged)
next
  case RCheckout
  then show ?case by (simp add: checkout_db_wf)
next
  case (RSuccess t)
  then show ?case by (simp add: success_db_wf)
qed (simp_all add: redirect_to_pricing_def logout_def contact_us_def templates_def cancel_def get_csrf_token_def page_not_found_def Let_def)

lemma checkout_ok_cases:
  assumes "create_checkout_session E st rq = (Json j 200, st1)"
  shows "\<exists>data d i t sid surl. rq_json rq = Some (JObj data) \<and> py_iter (jget data ''cart_items'') = Inr [] \<and>
     insert_order (app_db st) (order_init (jget data ''user_id'') (rq_now rq) (jget data ''total_price'')) = Inr (d, i) \<and>
     app_db st1 = d \<and> encrypt_order_id (e_fernet E) (rq_nonce rq) (int i) = Inr t \<and>
     e_stripe E [] (butlast (rq_url_root rq) @ ''/success/'' @ t @ ''?appreciate=thanksfortheorder'')
       (butlast (rq_url_root rq) @ ''/cancel'') = Inr (sid, surl) \<and>
     j = JObj [(''checkout_session_id'', JStr sid), (''checkout_session_url'', JStr surl)]"
  using assms by (auto simp add: create_checkout_session_def Let_def checkout_error_def json_msg_def
      split: option.splits jval.splits sum.splits list.splits prod.splits)

lemma checkout_bind_fails:
  assumes "rq_json rq = Some (JObj data)"
    and "order_bind_error (jget data ''user_id'') (jget data ''total_price'') = Some e"
  shows "create_checkout_session E st rq = checkout_error st e"
  using assms by (simp add: create_checkout_session_def insert_order_def order_init_def)

lemma checkout_commits:
  assumes "rq_json rq = Some (JObj data)"
    and "order_bind_error (jget data ''user_id'') (jget data ''total_price'') = None"
  shows "orders (app_db (snd (create_checkout_session E st rq))) =
           orders (app_db st) @ [(order_init (jget data ''user_id'') (rq_now rq) (jget data ''total_price''))
                                   \<lparr>o_id := next_rowid (map o_id (orders (app_db st)))\<rparr>]"
  using assms by (auto simp add: create_checkout_session_def insert_order_def order_init_def checkout_error_def
      Let_def split: sum.split list.split jval.split prod.split)

lemma view_db_same:
  assumes "rt \<notin> range RDeleteUser \<union> range RMakeAdmin \<union> range RRemoveAdmin \<union> range RSuccess \<union> {RCheckout}"
  shows "app_db (snd (view rt E st rq)) = app_db st"
proof -
  have g: "d = app_db st \<Longrightarrow> (\<And>u st'. app_db (snd (f u st')) = app_db st') \<Longrightarrow>
      app_db (snd (admin_required f st rq)) = app_db st \<and>
      app_db (snd (login_required f st rq)) = app_db st \<and>
      app_db (snd (user_logged_in f st rq)) = app_db st" for d f
    using guard_pres [where P = "\<lambda>d. d = app_db st" and st = st and f = f and rq = rq] by simp
  show ?thesis
  proof (cases rt)
    case RLogin
    then show ?thesis by (simp add: login_db)
  next
    case RRegister
    then show ?thesis by (simp add: register_unchanged)
  next
    case RAllUsers
    then show ?thesis using g by (simp add: get_users_def Let_def)
  next
    case RAdminHome
    then show ?thesis using g by (simp add: admin_home_def)
  next
    case ROrders
    then show ?thesis using g by (simp add: get_orders_def)
  next
    case RSupport
    then show ?thesis using g by (simp add: redirect_to_pricing_def)
  qed (use assms g in \<open>simp_all add: page_def redirect_to_pricing_def logout_def contact_us_def
        templates_def cancel_def get_csrf_token_def page_not_found_def Let_def\<close>)
qed

lemma checkout_paid:
  "filter o_payment_status (orders (app_db (snd (create_checkout_session E st rq)))) =
   filter o_payment_status (orders (app_db st))"
  by (auto simp add: create_checkout_session_def Let_def insert_order_paid
      split: option.splits jval.splits sum.splits list.splits prod.splits)

lemma update_user_paid:
  "filter o_payment_status (orders (app_db (snd (set_admin_flag flag msg i cu st)))) =
   filter o_payment_status (orders (app_db st))"
  by (simp add: set_admin_flag_def split: option.splits)

lemma admin_routes:
  "rt \<in> range RDeleteUser \<union> range RMakeAdmin \<union> range RRemoveAdmin \<union> {RAllUsers, RAdminHome} \<Longrightarrow>
     \<exists>f. view rt E = admin_required f"
  by (auto simp add: delete_user_def make_admin_def remove_admin_def get_users_def admin_home_def)

lemma step_users_change:
  assumes "step E st (rt, rq) = (r, st')" and "users (app_db st') \<noteq> users (app_db st)"
  shows "\<exists>u. current_user st rq = Some u \<and> u_is_admin u"
proof -
  from step_cases [OF assms(1)] assms(2) have v: "view rt E st rq = (r, st')" by auto
  show ?thesis
  proof (cases "rt \<in> range RDeleteUser \<union> range RMakeAdmin \<union> range RRemoveAdmin \<union> {RAllUsers, RAdminHome}")
    case True
    then obtain f where "view rt E = admin_required f" using admin_routes by blast
    with v assms(2) have "app_db (snd (admin_required f st rq)) \<noteq> app_db st" by auto
    then show ?thesis by (rule admin_required_db)
  next
    case False
    with v assms(2) show ?thesis using view_users_open [OF False, of E st rq] by simp
  qed
qed

lemma step_db_wf: "db_wf (app_db st) \<Longrightarrow> db_wf (app_db (snd (step E st x)))"
  by (cases x) (simp add: step_def view_db_wf)

lemma guard_app:
  assumes "P st" and "\<And>u st. P st \<Longrightarrow> P (snd (f u st))"
  shows "P (snd (admin_required f st rq))"
    and "P (snd (login_required f st rq))"
    and "P (snd (user_logged_in f st rq))"
  using assms by (auto simp add: frame_defs split: option.splits)

lemma checkout_sessions: "sessions (snd (create_checkout_session E st rq)) = sessions st"
  by (auto simp add: create_checkout_session_def Let_def checkout_error_def
      split: option.splits jval.splits sum.splits list.splits prod.splits)

lemma view_sessions:
  assumes "rt \<notin> {RLogin, RLogout}"
  shows "sessions (snd (view rt E st rq)) = sessions st"
proof -
  have g: "sessions (snd (admin_required f st rq)) = sessions st \<and>
      sessions (snd (login_required f st rq)) = sessions st \<and>
      sessions (snd (user_logged_in f st rq)) = sessions st"
    if "\<And>u st'. sessions (snd (f u st')) = sessions st'" for f
    using guard_app [where P = "\<lambda>s. sessions s = sessions st" and st = st and f = f and rq = rq] that
    by simp
  show ?thesis
  proof (cases rt)
    case RRegister
    then show ?thesis by (simp add: register_unchanged)
  next
    case RCheckout
    then show ?thesis by (simp add: checkout_sessions)
  next
    case (RSuccess t)
    then show ?thesis by (simp add: success_def split: option.splits sum.splits)
  next
    case (RDeleteUser i)
    then show ?thesis using g by (simp add: delete_user_def split: option.splits)
  next
    case (RMakeAdmin i)
    then show ?thesis using g by (simp add: make_admin_def set_admin_flag_def split: option.splits)
  next
    case (RRemoveAdmin i)
    then show ?thesis using g by (simp add: remove_admin_def set_admin_flag_def split: option.splits)
  next
    case ROrders
    then show ?thesis using g by (simp add: get_orders_def checkout_error_def)
  next
    case RAllUsers
    then show ?thesis using g by (simp add: get_users_def Let_def)
  next
    case RAdminHome
    then show ?thesis using g by (simp add: admin_home_def)
  next
    case RSupport
    then show ?thesis using g by (simp add: redirect_to_pricing_def)
  qed (use assms g in \<open>simp_all add: page_def redirect_to_pricing_def contact_us_def
        templates_def cancel_def get_csrf_token_def page_not_found_def Let_def\<close>)
qed

lemma login_sessions_cases:
  "sessions (snd (login E st rq)) = sessions st \<or>
   (\<exists>n pw rm u. login_form_data rq = Some (n, pw, rm) \<and> first_by_lower_username (app_db st) n = Some u \<and>
      verify_pass (e_hashlib E) pw (u_password u) = Inr True \<and> u_is_active u \<and>
      sessions (snd (login E st rq)) = (sessions st)(rq_client rq \<mapsto> u_id u))"
  by (auto simp add: login_def Let_def login_user_def split: option.splits sum.splits bool.splits)

lemma checkout_paid_kept:
  "paid_kept (orders (app_db st)) (orders (app_db (snd (create_checkout_session E st rq))))"
  using checkout_db_cases [of E st rq]
proof (elim disjE exE conjE)
  fix a b c d i
  assume "insert_order (app_db st) (order_init a b c) = Inr (d, i)"
    and "app_db (snd (create_checkout_session E st rq)) = d"
  then show ?thesis by (simp add: insert_order_orders)
qed simp

lemma success_paid_kept:
  "paid_kept (orders (app_db st)) (orders (app_db (snd (success t E st rq))))"
  by (auto simp add: success_def intro: paid_kept_update split: sum.splits option.splits)

lemma view_paid_kept:
  "paid_kept (orders (app_db st)) (orders (app_db (snd (view rt E st rq))))"
proof (cases "rt \<in> range RDeleteUser \<union> range RMakeAdmin \<union> range RRemoveAdmin \<union> range RSuccess \<union> {RCheckout}")
  case True
  have g: "orders (app_db (snd (admin_required f st rq))) = orders (app_db st)"
    if "\<And>u st'. orders (app_db (snd (f u st'))) = orders (app_db st')" for f
    using guard_app(1) [where P = "\<lambda>s. orders (app_db s) = orders (app_db st)" and st = st and f = f and rq = rq] that
    by simp
  from True show ?thesis
    by (auto simp add: delete_user_def make_admin_def remove_admin_def set_admin_flag_def g
        checkout_paid_kept success_paid_kept split: option.splits)
next
  case False
  then show ?thesis by (simp add: view_db_same)
qed

lemma step_paid_kept: "paid_kept (orders (app_db st)) (orders (app_db (snd (step E st x))))"
  by (cases x) (simp add: step_def view_paid_kept)

end
