(* ===== verification/Deployment.thy ===== *)
theory Deployment
  imports Routes
begin

text \<open>
  A concrete deployment of the application: executable instances of the
  library interfaces, a small database and requests built on it, with the
  facts about them that several properties share.  The properties use it to
  show that their hypotheses can hold together.
\<close>


text \<open>
  The executable library instances (\<open>toy_hashlib\<close>, \<open>hex_fernet\<close>, a
  Stripe that always answers one session), a database with the admin
  \<open>root\<close> (id 1) and the user \<open>bob\<close> (id 2), and requests built on
  it: they show that the hypotheses of the properties below can hold.
\<close>

definition demo_env :: env where
  "demo_env =
     \<lparr>e_hashlib = toy_hashlib, e_fernet = hex_fernet, e_email_ok = (\<lambda>e. True),
      e_stripe = (\<lambda>items success_url cancel_url. Inr (''cs_1'', ''https://checkout.example/cs_1'')),
      e_template_exists = (\<lambda>t. True), e_csrf_token = (\<lambda>c. ''tok'' @ py_str_int (int c))\<rparr>"

definition demo_user :: "nat \<Rightarrow> string \<Rightarrow> bool \<Rightarrow> user" where
  "demo_user i name admin =
     \<lparr>u_id = i, u_first_name = name, u_last_name = name, u_email = name @ ''@example.org'',
      u_username = name, u_biography = Some [], u_house_address = None,
      u_is_active = True, u_is_admin = admin, u_password = []\<rparr>"

definition demo_app :: app where
  "demo_app =
     \<lparr>app_db = \<lparr>users = [demo_user 1 ''root'' True, demo_user 2 ''bob'' False], orders = []\<rparr>,
      sessions = Map.empty, stdout = []\<rparr>"

definition demo_request :: "nat \<Rightarrow> http_method \<Rightarrow> form \<Rightarrow> request" where
  "demo_request c m f =
     \<lparr>rq_client = c, rq_method = m, rq_form = f, rq_args = [], rq_json = None, rq_csrf_ok = True,
      rq_url_root = ''http://shop.example/'', rq_now = 0, rq_urandom = [], rq_nonce = 0\<rparr>"

definition demo_register_form :: form where
  "demo_register_form =
     [(''first_name'', ''Carol''), (''last_name'', ''Jones''), (''username'', ''carol''),
      (''email'', ''carol@example.org''), (''confirm_email'', ''carol@example.org''),
      (''password'', ''Secret12!''), (''confirm_password'', ''Secret12!''),
      (''term_agreement'', ''y'')]"

definition demo_credential :: "byte list" where
  "demo_credential = projr (hash_pass toy_hashlib [] ''hunter22'')"

definition demo_checkout :: "jval list \<Rightarrow> request" where
  "demo_checkout items =
     (demo_request 5 POST [])\<lparr>rq_json := Some (JObj [(''user_id'', JInt 2), (''total_price'', JInt 10),
                                                  (''cart_items'', JList items)])\<rparr>"

definition demo_thanks :: request where
  "demo_thanks = (demo_request 5 GET [])\<lparr>rq_args := [(''appreciate'', ''thanksfortheorder'')]\<rparr>"

definition demo_login_app :: "bool \<Rightarrow> app" where
  "demo_login_app active =
     demo_app\<lparr>app_db := \<lparr>users = [(demo_user 1 ''root'' True)\<lparr>u_password := demo_credential,
                                                         u_is_active := active\<rparr>],
                         orders = []\<rparr>\<rparr>"

definition demo_login_request :: "string \<Rightarrow> request" where
  "demo_login_request pw = demo_request 5 POST [(''username'', ''ROOT''), (''password'', pw)]"

definition demo_shop :: app where
  "demo_shop = demo_app\<lparr>app_db := (app_db demo_app)\<lparr>orders := [order_init (JInt 2) 0 (JInt 10)\<lparr>o_id := 1\<rparr>]\<rparr>,
                         sessions := [1 \<mapsto> 1]\<rparr>"

lemmas demo_defs = demo_env_def demo_user_def demo_app_def demo_request_def demo_checkout_def
  demo_thanks_def demo_login_request_def

subsection \<open>Facts about the deployment\<close>

lemma demo_checkout_ok:
  "create_checkout_session demo_env demo_app (demo_checkout []) =
     (Json (JObj [(''checkout_session_id'', JStr ''cs_1''),
                  (''checkout_session_url'', JStr ''https://checkout.example/cs_1'')]) 200,
      snd (create_checkout_session demo_env demo_app (demo_checkout [])))"
proof (rule prod_eqI)
  show "fst (create_checkout_session demo_env demo_app (demo_checkout [])) =
          fst (Json (JObj [(''checkout_session_id'', JStr ''cs_1''),
                  (''checkout_session_url'', JStr ''https://checkout.example/cs_1'')]) 200,
               snd (create_checkout_session demo_env demo_app (demo_checkout [])))"
    by code_simp
qed simp

lemma demo_login_facts:
  "login_form_data (demo_login_request ''hunter22'') = Some (''ROOT'', ''hunter22'', False)"
  "login_form_data (demo_login_request ''letmein'') = Some (''ROOT'', ''letmein'', False)"
  "first_by_lower_username (app_db (demo_login_app a)) ''ROOT'' =
     Some ((demo_user 1 ''root'' True)\<lparr>u_password := demo_credential, u_is_active := a\<rparr>)"
  "verify_pass (e_hashlib demo_env) ''hunter22'' demo_credential = Inr True"
proof -
  show "login_form_data (demo_login_request ''hunter22'') = Some (''ROOT'', ''hunter22'', False)"
    and "login_form_data (demo_login_request ''letmein'') = Some (''ROOT'', ''letmein'', False)"
    by code_simp+
  have "sql_lower ''ROOT'' = ''root''" and "sql_lower ''root'' = ''root''" by code_simp+
  then show "first_by_lower_username (app_db (demo_login_app a)) ''ROOT'' =
     Some ((demo_user 1 ''root'' True)\<lparr>u_password := demo_credential, u_is_active := a\<rparr>)"
    by (simp add: first_by_lower_username_def demo_login_app_def demo_user_def)
  have "hash_pass toy_hashlib [] ''hunter22'' = Inr demo_credential"
    by (simp add: demo_credential_def hash_pass_eq)
  then show "verify_pass (e_hashlib demo_env) ''hunter22'' demo_credential = Inr True"
    using verify_pass_of_hash [OF toy_hashlib_contract] by (simp add: demo_env_def)
qed

lemma demo_wrong_password:
  "verify_pass (e_hashlib demo_env) ''letmein'' demo_credential = Inr False"
proof -
  have "length (sha256 toy_hashlib []) = 32" by (simp add: toy_hashlib_def)
  from verify_pass_hexlify [OF this] show ?thesis
    by (simp add: demo_credential_def hash_pass_eq demo_env_def toy_hashlib_def)
qed

end
