(* ===== verification/Access.thy ===== *)
theory Access
  imports Deployment
begin

text \<open>
  Properties of authentication and access control in \<open>routes.py\<close>: who can
  change the users table, how flask_login's loaders resolve the current user,
  what login, registration, CSRF protection and the admin routes do.
\<close>

text \<open>
  C4. Only an administrator changes the users table: if a request changes it,
  the request's current user (as flask_login resolves it) is an admin stored
  in the table.  This is what \<open>admin_required\<close> guarantees for the routes
  it guards, and no other route writes the table (registration never
  succeeds, see C8).
\<close>

theorem users_change_needs_admin:
  assumes "step E st (rt, rq) = (r, st')" and "users (app_db st') \<noteq> users (app_db st)"
  shows "\<exists>u. current_user st rq = Some u \<and> u_is_admin u \<and> u \<in> set (users (app_db st))"
  using step_users_change [OF assms] current_user_in_db by blast

theorem users_change_needs_admin_witness:
  "\<exists>u. current_user demo_app (demo_request 5 POST [(''username'', ''root'')]) = Some u \<and> u_is_admin u \<and>
       u \<in> set (users (app_db demo_app))"
proof -
  let ?rq = "demo_request 5 POST [(''username'', ''root'')]"
  have "users (app_db (snd (step demo_env demo_app (RMakeAdmin 2, ?rq)))) \<noteq> users (app_db demo_app)"
    by (simp add: step_def make_admin_def admin_required_def current_user_def set_admin_flag_def
        update_user_def demo_defs query_defs)
  then show ?thesis
    using users_change_needs_admin [of demo_env demo_app "RMakeAdmin 2" ?rq] by (metis prod.collapse)
qed

text \<open>
  C5. Privilege escalation through \<open>request_loader\<close>: a client with no
  session that posts a form whose field \<open>username\<close> names an administrator is
  taken by flask_login for that administrator, so its POST to
  \<open>/make-admin/<id>\<close> (with a CSRF token any page hands out) makes the target
  user an admin.  No password is checked on this path.
\<close>

theorem form_username_grants_admin:
  assumes "sessions st (rq_client rq) = None" and "rq_method rq = POST" and "rq_csrf_ok rq"
    and "map_of (rq_form rq) ''username'' = Some n" and "first_by_username (app_db st) n = Some a"
    and "u_is_admin a" and "query_get_user (app_db st) i = Some v"
  shows "step E st (RMakeAdmin i, rq) =
           (json_msg ''User is now admin'' 200,
            st\<lparr>app_db := update_user (app_db st) i (\<lambda>u. u\<lparr>u_is_admin := True\<rparr>)\<rparr>)"
  using assms by (simp add: step_def make_admin_def admin_required_def current_user_def
      request_loader_def set_admin_flag_def)

theorem form_username_grants_admin_witness:
  "step demo_env demo_app (RMakeAdmin 2, demo_request 5 POST [(''username'', ''root'')]) =
     (json_msg ''User is now admin'' 200,
      demo_app\<lparr>app_db := update_user (app_db demo_app) 2 (\<lambda>u. u\<lparr>u_is_admin := True\<rparr>)\<rparr>)"
  by (rule form_username_grants_admin [where n = "''root''" and a = "demo_user 1 ''root'' True"
        and v = "demo_user 2 ''bob'' False"])
     (simp_all add: demo_defs query_defs)

text \<open>
  C8. Registration never succeeds: when every check of \<open>register\<close> passes
  (matching passwords and e-mails, a valid password, a validating form, terms
  accepted, a fresh username and e-mail), \<open>User.__init__\<close> leaves
  \<open>biography\<close> unset, the NOT NULL constraint rejects the INSERT, and the
  request ends in the 500 page with the database unchanged.
\<close>

theorem register_valid_form_fails:
  assumes "rq_method rq = POST"
    and "map_of (rq_form rq) ''password'' = Some pw" and "map_of (rq_form rq) ''confirm_password'' = Some pw"
    and "map_of (rq_form rq) ''email'' = map_of (rq_form rq) ''confirm_email''"
    and "is_valid_password pw"
    and "register_form_data E rq = Some (first_name, last_name, username, email, password)"
    and "bool_field (map_of (rq_form rq) ''term_agreement'')"
    and "first_by_username (app_db st) username = None" and "first_by_email (app_db st) email = None"
  shows "register E st rq = (server_error, st)"
  using assms by (simp add: register_def Let_def user_init_def hash_pass_eq insert_user_def)

theorem register_valid_form_fails_witness:
  "register demo_env demo_app (demo_request 5 POST demo_register_form) = (server_error, demo_app)"
proof (rule register_valid_form_fails)
  let ?rq = "demo_request 5 POST demo_register_form"
  show "is_valid_password ''Secret12!''" by code_simp
  show "register_form_data demo_env ?rq =
          Some (''Carol'', ''Jones'', ''carol'', ''carol@example.org'', ''Secret12!'')"
    by code_simp
qed (simp_all add: demo_defs demo_register_form_def query_defs bool_field_def)

text \<open>
  C17. Login with the right password: when the submitted username matches a
  user case-insensitively, the stored credential was made by \<open>hash_pass\<close> from
  the submitted password, and the user is active, \<open>login\<close> redirects to the
  index and the client's session holds the user's id.
\<close>

theorem login_accepts_password:
  assumes "login_form_data rq = Some (username, password, remember_me)"
    and "first_by_lower_username (app_db st) username = Some u"
    and "hashlib_contract (e_hashlib E)" and "hash_pass (e_hashlib E) r password = Inr (u_password u)"
    and "u_is_active u"
  shows "fst (login E st rq) = Redirect ''home_blueprint.index'' \<and>
         sessions (snd (login E st rq)) (rq_client rq) = Some (u_id u)"
  using assms verify_pass_of_hash [OF assms(3,4)]
  by (simp add: login_def Let_def login_user_def)

theorem login_accepts_password_witness:
  "fst (login demo_env (demo_login_app True) (demo_login_request ''hunter22'')) = Redirect ''home_blueprint.index'' \<and>
   sessions (snd (login demo_env (demo_login_app True) (demo_login_request ''hunter22''))) 5 = Some 1"
proof -
  have h: "hash_pass (e_hashlib demo_env) [] ''hunter22'' =
             Inr (u_password ((demo_user 1 ''root'' True)\<lparr>u_password := demo_credential, u_is_active := True\<rparr>))"
    by (simp add: demo_credential_def demo_env_def hash_pass_eq)
  have c: "hashlib_contract (e_hashlib demo_env)" by (simp add: demo_env_def toy_hashlib_contract)
  from login_accepts_password [OF demo_login_facts(1) demo_login_facts(3) c h]
  show ?thesis by (simp add: demo_user_def demo_login_request_def demo_request_def)
qed

text \<open>
  C26. Every submitted login form prints the username and the plain-text
  password to the process's stdout, whether or not the login succeeds.
\<close>

theorem login_prints_password:
  assumes "login_form_data rq = Some (username, password, remember_me)"
  shows "''Username given is '' @ username @ '' and password is '' @ password
           \<in> set (stdout (snd (login E st rq)))"
  using assms by (auto simp add: login_def Let_def login_user_def
      split: option.splits sum.splits bool.splits)

theorem login_prints_password_witness:
  "''Username given is root and password is hunter22'' \<in>
     set (stdout (snd (login demo_env demo_app
       (demo_request 5 POST [(''username'', ''root''), (''password'', ''hunter22'')]))))"
proof -
  have "login_form_data (demo_request 5 POST [(''username'', ''root''), (''password'', ''hunter22'')]) =
          Some (''root'', ''hunter22'', False)"
    by code_simp
  from login_prints_password [OF this] show ?thesis by simp
qed

text \<open>
  C7. Only a verified login opens a session: if a request makes a client's
  session hold a user id it did not hold before, the request was a login by
  that client whose form names (case-insensitively) an active user with that
  id, and \<open>verify_pass\<close> accepted the submitted password against the
  user's stored credential.
\<close>

theorem session_needs_password:
  assumes "sessions (snd (step E st (rt, rq))) c = Some uid" and "sessions st c \<noteq> Some uid"
  shows "rt = RLogin \<and> c = rq_client rq \<and>
         (\<exists>n pw rm u. login_form_data rq = Some (n, pw, rm) \<and>
            first_by_lower_username (app_db st) n = Some u \<and> u_id u = uid \<and> u_is_active u \<and>
            verify_pass (e_hashlib E) pw (u_password u) = Inr True)"
proof -
  have v: "sessions (snd (view rt E st rq)) c = Some uid"
    using assms by (auto simp add: step_def split: if_splits)
  have "rt \<noteq> RLogout"
    using v assms(2) by (auto simp add: logout_def logout_user_def split: if_splits)
  then have rt: "rt = RLogin"
    using v assms(2) view_sessions [of rt E st rq] by fastforce
  show ?thesis
    using login_sessions_cases [of E st rq] v assms(2) rt by (auto split: if_splits)
qed

theorem session_needs_password_witness:
  "RLogin = RLogin \<and> (5::nat) = rq_client (demo_login_request ''hunter22'') \<and>
   (\<exists>n pw rm u. login_form_data (demo_login_request ''hunter22'') = Some (n, pw, rm) \<and>
      first_by_lower_username (app_db (demo_login_app True)) n = Some u \<and> u_id u = 1 \<and> u_is_active u \<and>
      verify_pass (e_hashlib demo_env) pw (u_password u) = Inr True)"
proof (rule session_needs_password)
  have "sessions (snd (login demo_env (demo_login_app True) (demo_login_request ''hunter22''))) 5 = Some 1"
    using demo_login_facts by (simp add: login_def Let_def login_user_def demo_user_def
        demo_login_request_def demo_request_def)
  then show "sessions (snd (step demo_env (demo_login_app True) (RLogin, demo_login_request ''hunter22''))) 5 = Some 1"
    by (simp add: step_def demo_login_request_def demo_request_def)
  show "sessions (demo_login_app True) 5 \<noteq> Some 1" by (simp add: demo_login_app_def demo_app_def)
qed

text \<open>
  C27. An inactive user with the right password is redirected to the index as
  if logged in, but no session is opened: \<open>login\<close> ignores the
  \<open>False\<close> that flask_login's \<open>login_user\<close> returns.
\<close>

theorem login_inactive_redirects:
  assumes "login_form_data rq = Some (username, password, remember_me)"
    and "first_by_lower_username (app_db st) username = Some u"
    and "verify_pass (e_hashlib E) password (u_password u) = Inr True" and "\<not> u_is_active u"
  shows "fst (login E st rq) = Redirect ''home_blueprint.index'' \<and> sessions (snd (login E st rq)) = sessions st"
  using assms by (simp add: login_def Let_def login_user_def)

theorem login_inactive_redirects_witness:
  "fst (login demo_env (demo_login_app False) (demo_login_request ''hunter22'')) = Redirect ''home_blueprint.index'' \<and>
   sessions (snd (login demo_env (demo_login_app False) (demo_login_request ''hunter22''))) = Map.empty"
proof -
  let ?u = "(demo_user 1 ''root'' True)\<lparr>u_password := demo_credential, u_is_active := False\<rparr>"
  have "verify_pass (e_hashlib demo_env) ''hunter22'' (u_password ?u) = Inr True"
    using demo_login_facts(4) by simp
  moreover have "\<not> u_is_active ?u" by simp
  ultimately show ?thesis
    using login_inactive_redirects [OF demo_login_facts(1) demo_login_facts(3) [of False]]
    by (simp add: demo_login_app_def demo_app_def)
qed

text \<open>
  C28. A wrong password for an existing user renders the login page with
  "Invalid Username or Password." and changes nothing but the printed line.
\<close>

theorem login_wrong_password:
  assumes "login_form_data rq = Some (username, password, remember_me)"
    and "first_by_lower_username (app_db st) username = Some u"
    and "verify_pass (e_hashlib E) password (u_password u) = Inr False"
  shows "login E st rq =
           (login_page (Some ''Invalid Username or Password.''),
            st\<lparr>stdout := stdout st @ [''Username given is '' @ username @ '' and password is '' @ password]\<rparr>)"
  using assms by (simp add: login_def Let_def)

theorem login_wrong_password_witness:
  "login demo_env (demo_login_app True) (demo_login_request ''letmein'') =
     (login_page (Some ''Invalid Username or Password.''),
      (demo_login_app True)\<lparr>stdout := [''Username given is ROOT and password is letmein'']\<rparr>)"
  using login_wrong_password [OF demo_login_facts(2) demo_login_facts(3)] demo_wrong_password
  by (simp add: demo_user_def demo_login_app_def demo_app_def)

text \<open>
  C29. An admin's DELETE of an existing user removes exactly that row from
  \<open>jd_users\<close> and leaves \<open>jd_orders\<close> untouched, so the user's orders
  stay behind with a dangling \<open>user_id\<close>.
\<close>

theorem delete_user_keeps_orders:
  assumes "current_user st rq = Some a" and "u_is_admin a" and "rq_method rq = DELETE" and "rq_csrf_ok rq"
    and "query_get_user (app_db st) i = Some v"
  shows "step E st (RDeleteUser i, rq) =
           (json_msg ''User deleted successfully'' 201,
            st\<lparr>app_db := (app_db st)\<lparr>users := filter (\<lambda>u. u_id u \<noteq> i) (users (app_db st))\<rparr>\<rparr>)"
  using assms by (simp add: step_def delete_user_def admin_required_def delete_user_row_def)

theorem delete_user_keeps_orders_witness:
  "step demo_env demo_shop (RDeleteUser 2, demo_request 1 DELETE []) =
     (json_msg ''User deleted successfully'' 201,
      demo_shop\<lparr>app_db := \<lparr>users = [demo_user 1 ''root'' True],
                            orders = [order_init (JInt 2) 0 (JInt 10)\<lparr>o_id := 1\<rparr>]\<rparr>\<rparr>)"
proof -
  have "current_user demo_shop (demo_request 1 DELETE []) = Some (demo_user 1 ''root'' True)"
    by (simp add: current_user_def user_loader_def demo_shop_def demo_defs)
  from delete_user_keeps_orders [OF this, of 2 "demo_user 2 ''bob'' False" demo_env]
  show ?thesis by (simp add: demo_shop_def demo_defs query_defs)
qed

text \<open>
  C30. For an admin, \<open>/all-user\<close> answers every row of \<open>jd_users\<close> in
  rowid order, formatted by \<open>User.format\<close>, with their number.
\<close>

theorem get_users_lists_all:
  assumes "current_user st rq = Some a" and "u_is_admin a"
  shows "get_users E st rq =
           (Json (JObj [(''data'', JList (map user_format (users (app_db st)))),
                        (''total'', JInt (int (length (users (app_db st)))))]) 200, st)"
  using assms by (simp add: get_users_def admin_required_def Let_def)

theorem get_users_lists_all_witness:
  "get_users demo_env demo_shop (demo_request 1 GET []) =
     (Json (JObj [(''data'', JList [user_format (demo_user 1 ''root'' True), user_format (demo_user 2 ''bob'' False)]),
                  (''total'', JInt 2)]) 200, demo_shop)"
proof -
  have "current_user demo_shop (demo_request 1 GET []) = Some (demo_user 1 ''root'' True)"
    by (simp add: current_user_def user_loader_def demo_shop_def demo_defs)
  from get_users_lists_all [OF this] show ?thesis by (simp add: demo_shop_def demo_defs)
qed

end
