(* ===== verification/Shop.thy ===== *)
theory Shop
  imports Deployment
begin

text \<open>
  Properties of the checkout and payment routes of \<open>routes.py\<close> and of the
  order-id codec they share: what a checkout commits, what the success URL
  carries, who can change payment status, and how the order routes fail.
\<close>

text \<open>
  C2. Checkout and payment agree (cross-component, codec, database and
  Stripe): when \<open>create_checkout_session\<close> answers 200, its answer is the
  Stripe session created for the success URL
  \<open><root>/success/<token>?appreciate=thanksfortheorder\<close>, the order it
  committed is a new unpaid row appended to \<open>jd_orders\<close>, and visiting
  \<open>/success/<token>\<close> with the \<open>appreciate\<close> argument renders the success
  page and marks exactly that order paid.
\<close>

theorem checkout_token_pays_order:
  assumes "create_checkout_session E st rq = (Json j 200, st1)" and "fernet_contract (e_fernet E)"
    and "orders_wf (orders (app_db st))"
    and "map_of (rq_args rq') ''appreciate'' = Some ''thanksfortheorder''"
  shows "\<exists>t sid surl r.
           e_stripe E [] (butlast (rq_url_root rq) @ ''/success/'' @ t @ ''?appreciate=thanksfortheorder'')
             (butlast (rq_url_root rq) @ ''/cancel'') = Inr (sid, surl) \<and>
           j = JObj [(''checkout_session_id'', JStr sid), (''checkout_session_url'', JStr surl)] \<and>
           orders (app_db st1) = orders (app_db st) @ [r] \<and> \<not> o_payment_status r \<and>
           success t E st1 rq' =
             (Render ''home/payment-success.html'' None 200,
              st1\<lparr>app_db := update_order (app_db st1) (o_id r) (\<lambda>r. r\<lparr>o_payment_status := True\<rparr>)\<rparr>) \<and>
           query_get_order (app_db (snd (success t E st1 rq'))) (int (o_id r)) =
             Some (r\<lparr>o_payment_status := True\<rparr>)"
proof -
  obtain data d i t sid surl where ins: "insert_order (app_db st) (order_init (jget data ''user_id'') (rq_now rq)
        (jget data ''total_price'')) = Inr (d, i)"
    and d: "app_db st1 = d" and t: "encrypt_order_id (e_fernet E) (rq_nonce rq) (int i) = Inr t"
    and stripe: "e_stripe E [] (butlast (rq_url_root rq) @ ''/success/'' @ t @ ''?appreciate=thanksfortheorder'')
                   (butlast (rq_url_root rq) @ ''/cancel'') = Inr (sid, surl)"
    and j: "j = JObj [(''checkout_session_id'', JStr sid), (''checkout_session_url'', JStr surl)]"
    using checkout_ok_cases [OF assms(1)] by blast
  let ?r = "(order_init (jget data ''user_id'') (rq_now rq) (jget data ''total_price''))\<lparr>o_id := i\<rparr>"
  have o: "orders (app_db st1) = orders (app_db st) @ [?r]"
    using insert_order_orders [OF ins] d by simp
  have q: "query_get_order (app_db st1) (int i) = Some ?r"
    using query_get_order_insert [OF ins] d by simp
  have wf: "sorted_wrt (<) (map o_id (orders (app_db st1)))"
    using insert_order_wf [OF assms(3) ins] d by (simp add: orders_wf_def)
  have dec: "decrypt_order_id (e_fernet E) t = Inr (int i)"
    using decrypt_order_id_token [OF assms(2) t] .
  have s: "success t E st1 rq' =
             (Render ''home/payment-success.html'' None 200,
              st1\<lparr>app_db := update_order (app_db st1) i (\<lambda>r. r\<lparr>o_payment_status := True\<rparr>)\<rparr>)"
    using assms(4) dec q by (simp add: success_def)
  have "query_get_order (app_db (snd (success t E st1 rq'))) (int i) = Some (?r\<lparr>o_payment_status := True\<rparr>)"
    using query_get_order_update [OF wf, of i ?r "\<lambda>r. r\<lparr>o_payment_status := True\<rparr>"] q s
    by (simp add: query_get_order_def update_order_def)
  moreover have "\<not> o_payment_status ?r" by (simp add: order_init_def)
  ultimately show ?thesis using stripe j o s by fastforce
qed

theorem checkout_token_pays_order_witness:
  "\<exists>t sid surl r.
     e_stripe demo_env [] (butlast (rq_url_root (demo_checkout [])) @ ''/success/'' @ t @ ''?appreciate=thanksfortheorder'')
       (butlast (rq_url_root (demo_checkout [])) @ ''/cancel'') = Inr (sid, surl) \<and>
     JObj [(''checkout_session_id'', JStr ''cs_1''), (''checkout_session_url'', JStr ''https://checkout.example/cs_1'')] =
       JObj [(''checkout_session_id'', JStr sid), (''checkout_session_url'', JStr surl)] \<and>
     orders (app_db (snd (create_checkout_session demo_env demo_app (demo_checkout [])))) =
       orders (app_db demo_app) @ [r] \<and> \<not> o_payment_status r \<and>
     success t demo_env (snd (create_checkout_session demo_env demo_app (demo_checkout []))) demo_thanks =
       (Render ''home/payment-success.html'' None 200,
        (snd (create_checkout_session demo_env demo_app (demo_checkout [])))\<lparr>app_db :=
           update_order (app_db (snd (create_checkout_session demo_env demo_app (demo_checkout [])))) (o_id r)
             (\<lambda>r. r\<lparr>o_payment_status := True\<rparr>)\<rparr>) \<and>
     query_get_order (app_db (snd (success t demo_env
        (snd (create_checkout_session demo_env demo_app (demo_checkout []))) demo_thanks))) (int (o_id r)) =
       Some (r\<lparr>o_payment_status := True\<rparr>)"
proof -
  have c: "fernet_contract (e_fernet demo_env)" by (simp add: demo_env_def hex_fernet_contract)
  have w: "orders_wf (orders (app_db demo_app))" by (simp add: demo_app_def orders_wf_def)
  have a: "map_of (rq_args demo_thanks) ''appreciate'' = Some ''thanksfortheorder''"
    by (simp add: demo_thanks_def demo_request_def)
  show ?thesis using checkout_token_pays_order [OF demo_checkout_ok c w a] .
qed

text \<open>
  C18. Payment status is only set by \<open>/success\<close>: a request to any other
  route leaves the list of paid orders unchanged (checkout adds only unpaid
  orders).
\<close>

theorem payment_only_by_success:
  assumes "rt \<notin> range RSuccess"
  shows "filter o_payment_status (orders (app_db (snd (step E st (rt, rq))))) =
         filter o_payment_status (orders (app_db st))"
proof -
  have "filter o_payment_status (orders (app_db (snd (view rt E st rq)))) =
        filter o_payment_status (orders (app_db st))"
  proof (cases "rt \<in> range RDeleteUser \<union> range RMakeAdmin \<union> range RRemoveAdmin \<union> {RCheckout}")
    case True
    have pres: "app_db st = d \<Longrightarrow> filter o_payment_status (orders (app_db (snd (admin_required f st rq)))) =
        filter o_payment_status (orders d)"
      if "\<And>u st. filter o_payment_status (orders (app_db (snd (f u st)))) =
                filter o_payment_status (orders (app_db st))" for f d
      using guard_pres(1) [where P = "\<lambda>d'. filter o_payment_status (orders d') = filter o_payment_status (orders d)"
          and f = f and st = st and rq = rq] that by simp
    from True show ?thesis
      by (auto intro!: pres simp add: delete_user_def make_admin_def remove_admin_def checkout_paid
          update_user_paid split: option.splits)
  next
    case False
    with assms show ?thesis by (simp add: view_db_same)
  qed
  then show ?thesis by (simp add: step_def)
qed

theorem payment_only_by_success_witness:
  "filter o_payment_status (orders (app_db (snd (step demo_env demo_app (RCheckout, demo_checkout []))))) = []"
proof -
  have "RCheckout \<notin> range RSuccess" by auto
  from payment_only_by_success [OF this, of demo_env demo_app "demo_checkout []"]
  show ?thesis by (simp add: demo_app_def)
qed

text \<open>
  C31. Checkout succeeds only for an empty cart: a 200 answer from
  \<open>create_checkout_session\<close> needs a JSON object whose \<open>cart_items\<close> iterates
  to nothing, since each item raises (\<open>Product\<close> is never imported).
\<close>

theorem checkout_ok_needs_empty_cart:
  assumes "fst (create_checkout_session E st rq) = Json j 200"
  shows "\<exists>data. rq_json rq = Some (JObj data) \<and> py_iter (jget data ''cart_items'') = Inr []"
  using checkout_ok_cases [of E st rq j "snd (create_checkout_session E st rq)"] assms
  by (metis prod.collapse)

theorem checkout_ok_needs_empty_cart_witness:
  "\<exists>data. rq_json (demo_checkout []) = Some (JObj data) \<and> py_iter (jget data ''cart_items'') = Inr []"
proof -
  have "fst (create_checkout_session demo_env demo_app (demo_checkout [])) =
          Json (JObj [(''checkout_session_id'', JStr ''cs_1''),
                      (''checkout_session_url'', JStr ''https://checkout.example/cs_1'')]) 200"
    by (subst demo_checkout_ok) simp
  from checkout_ok_needs_empty_cart [OF this] show ?thesis .
qed

text \<open>
  C32. A checkout with a non-empty cart whose order binds to the columns
  fails with a 500 JSON answer naming the exception, after the new unpaid
  order has already been committed with the next rowid.
\<close>

theorem checkout_items_commit_unpaid_order:
  assumes "rq_json rq = Some (JObj data)"
    and "order_bind_error (jget data ''user_id'') (jget data ''total_price'') = None"
    and "py_iter (jget data ''cart_items'') = Inr (item # items)"
  shows "fst (create_checkout_session E st rq) =
           json_msg (exc_name (case item of JObj _ \<Rightarrow> NameError | _ \<Rightarrow> AttributeError)) 500 \<and>
         orders (app_db (snd (create_checkout_session E st rq))) =
           orders (app_db st) @ [(order_init (jget data ''user_id'') (rq_now rq) (jget data ''total_price''))
                                   \<lparr>o_id := next_rowid (map o_id (orders (app_db st)))\<rparr>]"
  using assms checkout_commits [OF assms(1,2)]
  by (simp add: create_checkout_session_def insert_order_def order_init_def checkout_error_def Let_def)

theorem checkout_items_commit_unpaid_order_witness:
  "fst (create_checkout_session demo_env demo_app (demo_checkout [JObj [(''id'', JInt 3)]])) =
     json_msg ''NameError'' 500 \<and>
   orders (app_db (snd (create_checkout_session demo_env demo_app (demo_checkout [JObj [(''id'', JInt 3)]])))) =
     [order_init (JInt 2) 0 (JInt 10)\<lparr>o_id := 1\<rparr>]"
  using checkout_items_commit_unpaid_order [of "demo_checkout [JObj [(''id'', JInt 3)]]"
      "[(''user_id'', JInt 2), (''total_price'', JInt 10), (''cart_items'', JList [JObj [(''id'', JInt 3)]])]"
      "JObj [(''id'', JInt 3)]" "[]" demo_env demo_app]
  by (simp add: demo_checkout_def demo_request_def jget_def demo_app_def next_rowid_def order_bind_error_def
      sqlite_int_ok_def py_float_int_ok_def)

text \<open>
  C33. A total price that Python's \<open>float()\<close> rejects fails the commit:
  SQLAlchemy's \<open>Numeric\<close> bind processor raises, the session is rolled
  back, the exception is printed and answered with 500, and no order is
  written.
\<close>

theorem checkout_price_not_float:
  assumes "rq_json rq = Some (JObj data)" and "jget data ''total_price'' = JStr s" and "\<not> py_float_str_ok s"
  shows "create_checkout_session E st rq =
           (json_msg ''StatementError'' 500, st\<lparr>stdout := stdout st @ [''StatementError'']\<rparr>)"
proof -
  have "order_bind_error (jget data ''user_id'') (jget data ''total_price'') = Some StatementError"
    using assms(2,3) by (simp add: order_bind_error_def)
  from checkout_bind_fails [OF assms(1) this] show ?thesis by (simp add: checkout_error_def)
qed

theorem checkout_price_not_float_witness:
  "create_checkout_session demo_env demo_app
     ((demo_request 5 POST [])\<lparr>rq_json := Some (JObj [(''user_id'', JInt 2), (''total_price'', JStr ''abc''),
                                                    (''cart_items'', JList [JObj []])])\<rparr>) =
   (json_msg ''StatementError'' 500, demo_app\<lparr>stdout := stdout demo_app @ [''StatementError'']\<rparr>)"
proof (rule checkout_price_not_float)
  show "jget [(''user_id'', JInt 2), (''total_price'', JStr ''abc''), (''cart_items'', JList [JObj []])]
          ''total_price'' = JStr ''abc''"
    by code_simp
  show "\<not> py_float_str_ok ''abc''"
    by (simp add: py_float_str_ok_def float_unsigned_def strip_int_space_def is_int_space_def sql_lower_def
        lower_char_def float_mantissa_ok_def float_exponent_ok_def is_digit_def)
qed simp

text \<open>
  C34. SQLite's 64-bit INTEGER bounds the order's \<open>user_id\<close>: for an
  integer user id and a price \<open>float()\<close> converts, checkout writes an
  order exactly when the id lies in \<open>[-2^63, 2^63)\<close>; outside it
  \<open>sqlite3\<close> raises \<open>OverflowError\<close> at the commit and nothing is
  written.
\<close>

theorem checkout_user_id_bounds:
  assumes "rq_json rq = Some (JObj data)" and "jget data ''user_id'' = JInt n"
    and "jget data ''total_price'' = JInt p" and "py_float_int_ok p"
  shows "orders (app_db (snd (create_checkout_session E st rq))) \<noteq> orders (app_db st) \<longleftrightarrow>
         - (2 ^ 63) \<le> n \<and> n < 2 ^ 63"
proof (cases "sqlite_int_ok n")
  case True
  then have "order_bind_error (jget data ''user_id'') (jget data ''total_price'') = None"
    using assms(2-4) by (simp add: order_bind_error_def)
  from checkout_commits [OF assms(1) this] True show ?thesis by (simp add: sqlite_int_ok_def)
next
  case False
  then have "order_bind_error (jget data ''user_id'') (jget data ''total_price'') = Some OverflowError"
    using assms(2-4) by (simp add: order_bind_error_def)
  from checkout_bind_fails [OF assms(1) this] False show ?thesis
    by (simp add: checkout_error_def sqlite_int_ok_def)
qed

theorem checkout_user_id_bounds_witness:
  "orders (app_db (snd (create_checkout_session demo_env demo_app
     ((demo_request 5 POST [])\<lparr>rq_json := Some (JObj [(''user_id'', JInt (2 ^ 63 - 1)), (''total_price'', JInt 10),
                                                    (''cart_items'', JList [])])\<rparr>)))) \<noteq> orders (app_db demo_app) \<and>
   orders (app_db (snd (create_checkout_session demo_env demo_app
     ((demo_request 5 POST [])\<lparr>rq_json := Some (JObj [(''user_id'', JInt (2 ^ 63)), (''total_price'', JInt 10),
                                                    (''cart_items'', JList [])])\<rparr>)))) = orders (app_db demo_app)"
proof -
  have p: "py_float_int_ok 10" by (simp add: py_float_int_ok_def)
  show ?thesis
    using checkout_user_id_bounds [of "(demo_request 5 POST [])\<lparr>rq_json := Some (JObj [(''user_id'', JInt (2 ^ 63 - 1)),
            (''total_price'', JInt 10), (''cart_items'', JList [])])\<rparr>" _ "2 ^ 63 - 1" 10 demo_env demo_app]
      checkout_user_id_bounds [of "(demo_request 5 POST [])\<lparr>rq_json := Some (JObj [(''user_id'', JInt (2 ^ 63)),
            (''total_price'', JInt 10), (''cart_items'', JList [])])\<rparr>" _ "2 ^ 63" 10 demo_env demo_app] p
    by (simp add: jget_def)
qed

text \<open>
  C21. \<open>/success\<close> changes the state only when the request carries the
  argument \<open>appreciate=thanksfortheorder\<close> and the token decrypts to the id
  of an existing order.
\<close>

theorem success_needs_secret_and_order:
  assumes "snd (success t E st rq) \<noteq> st"
  shows "map_of (rq_args rq) ''appreciate'' = Some ''thanksfortheorder'' \<and>
         (\<exists>i r. decrypt_order_id (e_fernet E) t = Inr i \<and> query_get_order (app_db st) i = Some r)"
  using assms by (auto simp add: success_def split: if_splits sum.splits option.splits)

theorem success_needs_secret_and_order_witness:
  "map_of (rq_args demo_thanks) ''appreciate'' = Some ''thanksfortheorder'' \<and>
   (\<exists>i r. decrypt_order_id (e_fernet demo_env) ''0031'' = Inr i \<and> query_get_order (app_db demo_shop) i = Some r)"
proof (rule success_needs_secret_and_order)
  have "app_db (snd (success ''0031'' demo_env demo_shop demo_thanks)) \<noteq> app_db demo_shop"
    by code_simp
  then show "snd (success ''0031'' demo_env demo_shop demo_thanks) \<noteq> demo_shop" by auto
qed

text \<open>
  C15. Every stored order can still be paid: with a cipher that meets its
  contract, for each order of a well-formed table there is a token such that
  one GET of \<open>/success/<token>?appreciate=thanksfortheorder\<close> renders the
  success page and marks that order, and no other, paid.
\<close>

theorem order_can_be_paid:
  assumes "fernet_contract (e_fernet E)" and "orders_wf (orders (app_db st))"
    and "r \<in> set (orders (app_db st))"
    and "rq_method rq = GET" and "map_of (rq_args rq) ''appreciate'' = Some ''thanksfortheorder''"
  shows "\<exists>t. step E st (RSuccess t, rq) =
              (Render ''home/payment-success.html'' None 200,
               st\<lparr>app_db := update_order (app_db st) (o_id r) (\<lambda>r. r\<lparr>o_payment_status := True\<rparr>)\<rparr>) \<and>
            query_get_order (app_db (snd (step E st (RSuccess t, rq)))) (int (o_id r)) =
              Some (r\<lparr>o_payment_status := True\<rparr>)"
proof -
  obtain t where t: "encrypt_order_id (e_fernet E) 0 (int (o_id r)) = Inr t"
    using encrypt_order_id_token [OF assms(1)] by blast
  have dec: "decrypt_order_id (e_fernet E) t = Inr (int (o_id r))"
    using decrypt_order_id_token [OF assms(1) t] .
  have sorted: "sorted_wrt (<) (map o_id (orders (app_db st)))"
    using assms(2) by (simp add: orders_wf_def)
  have q: "query_get_order (app_db st) (int (o_id r)) = Some r"
    using find_unique_order [OF sorted assms(3)] by (simp add: query_get_order_def)
  have s: "step E st (RSuccess t, rq) =
             (Render ''home/payment-success.html'' None 200,
              st\<lparr>app_db := update_order (app_db st) (o_id r) (\<lambda>r. r\<lparr>o_payment_status := True\<rparr>)\<rparr>)"
    using assms(4,5) dec q by (simp add: step_def success_def)
  moreover have "query_get_order (update_order (app_db st) (o_id r) (\<lambda>r. r\<lparr>o_payment_status := True\<rparr>))
                   (int (o_id r)) = Some (r\<lparr>o_payment_status := True\<rparr>)"
    using query_get_order_update [OF sorted, of "o_id r" r] q
    by (simp add: query_get_order_def update_order_def)
  ultimately show ?thesis by auto
qed

theorem order_can_be_paid_witness:
  "\<exists>t. step demo_env demo_shop (RSuccess t, demo_thanks) =
          (Render ''home/payment-success.html'' None 200,
           demo_shop\<lparr>app_db := update_order (app_db demo_shop) 1 (\<lambda>r. r\<lparr>o_payment_status := True\<rparr>)\<rparr>) \<and>
        query_get_order (app_db (snd (step demo_env demo_shop (RSuccess t, demo_thanks)))) 1 =
          Some (order_init (JInt 2) 0 (JInt 10)\<lparr>o_id := 1, o_payment_status := True\<rparr>)"
proof -
  have c: "fernet_contract (e_fernet demo_env)" by (simp add: demo_env_def hex_fernet_contract)
  have w: "orders_wf (orders (app_db demo_shop))"
    by (simp add: demo_shop_def demo_app_def orders_wf_def order_init_def)
  have r: "order_init (JInt 2) 0 (JInt 10)\<lparr>o_id := 1\<rparr> \<in> set (orders (app_db demo_shop))"
    by (simp add: demo_shop_def demo_app_def)
  have "rq_method demo_thanks = GET" and "map_of (rq_args demo_thanks) ''appreciate'' = Some ''thanksfortheorder''"
    by (simp_all add: demo_thanks_def demo_request_def)
  from order_can_be_paid [OF c w r this] show ?thesis by simp
qed

end
