(* ===== verification/Abstraction.thy ===== *)
theory Abstraction
  imports Deployment
begin

text \<open>
  An abstract specification of what the application does to its data, and
  the refinement of \<open>step\<close> to it.  The abstract state \<open>ashop\<close> keeps of
  each user only the admin flag and of each order only its payment status,
  both as maps from ids.  Its transitions say what the shop promises: an
  admin may set any existing user's admin flag or delete an existing user, an
  order may be created unpaid under a fresh id, an existing order may be
  marked paid, and nothing else changes.  \<open>abs_db\<close> reads the abstract
  state off the tables; every request of the concrete model is either a
  stutter or one abstract transition (a forward simulation with the identity
  on the shared environment).
\<close>

record ashop =
  a_users :: "nat \<rightharpoonup> bool"
  a_orders :: "nat \<rightharpoonup> bool"

definition abs_db :: "db \<Rightarrow> ashop" where
  "abs_db d =
     \<lparr>a_users = map_of (map (\<lambda>u. (u_id u, u_is_admin u)) (users d)),
      a_orders = map_of (map (\<lambda>r. (o_id r, o_payment_status r)) (orders d))\<rparr>"

inductive astep :: "ashop \<Rightarrow> ashop \<Rightarrow> bool" where
  a_skip: "astep a a"
| a_set_admin: "a_users a j = Some True \<Longrightarrow> a_users a i \<noteq> None \<Longrightarrow>
     astep a (a\<lparr>a_users := (a_users a)(i \<mapsto> b)\<rparr>)"
| a_delete: "a_users a j = Some True \<Longrightarrow> a_users a i \<noteq> None \<Longrightarrow>
     astep a (a\<lparr>a_users := (a_users a)(i := None)\<rparr>)"
| a_new_order: "a_orders a i = None \<Longrightarrow> astep a (a\<lparr>a_orders := (a_orders a)(i \<mapsto> False)\<rparr>)"
| a_pay: "a_orders a i \<noteq> None \<Longrightarrow> astep a (a\<lparr>a_orders := (a_orders a)(i \<mapsto> True)\<rparr>)"

subsection \<open>Lemmas\<close>

lemma abs_admin:
  assumes "users_wf (users d)" and "u \<in> set (users d)"
  shows "a_users (abs_db d) (u_id u) = Some (u_is_admin u)"
proof -
  have "distinct (map u_id (users d))"
    using assms(1) by (simp add: users_wf_def strict_sorted_iff)
  then show ?thesis using assms(2) by (simp add: abs_db_def map_of_map_key)
qed

lemma abs_user_found:
  assumes "query_get_user d i = Some v"
  shows "a_users (abs_db d) i \<noteq> None"
proof -
  from assms have "v \<in> set (users d)" and "u_id v = i"
    by (auto simp add: query_get_user_def find_Some_iff)
  then show ?thesis by (auto simp add: abs_db_def map_of_map_None)
qed

lemma admin_refines:
  assumes "db_wf (app_db st)"
    and "\<And>u. u \<in> set (users (app_db st)) \<Longrightarrow> u_is_admin u \<Longrightarrow>
           astep (abs_db (app_db st)) (abs_db (app_db (snd (f u st))))"
  shows "astep (abs_db (app_db st)) (abs_db (app_db (snd (admin_required f st rq))))"
proof -
  obtain r st' where e: "admin_required f st rq = (r, st')" by fastforce
  from admin_required_cases [OF e] show ?thesis
  proof (elim disjE exE conjE)
    assume "st' = st"
    then show ?thesis using e by (simp add: a_skip)
  next
    fix u
    assume "current_user st rq = Some u" and "u_is_admin u" and "f u st = (r, st')"
    then show ?thesis using e assms(2) current_user_in_db by fastforce
  qed
qed

lemma delete_user_refines:
  assumes "db_wf (app_db st)"
  shows "astep (abs_db (app_db st)) (abs_db (app_db (snd (delete_user i E st rq))))"
  unfolding delete_user_def
proof (rule admin_refines [OF assms])
  fix u
  assume "u \<in> set (users (app_db st))" and "u_is_admin u"
  then have adm: "a_users (abs_db (app_db st)) (u_id u) = Some True"
    using assms abs_admin by (fastforce simp add: db_wf_def)
  show "astep (abs_db (app_db st)) (abs_db (app_db (snd (case query_get_user (app_db st) i of
      None \<Rightarrow> (json_msg ''User not found'' 404, st)
    | Some user \<Rightarrow> (json_msg ''User deleted successfully'' 201,
        st\<lparr>app_db := delete_user_row (app_db st) i\<rparr>)))))"
  proof (cases "query_get_user (app_db st) i")
    case None
    then show ?thesis by (simp add: a_skip)
  next
    case (Some v)
    have "abs_db (delete_user_row (app_db st) i) =
            (abs_db (app_db st))\<lparr>a_users := (a_users (abs_db (app_db st)))(i := None)\<rparr>"
      by (simp add: abs_db_def delete_user_row_def map_of_map_filter [where k = u_id and v = u_is_admin])
    with Some adm abs_user_found [OF Some] show ?thesis by (simp add: a_delete)
  qed
qed

lemma set_admin_flag_refines:
  assumes "db_wf (app_db st)" and "u \<in> set (users (app_db st))" and "u_is_admin u"
  shows "astep (abs_db (app_db st)) (abs_db (app_db (snd (set_admin_flag b m i u st))))"
proof (cases "query_get_user (app_db st) i")
  case None
  then show ?thesis by (simp add: set_admin_flag_def a_skip)
next
  case (Some v)
  have adm: "a_users (abs_db (app_db st)) (u_id u) = Some True"
    using assms abs_admin by (fastforce simp add: db_wf_def)
  have "i \<in> u_id ` set (users (app_db st))"
    using Some by (auto simp add: query_get_user_def find_Some_iff)
  then have "abs_db (update_user (app_db st) i (\<lambda>u. u\<lparr>u_is_admin := b\<rparr>)) =
             (abs_db (app_db st))\<lparr>a_users := (a_users (abs_db (app_db st)))(i \<mapsto> b)\<rparr>"
    using map_of_map_update [of u_id "\<lambda>u. u\<lparr>u_is_admin := b\<rparr>" u_is_admin b i "users (app_db st)"]
    by (simp add: abs_db_def update_user_def)
  with Some adm abs_user_found [OF Some] show ?thesis by (simp add: set_admin_flag_def a_set_admin)
qed

lemma checkout_refines:
  assumes "db_wf (app_db st)"
  shows "astep (abs_db (app_db st)) (abs_db (app_db (snd (create_checkout_session E st rq))))"
  using checkout_db_cases [of E st rq]
proof (elim disjE exE conjE)
  assume "app_db (snd (create_checkout_session E st rq)) = app_db st"
  then show ?thesis by (simp add: a_skip)
next
  fix a b c d i
  assume ins: "insert_order (app_db st) (order_init a b c) = Inr (d, i)"
    and d: "app_db (snd (create_checkout_session E st rq)) = d"
  have fresh: "i \<notin> o_id ` set (orders (app_db st))"
    using insert_order_wf [OF _ ins] assms by (simp add: db_wf_def)
  have none: "a_orders (abs_db (app_db st)) i = None"
    using fresh by (simp add: abs_db_def map_of_map_None)
  have "abs_db d = (abs_db (app_db st))\<lparr>a_orders := (a_orders (abs_db (app_db st)))(i \<mapsto> False)\<rparr>"
    using insert_order_orders [OF ins] insert_order_wf [OF _ ins] assms none
    by (simp add: abs_db_def db_wf_def order_init_def map_add_upd_left domIff)
  moreover note none
  ultimately show ?thesis using d by (simp add: a_new_order)
qed

lemma success_refines:
  "astep (abs_db (app_db st)) (abs_db (app_db (snd (success t E st rq))))"
proof (cases "map_of (rq_args rq) ''appreciate'' \<noteq> Some ''thanksfortheorder''")
  case True
  then show ?thesis by (simp add: success_def a_skip)
next
  case False
  show ?thesis
  proof (cases "decrypt_order_id (e_fernet E) t")
    case (Inl e)
    with False show ?thesis by (simp add: success_def a_skip)
  next
    case (Inr oid)
    show ?thesis
    proof (cases "query_get_order (app_db st) oid")
      case None
      with False Inr show ?thesis by (simp add: success_def a_skip)
    next
      case (Some r)
      then have r: "r \<in> set (orders (app_db st))"
        by (auto simp add: query_get_order_def find_Some_iff)
      then have "abs_db (update_order (app_db st) (o_id r) (\<lambda>r. r\<lparr>o_payment_status := True\<rparr>)) =
        (abs_db (app_db st))\<lparr>a_orders := (a_orders (abs_db (app_db st)))(o_id r \<mapsto> True)\<rparr>"
        using map_of_map_update [of o_id "\<lambda>r. r\<lparr>o_payment_status := True\<rparr>" o_payment_status True
            "o_id r" "orders (app_db st)"]
        by (simp add: abs_db_def update_order_def)
      moreover have "a_orders (abs_db (app_db st)) (o_id r) \<noteq> None"
        using r by (auto simp add: abs_db_def map_of_map_None)
      ultimately show ?thesis using False Inr Some by (simp add: success_def a_pay)
    qed
  qed
qed

lemma view_refines:
  assumes "db_wf (app_db st)"
  shows "astep (abs_db (app_db st)) (abs_db (app_db (snd (view rt E st rq))))"
proof (cases "rt \<in> range RDeleteUser \<union> range RMakeAdmin \<union> range RRemoveAdmin \<union> range RSuccess \<union> {RCheckout}")
  case True
  have "astep (abs_db (app_db st)) (abs_db (app_db (snd (admin_required (set_admin_flag b m i) st rq))))"
    for b m i using admin_refines [OF assms] set_admin_flag_refines [OF assms] by blast
  with True show ?thesis
    by (auto simp add: make_admin_def remove_admin_def delete_user_refines [OF assms]
        checkout_refines [OF assms] success_refines)
next
  case False
  then show ?thesis by (simp add: view_db_same a_skip)
qed

subsection \<open>Properties\<close>

lemma step_astep:
  assumes "db_wf (app_db st)"
  shows "astep (abs_db (app_db st)) (abs_db (app_db (snd (step E st x))))"
  using view_refines [OF assms] by (cases x) (simp add: step_def a_skip)

text \<open>
  C9. Refinement: from a well-formed database, every request the dispatcher
  handles either leaves the abstract shop unchanged or performs exactly one
  of its transitions (admin flag change or user deletion by an existing
  admin, creation of an unpaid order under a fresh id, payment of an existing
  order).
\<close>

theorem step_refines:
  assumes "db_wf (app_db st)"
  shows "astep (abs_db (app_db st)) (abs_db (app_db (snd (step E st x))))"
  by (rule step_astep [OF assms])

theorem step_refines_witness:
  "astep (abs_db (app_db demo_app))
     (abs_db (app_db (snd (step demo_env demo_app (RMakeAdmin 2, demo_request 5 POST [(''username'', ''root'')])))))"
proof -
  have "db_wf (app_db demo_app)"
    by (simp add: demo_app_def demo_user_def db_wf_def users_wf_def orders_wf_def)
  then show ?thesis by (rule step_refines)
qed

end
