(* ===== verification/Services.thy ===== *)
theory Services
  imports Web
begin

text \<open>
  The helpers of \<open>src/apps/home/util.py\<close> that reach external services and
  the path helper of \<open>routes.py\<close>.  The services are interfaces passed as
  arguments: the mail transport (\<open>Mail.send\<close>), the template loader (does a
  template exist) and Cloudinary's \<open>uploader.upload\<close>.  What the code prints is returned as a
  list of lines.  None of these helpers is reached by a request that can
  complete: \<open>contact_us\<close> raises \<open>NameError\<close> before it would send mail,
  and \<open>get_image_url\<close> and \<open>get_segment\<close> are never called.
\<close>

subsection \<open>Enquiry e-mail\<close>

record mail_msg =
  m_subject :: string
  m_sender :: string
  m_recipients :: "string list"
  m_body :: string
  m_reply_to :: string
  m_html :: "string \<times> (string \<times> string) list"

text \<open>
  \<open>send_enquiry_email_to_admin\<close>: the message handed to \<open>mail.send\<close>, if
  any, and the printed lines.  The \<open>html\<close> part is the template name with
  the data it is rendered from; a missing template raises
  \<open>TemplateNotFound\<close> inside the \<open>try\<close>, and every exception is printed and
  swallowed.
\<close>

definition send_enquiry_email_to_admin ::
  "(mail_msg \<Rightarrow> py_exc + unit) \<Rightarrow> (string \<Rightarrow> bool) \<Rightarrow> string \<Rightarrow> string \<Rightarrow> string \<Rightarrow> string \<Rightarrow> string \<Rightarrow>
     mail_msg option \<times> string list" where
  "send_enquiry_email_to_admin send template_exists company_email company_name name email message =
     (let sender = ''noreply@app.com'';
          admin_msg_title = ''New Message Received'';
          admin_msg_body = ''New message received from '' @ name @ '' ('' @ email @ '').'';
          admin_data = [(''app_name'', company_name), (''title'', admin_msg_title),
                        (''body'', admin_msg_body), (''name'', name), (''message'', message)];
          admin_msg = \<lparr>m_subject = admin_msg_title, m_sender = sender, m_recipients = [company_email],
                       m_body = admin_msg_body, m_reply_to = company_email,
                       m_html = (''emails/contact_admin.html'', admin_data)\<rparr>
      in if \<not> template_exists ''emails/contact_admin.html'' then (None, [exc_name TemplateNotFound])
         else case send admin_msg of
                Inl e \<Rightarrow> (None, [exc_name e])
              | Inr _ \<Rightarrow> (Some admin_msg, []))"

subsection \<open>Image upload\<close>

text \<open>
  \<open>get_image_url\<close>: \<open>cloudinary.config\<close> only sets the credentials the
  upload uses, so it is part of the interface; \<open>["url"]\<close> on the decoded
  answer raises \<open>KeyError\<close> when the key is missing.
\<close>

definition get_image_url ::
  "(string \<Rightarrow> py_exc + (string \<times> jval) list) \<Rightarrow> string \<Rightarrow> py_exc + jval" where
  "get_image_url upload image_name =
     sbind (upload image_name)
       (\<lambda>r. case map_of (rev r) ''url'' of None \<Rightarrow> Inl KeyError | Some v \<Rightarrow> Inr v)"

subsection \<open>Path segments\<close>

text \<open>\<open>str.split("/")\<close>: the pieces between slashes, never an empty list.\<close>

fun py_split_slash :: "string \<Rightarrow> string list" where
  "py_split_slash [] = [[]]"
| "py_split_slash (c # cs) =
     (let r = py_split_slash cs in if c = CHR ''/'' then [] # r else (c # hd r) # tl r)"

text \<open>
  \<open>get_segment\<close> (\<open>routes.py\<close> 276--284): the last piece of the path, or
  \<open>"index"\<close> when the path ends with a slash.  \<open>req.path\<close> is always a
  string, so the \<open>except\<close> branch is unreachable and not modelled.
\<close>

definition get_segment :: "string \<Rightarrow> string" where
  "get_segment path =
     (let segment = last (py_split_slash path) in if segment = [] then ''index'' else segment)"

subsection \<open>Lemmas\<close>

lemma py_split_slash_not_Nil [simp]: "py_split_slash s \<noteq> []"
  by (induction s) (simp_all add: Let_def)

lemma py_split_slash_no_slash: "CHR ''/'' \<notin> set s \<Longrightarrow> py_split_slash s = [s]"
  by (induction s) (auto simp add: Let_def)

lemma py_split_slash_slash: "CHR ''/'' \<in> set s \<Longrightarrow> tl (py_split_slash s) \<noteq> []"
proof (induction s)
  case Nil
  then show ?case by simp
next
  case (Cons c cs)
  show ?case
  proof (cases "c = CHR ''/''")
    case True
    then show ?thesis by (simp add: Let_def)
  next
    case False
    with Cons show ?thesis by (simp add: Let_def)
  qed
qed

lemma last_py_split_slash:
  "last (py_split_slash s) = rev (takeWhile (\<lambda>c. c \<noteq> CHR ''/'') (rev s))"
proof (cases "CHR ''/'' \<in> set s")
  case False
  then have tw: "takeWhile (\<lambda>c. c \<noteq> CHR ''/'') (rev s) = rev s"
    by (auto simp add: takeWhile_eq_all_conv)
  have "last (py_split_slash s) = s" by (simp add: py_split_slash_no_slash [OF False])
  also have "\<dots> = rev (takeWhile (\<lambda>c. c \<noteq> CHR ''/'') (rev s))" by (subst tw) simp
  finally show ?thesis .
next
  case True
  then show ?thesis
  proof (induction s)
    case Nil
    then show ?case by simp
  next
    case (Cons c cs)
    let ?P = "\<lambda>c. c \<noteq> CHR ''/''"
    show ?case
    proof (cases "CHR ''/'' \<in> set cs")
      case True
      have "takeWhile ?P (rev cs @ [c]) = takeWhile ?P (rev cs)"
        using True by (intro takeWhile_append1) auto
      moreover have "last (py_split_slash (c # cs)) = last (py_split_slash cs)"
        using py_split_slash_slash [OF True] by (cases "py_split_slash cs") (simp_all add: Let_def)
      ultimately show ?thesis using Cons.IH [OF True] by simp
    next
      case False
      with Cons.prems have c: "c = CHR ''/''" by simp
      have "takeWhile ?P (rev cs @ [c]) = rev cs @ takeWhile ?P [c]"
        using False by (intro takeWhile_append2) auto
      then have "takeWhile ?P (rev cs @ [c]) = rev cs" using c by simp
      then show ?thesis using False c by (simp add: py_split_slash_no_slash)
    qed
  qed
qed

subsection \<open>Properties\<close>

text \<open>
  Equivalence of \<open>get_segment\<close> with a reference: the segment is the
  longest suffix of the path without a slash, \<open>"index"\<close> when that suffix is
  empty.
\<close>

theorem get_segment_suffix:
  "get_segment path =
     (let s = rev (takeWhile (\<lambda>c. c \<noteq> CHR ''/'') (rev path)) in if s = [] then ''index'' else s)"
  by (simp add: get_segment_def last_py_split_slash)

text \<open>
  C37. The enquiry e-mail goes to the company and its reply address is the
  company's own: the enquirer's address appears only in the body, so
  replying to the notification does not reach the enquirer.  The message
  data carries the enquiry text.
\<close>

theorem enquiry_mail_reply_to_company:
  assumes "fst (send_enquiry_email_to_admin send template_exists company_email company_name name email message) =
             Some m"
  shows "m_recipients m = [company_email] \<and> m_reply_to m = company_email \<and>
         m_sender m = ''noreply@app.com'' \<and>
         m_body m = ''New message received from '' @ name @ '' ('' @ email @ '').'' \<and>
         map_of (snd (m_html m)) ''message'' = Some message"
  using assms by (auto simp add: send_enquiry_email_to_admin_def Let_def split: if_splits sum.splits)

theorem enquiry_mail_reply_to_company_witness:
  "let m = the (fst (send_enquiry_email_to_admin (\<lambda>m. Inr ()) (\<lambda>t. True)
             ''info@shop.example'' ''Shop'' ''Ann'' ''ann@example.org'' ''Hello'')) in
   m_recipients m = [''info@shop.example''] \<and> m_reply_to m = ''info@shop.example'' \<and>
   m_sender m = ''noreply@app.com'' \<and>
   m_body m = ''New message received from Ann (ann@example.org).'' \<and>
   map_of (snd (m_html m)) ''message'' = Some ''Hello''"
proof -
  let ?r = "send_enquiry_email_to_admin (\<lambda>m. Inr ()) (\<lambda>t. True)
              ''info@shop.example'' ''Shop'' ''Ann'' ''ann@example.org'' ''Hello''"
  obtain m where "fst ?r = Some m" by (simp add: send_enquiry_email_to_admin_def Let_def)
  from enquiry_mail_reply_to_company [OF this] this show ?thesis by simp
qed

text \<open>
  The e-mail helper never raises: either the message is handed to the
  transport and nothing is printed, or nothing is sent and exactly the name
  of the exception (a missing template or a transport error) is printed.
\<close>

theorem enquiry_mail_total:
  "(\<exists>m. send_enquiry_email_to_admin send template_exists company_email company_name name email message =
          (Some m, [])) \<or>
   (\<exists>x. send_enquiry_email_to_admin send template_exists company_email company_name name email message =
          (None, [exc_name x]))"
proof (cases "template_exists ''emails/contact_admin.html''")
  case True
  then show ?thesis by (auto simp add: send_enquiry_email_to_admin_def Let_def split: sum.split)
next
  case False
  then have "send_enquiry_email_to_admin send template_exists company_email company_name name email message =
               (None, [exc_name TemplateNotFound])"
    by (simp add: send_enquiry_email_to_admin_def Let_def)
  then show ?thesis by blast
qed

text \<open>
  \<open>get_image_url\<close> raises \<open>KeyError\<close> when the upload succeeds but its
  answer has no \<open>url\<close> field.
\<close>

theorem get_image_url_errors:
  assumes "upload image_name = Inr r" and "''url'' \<notin> fst ` set r"
  shows "get_image_url upload image_name = Inl KeyError"
proof -
  have "map_of (rev r) ''url'' = None" using assms(2) by (simp add: map_of_eq_None_iff)
  with assms(1) show ?thesis by (simp add: get_image_url_def sbind_def)
qed

theorem get_image_url_errors_witness:
  "get_image_url (\<lambda>n. Inr [(''public_id'', JStr n)]) ''logo.png'' = Inl KeyError"
  by (rule get_image_url_errors) auto

end
