(* ===== verification/Factory.thy ===== *)
theory Factory
  imports Deployment
begin

text \<open>
  The application factory of \<open>src/apps/__init__.py\<close> and the way Flask runs
  the application it builds.  \<open>create_app\<close> is modelled step by step as the
  code writes it: the configuration is the dictionary \<open>app.config\<close>, the
  registered extensions, blueprints, hooks, error handlers and context
  processors are lists of the application object \<open>flask_app\<close>, and the
  handlers it registers are values of the model (\<open>page_not_found\<close> of
  \<open>Routes\<close>, \<open>initialize_database\<close> and \<open>inject_categories\<close> below).

  \<open>full_dispatch_request\<close> is Flask's request cycle over that object: the
  \<open>before_first_request\<close> hooks until one run of them returns normally (a
  hook that raises leaves \<open>_got_first_request\<close> unset, so the next request
  runs them again), URL matching, the \<open>before_request\<close> check of
  \<open>CSRFProtect\<close> (only for a matched endpoint), the view or the error
  handler, and the template context the context processors add to a
  rendered page.  The server state is the application object with the
  application state of \<open>Web\<close>.

  \<open>db.create_all()\<close> is an interface from the database URI in force to its
  outcome (Flask-SQLAlchemy 2 binds the engine to the URI the configuration
  holds when it is first used, which the fallback to SQLite relies on).
  \<open>shutdown_session\<close> removes the SQLAlchemy session at teardown: the
  writes a view did not commit are lost, which the views of \<open>Routes\<close>
  already model by returning the committed state only.  The context
  processor's query is read from the state the request leaves; every view
  that renders a page has committed its writes, or made none, by then.
\<close>

subsection \<open>Configuration\<close>

text \<open>The values \<open>app.config\<close> holds: strings, integers, booleans and \<open>None\<close>.\<close>

datatype cval = CStr string | CInt int | CBool bool | CNone

type_synonym config = "string \<rightharpoonup> cval"

text \<open>
  The URI Flask-SQLAlchemy 2 connects to: the configured string, or its
  in-memory SQLite default when the key is unset.
\<close>

definition config_uri :: "config \<Rightarrow> string" where
  "config_uri cfg =
     (case cfg ''SQLALCHEMY_DATABASE_URI'' of Some (CStr u) \<Rightarrow> u | _ \<Rightarrow> ''sqlite:///:memory:'')"

definition os_getenv :: "(string \<Rightarrow> string option) \<Rightarrow> string \<Rightarrow> cval" where
  "os_getenv environ k = (case environ k of None \<Rightarrow> CNone | Some v \<Rightarrow> CStr v)"

subsection \<open>The application object\<close>

datatype extension = SQLAlchemyExt | LoginManagerExt | MailExt | CSRFProtectExt

text \<open>The functions \<open>configure_database\<close> registers.\<close>

datatype hook = InitializeDatabase | ShutdownSession

datatype context_processor = InjectCategories

record flask_app =
  fa_config :: config
  fa_extensions :: "extension list"
  fa_blueprints :: "string list"
  fa_before_first_request :: "hook list"
  fa_teardown_request :: "hook list"
  fa_error_handlers :: "(nat \<times> (env \<Rightarrow> app \<Rightarrow> request \<Rightarrow> response \<times> app)) list"
  fa_context_processors :: "context_processor list"
  fa_got_first_request :: bool

text \<open>\<open>Flask(__name__)\<close> followed by \<open>app.config.from_object(config)\<close>.\<close>

definition flask_new :: "config \<Rightarrow> flask_app" where
  "flask_new cfg =
     \<lparr>fa_config = cfg, fa_extensions = [], fa_blueprints = [], fa_before_first_request = [],
      fa_teardown_request = [], fa_error_handlers = [], fa_context_processors = [],
      fa_got_first_request = False\<rparr>"

definition register_extensions :: "flask_app \<Rightarrow> flask_app" where
  "register_extensions a = a\<lparr>fa_extensions := fa_extensions a @ [SQLAlchemyExt, LoginManagerExt]\<rparr>"

text \<open>
  \<open>register_blueprints\<close>: the module \<open>apps.home.routes\<close> exports the
  blueprint \<open>home_blueprint\<close> of \<open>apps/home/__init__.py\<close>.
\<close>

definition blueprint_of_module :: "string \<Rightarrow> string" where
  "blueprint_of_module module_name = module_name @ ''_blueprint''"

definition register_blueprints :: "flask_app \<Rightarrow> flask_app" where
  "register_blueprints a =
     fold (\<lambda>module_name a. a\<lparr>fa_blueprints := fa_blueprints a @ [blueprint_of_module module_name]\<rparr>)
       [''home''] a"

definition configure_database :: "flask_app \<Rightarrow> flask_app" where
  "configure_database a =
     a\<lparr>fa_before_first_request := fa_before_first_request a @ [InitializeDatabase],
       fa_teardown_request := fa_teardown_request a @ [ShutdownSession]\<rparr>"

definition initialize_mail :: "(string \<Rightarrow> string option) \<Rightarrow> flask_app \<Rightarrow> flask_app" where
  "initialize_mail environ a =
     (let cfg = fa_config a;
          cfg = cfg(''MAIL_SERVER'' \<mapsto> CStr ''smtp.googlemail.com'');
          cfg = cfg(''MAIL_PORT'' \<mapsto> CInt 587);
          cfg = cfg(''MAIL_USE_TLS'' \<mapsto> CBool True);
          cfg = cfg(''MAIL_USERNAME'' \<mapsto> os_getenv environ ''MAIL_USERNAME'');
          cfg = cfg(''MAIL_PASSWORD'' \<mapsto> os_getenv environ ''MAIL_PASSWORD'')
      in a\<lparr>fa_config := cfg, fa_extensions := fa_extensions a @ [MailExt]\<rparr>)"

text \<open>
  \<open>create_app\<close>: \<open>environ\<close> is the process environment after
  \<open>load_dotenv()\<close>.  The \<open>Mail\<close> object \<open>initialize_mail\<close> returns is not
  used further.
\<close>

definition create_app :: "(string \<Rightarrow> string option) \<Rightarrow> config \<Rightarrow> flask_app" where
  "create_app environ config =
     (let a = flask_new config;
          a = register_extensions a;
          a = initialize_mail environ a;
          a = register_blueprints a;
          a = configure_database a;
          a = a\<lparr>fa_extensions := fa_extensions a @ [CSRFProtectExt]\<rparr>;
          a = a\<lparr>fa_error_handlers := fa_error_handlers a @ [(404, page_not_found)]\<rparr>
      in a\<lparr>fa_context_processors := fa_context_processors a @ [InjectCategories]\<rparr>)"

subsection \<open>Hooks and context processors\<close>

text \<open>
  \<open>initialize_database\<close>: \<open>create_all\<close> on the configured URI; on an
  exception the message is printed, \<open>app.config\<close> is switched to the SQLite
  file beside the package, and \<open>create_all\<close> runs again, this time outside
  the \<open>try\<close>.
\<close>

definition initialize_database ::
  "(string \<Rightarrow> py_exc + unit) \<Rightarrow> string \<Rightarrow> config \<Rightarrow> (config \<times> string list) \<times> (py_exc + unit)" where
  "initialize_database create_all basedir cfg =
     (case create_all (config_uri cfg) of
        Inr u \<Rightarrow> ((cfg, []), Inr u)
      | Inl e \<Rightarrow>
          (let uri = ''sqlite:///'' @ basedir @ ''/db.sqlite3''
           in ((cfg(''SQLALCHEMY_DATABASE_URI'' \<mapsto> CStr uri), [''> Error: DBMS Exception: '' @ exc_name e]),
               create_all uri)))"

text \<open>
  A hook run before the first request, on the configuration and the
  printed lines; \<open>shutdown_session\<close> is a teardown hook and does nothing
  there.
\<close>

fun run_hook ::
  "(string \<Rightarrow> py_exc + unit) \<Rightarrow> string \<Rightarrow> hook \<Rightarrow> config \<Rightarrow> (config \<times> string list) \<times> (py_exc + unit)" where
  "run_hook create_all basedir InitializeDatabase cfg = initialize_database create_all basedir cfg"
| "run_hook create_all basedir ShutdownSession cfg = ((cfg, []), Inr ())"

fun run_hooks ::
  "(string \<Rightarrow> py_exc + unit) \<Rightarrow> string \<Rightarrow> hook list \<Rightarrow> config \<Rightarrow> (config \<times> string list) \<times> (py_exc + unit)" where
  "run_hooks create_all basedir [] cfg = ((cfg, []), Inr ())"
| "run_hooks create_all basedir (h # hs) cfg =
     (case run_hook create_all basedir h cfg of
        ((cfg', out), Inl e) \<Rightarrow> ((cfg', out), Inl e)
      | ((cfg', out), Inr _) \<Rightarrow>
          (case run_hooks create_all basedir hs cfg' of ((cfg'', out'), r) \<Rightarrow> ((cfg'', out @ out'), r)))"

text \<open>
  The context \<open>inject_categories\<close> adds to every rendered template: the
  current user (\<open>None\<close> for flask_login's anonymous user) and every row of
  \<open>jd_users\<close>, password credentials included.
\<close>

type_synonym page_context = "user option \<times> user list"

definition inject_categories :: "app \<Rightarrow> request \<Rightarrow> page_context" where
  "inject_categories st rq = (current_user st rq, users (app_db st))"

definition template_context :: "flask_app \<Rightarrow> app \<Rightarrow> request \<Rightarrow> response \<Rightarrow> page_context list" where
  "template_context a st rq r =
     (case r of
        Render _ _ _ \<Rightarrow> map (\<lambda>p. case p of InjectCategories \<Rightarrow> inject_categories st rq) (fa_context_processors a)
      | _ \<Rightarrow> [])"

subsection \<open>The request cycle\<close>

text \<open>
  URL matching: a URL of no registered blueprint route is \<open>NotFound\<close>, a
  route that does not accept the method is \<open>MethodNotAllowed\<close>.
\<close>

datatype routing = Matched route | NotFound | MethodNotAllowed

definition match_request :: "flask_app \<Rightarrow> route \<Rightarrow> request \<Rightarrow> routing" where
  "match_request a rt rq =
     (if rt = RNotFound \<or> ''home_blueprint'' \<notin> set (fa_blueprints a) then NotFound
      else if rq_method rq \<notin> set (methods rt) then MethodNotAllowed
      else Matched rt)"

text \<open>
  Flask-WTF's \<open>csrf_protect\<close> hook: with \<open>CSRFProtect\<close> registered, a
  request with a method other than GET to a matched endpoint without a
  valid token is rejected with 400.
\<close>

definition csrf_rejects :: "flask_app \<Rightarrow> routing \<Rightarrow> request \<Rightarrow> bool" where
  "csrf_rejects a m rq \<longleftrightarrow>
     CSRFProtectExt \<in> set (fa_extensions a) \<and> rq_method rq \<noteq> GET \<and> \<not> rq_csrf_ok rq \<and>
     (case m of Matched _ \<Rightarrow> True | _ \<Rightarrow> False)"

text \<open>An HTTP error goes to the last handler registered for its code, if any.\<close>

definition handle_http_exception ::
  "flask_app \<Rightarrow> nat \<Rightarrow> env \<Rightarrow> app \<Rightarrow> request \<Rightarrow> response \<times> app" where
  "handle_http_exception a code E st rq =
     (case map_of (rev (fa_error_handlers a)) code of
        Some h \<Rightarrow> h E st rq
      | None \<Rightarrow> (HttpError code, st))"

definition dispatch_request :: "flask_app \<Rightarrow> env \<Rightarrow> app \<Rightarrow> route \<times> request \<Rightarrow> response \<times> app" where
  "dispatch_request a E st x =
     (case x of (rt, rq) \<Rightarrow>
        let m = match_request a rt rq in
        if csrf_rejects a m rq then (HttpError 400, st)
        else case m of
          Matched r \<Rightarrow> view r E st rq
        | NotFound \<Rightarrow> handle_http_exception a 404 E st rq
        | MethodNotAllowed \<Rightarrow> handle_http_exception a 405 E st rq)"

record server =
  srv_app :: flask_app
  srv_state :: app

text \<open>
  The answer of one request: the response, with the context of a rendered
  page, and the next server.
\<close>

definition dispatch_render ::
  "flask_app \<Rightarrow> env \<Rightarrow> app \<Rightarrow> route \<times> request \<Rightarrow> (response \<times> page_context list) \<times> server" where
  "dispatch_render a E st x =
     (case dispatch_request a E st x of
        (r, st') \<Rightarrow> ((r, template_context a st' (snd x) r), \<lparr>srv_app = a, srv_state = st'\<rparr>))"

text \<open>
  Flask's \<open>full_dispatch_request\<close>.  Before the first request the
  \<open>before_first_request\<close> hooks run; when one raises, the exception goes
  to the 500 handler of the matched blueprint (the \<open>home\<close> blueprint's
  \<open>internal_error\<close>), or to Flask's bare 500 for an unmatched URL, and the
  flag stays unset.
\<close>

definition full_dispatch_request ::
  "(string \<Rightarrow> py_exc + unit) \<Rightarrow> string \<Rightarrow> env \<Rightarrow> server \<Rightarrow> route \<times> request \<Rightarrow>
     (response \<times> page_context list) \<times> server" where
  "full_dispatch_request create_all basedir E srv x =
     (let a = srv_app srv; st = srv_state srv in
      if fa_got_first_request a then dispatch_render a E st x
      else case run_hooks create_all basedir (fa_before_first_request a) (fa_config a) of
        ((cfg, out), Inl e) \<Rightarrow>
          (let a' = a\<lparr>fa_config := cfg\<rparr>; st' = st\<lparr>stdout := stdout st @ out\<rparr>;
               r = (case match_request a (fst x) (snd x) of Matched _ \<Rightarrow> server_error | _ \<Rightarrow> HttpError 500)
           in ((r, template_context a' st' (snd x) r), \<lparr>srv_app = a', srv_state = st'\<rparr>))
      | ((cfg, out), Inr _) \<Rightarrow>
          dispatch_render (a\<lparr>fa_config := cfg, fa_got_first_request := True\<rparr>) E
            (st\<lparr>stdout := stdout st @ out\<rparr>) x)"

text \<open>The HTTP status of a response; \<open>redirect\<close> answers 302.\<close>

fun status_code :: "response \<Rightarrow> nat" where
  "status_code (Render _ _ s) = s"
| "status_code (Redirect _) = 302"
| "status_code (Json _ s) = s"
| "status_code (HttpError s) = s"

text \<open>
  The servers a deployment reaches: \<open>create_app\<close> on a configuration with
  the application state \<open>st0\<close>, then any sequence of requests.
\<close>

inductive served ::
  "(string \<Rightarrow> py_exc + unit) \<Rightarrow> string \<Rightarrow> env \<Rightarrow> (string \<Rightarrow> string option) \<Rightarrow> config \<Rightarrow> app \<Rightarrow>
     server \<Rightarrow> bool"
  for create_all basedir E environ cfg st0 where
  served_init: "served create_all basedir E environ cfg st0 \<lparr>srv_app = create_app environ cfg, srv_state = st0\<rparr>"
| served_step: "served create_all basedir E environ cfg st0 srv \<Longrightarrow>
     served create_all basedir E environ cfg st0 (snd (full_dispatch_request create_all basedir E srv x))"

subsection \<open>A deployment\<close>

definition demo_server :: "(string \<times> cval) list \<Rightarrow> server" where
  "demo_server cfg = \<lparr>srv_app = create_app (\<lambda>k. None) (map_of cfg), srv_state = demo_app\<rparr>"

subsection \<open>Lemmas\<close>

lemma create_app_parts [simp]:
  "fa_extensions (create_app environ cfg) = [SQLAlchemyExt, LoginManagerExt, MailExt, CSRFProtectExt]"
  "fa_blueprints (create_app environ cfg) = [''home_blueprint'']"
  "fa_before_first_request (create_app environ cfg) = [InitializeDatabase]"
  "fa_teardown_request (create_app environ cfg) = [ShutdownSession]"
  "fa_error_handlers (create_app environ cfg) = [(404, page_not_found)]"
  "fa_context_processors (create_app environ cfg) = [InjectCategories]"
  "fa_got_first_request (create_app environ cfg) = False"
  by (simp_all add: create_app_def flask_new_def register_extensions_def initialize_mail_def
      register_blueprints_def blueprint_of_module_def configure_database_def Let_def)

text \<open>
  The applications \<open>create_app\<close> builds, with the configuration and the
  first-request flag as Flask changes them while serving.
\<close>

definition built_by :: "(string \<Rightarrow> string option) \<Rightarrow> config \<Rightarrow> flask_app \<Rightarrow> bool" where
  "built_by environ cfg a \<longleftrightarrow>
     a\<lparr>fa_config := fa_config (create_app environ cfg), fa_got_first_request := False\<rparr> = create_app environ cfg"

lemma built_by_parts:
  assumes "built_by environ cfg a"
  shows "fa_blueprints a = [''home_blueprint'']" "fa_extensions a = [SQLAlchemyExt, LoginManagerExt, MailExt, CSRFProtectExt]"
    "fa_before_first_request a = [InitializeDatabase]" "fa_error_handlers a = [(404, page_not_found)]"
    "fa_context_processors a = [InjectCategories]"
proof -
  have eq: "a\<lparr>fa_config := fa_config (create_app environ cfg), fa_got_first_request := False\<rparr> =
              create_app environ cfg" using assms by (simp add: built_by_def)
  show "fa_blueprints a = [''home_blueprint'']" using arg_cong [OF eq, of fa_blueprints] by simp
  show "fa_extensions a = [SQLAlchemyExt, LoginManagerExt, MailExt, CSRFProtectExt]"
    using arg_cong [OF eq, of fa_extensions] by simp
  show "fa_before_first_request a = [InitializeDatabase]" using arg_cong [OF eq, of fa_before_first_request] by simp
  show "fa_error_handlers a = [(404, page_not_found)]" using arg_cong [OF eq, of fa_error_handlers] by simp
  show "fa_context_processors a = [InjectCategories]" using arg_cong [OF eq, of fa_context_processors] by simp
qed

lemma built_by_update [simp]:
  "built_by environ cfg (a\<lparr>fa_config := c\<rparr>) \<longleftrightarrow> built_by environ cfg a"
  "built_by environ cfg (a\<lparr>fa_got_first_request := b\<rparr>) \<longleftrightarrow> built_by environ cfg a"
  by (simp_all add: built_by_def)

lemma built_by_create_app [simp]: "built_by environ cfg (create_app environ cfg)"
  by (simp add: built_by_def)

text \<open>
  The application \<open>create_app\<close> wires dispatches as \<open>step\<close>: the home
  blueprint holds every route, Flask answers 405 for a method a route does
  not accept before \<open>CSRFProtect\<close> runs (it skips an unmatched request),
  and an unmatched URL reaches the 404 handler.
\<close>

lemma dispatch_request_step:
  assumes "built_by environ cfg a"
  shows "dispatch_request a E st x = step E st x"
proof -
  obtain rt rq where x: "x = (rt, rq)" by (cases x)
  note parts = built_by_parts [OF assms]
  show ?thesis
  proof (cases "rt = RNotFound")
    case True
    then show ?thesis using x parts
      by (cases "rq_method rq")
        (simp_all add: dispatch_request_def step_def match_request_def csrf_rejects_def
          handle_http_exception_def)
  next
    case False
    then show ?thesis using x parts
      by (auto simp add: dispatch_request_def step_def match_request_def csrf_rejects_def
          handle_http_exception_def)
  qed
qed

lemma run_hooks_initialize_database:
  "run_hooks create_all basedir [InitializeDatabase] cfg = initialize_database create_all basedir cfg"
  by (auto split: prod.split sum.split)

lemma step_RNotFound: "step E st (RNotFound, rq) = page_not_found E st rq"
  by (cases "rq_method rq") (simp_all add: step_def)

lemma full_dispatch_started:
  "fa_got_first_request (srv_app srv) \<Longrightarrow>
   full_dispatch_request create_all basedir E srv x = dispatch_render (srv_app srv) E (srv_state srv) x"
  by (simp add: full_dispatch_request_def)

lemma full_dispatch_built:
  assumes "built_by environ cfg (srv_app srv)"
  shows "built_by environ cfg (srv_app (snd (full_dispatch_request create_all basedir E srv x)))"
  using assms
  by (auto simp add: full_dispatch_request_def dispatch_render_def Let_def split: prod.split sum.split)

lemma served_built:
  "served create_all basedir E environ cfg st0 srv \<Longrightarrow> built_by environ cfg (srv_app srv)"
  by (induction rule: served.induct) (simp_all add: full_dispatch_built)

lemma full_dispatch_hooks_ok:
  assumes "built_by environ cfg (srv_app srv)" and "\<not> fa_got_first_request (srv_app srv)"
    and "create_all (config_uri (fa_config (srv_app srv))) = Inr ()"
  shows "full_dispatch_request create_all basedir E srv x =
           dispatch_render ((srv_app srv)\<lparr>fa_got_first_request := True\<rparr>) E (srv_state srv) x"
  using assms built_by_parts(3) [OF assms(1)]
  by (simp add: full_dispatch_request_def initialize_database_def)

text \<open>
  Once the hooks have returned, a request is answered by \<open>step\<close>, and a
  rendered page gets the context \<open>inject_categories\<close> computes on the
  state the request leaves.
\<close>

lemma dispatch_render_step:
  assumes "built_by environ cfg a"
  shows "dispatch_render a E st x =
           ((fst (step E st x), template_context a (snd (step E st x)) (snd x) (fst (step E st x))),
            \<lparr>srv_app = a, srv_state = snd (step E st x)\<rparr>)"
  using dispatch_request_step [OF assms] by (simp add: dispatch_render_def split: prod.split)

lemma template_context_built:
  assumes "built_by environ cfg a"
  shows "template_context a st rq r = (case r of Render _ _ _ \<Rightarrow> [inject_categories st rq] | _ \<Rightarrow> [])"
  using built_by_parts(5) [OF assms] by (simp add: template_context_def split: response.split)

text \<open>
  A request either leaves the database as it was (a hook raised) or is a
  \<open>step\<close> from a state with the same database.
\<close>

lemma full_dispatch_state:
  assumes "built_by environ cfg (srv_app srv)"
  shows "app_db (srv_state (snd (full_dispatch_request create_all basedir E srv x))) = app_db (srv_state srv) \<or>
         (\<exists>st. app_db st = app_db (srv_state srv) \<and>
               srv_state (snd (full_dispatch_request create_all basedir E srv x)) = snd (step E st x))"
proof (cases "fa_got_first_request (srv_app srv)")
  case True
  then show ?thesis using dispatch_render_step [OF assms] by (auto simp add: full_dispatch_started)
next
  case False
  have b: "built_by environ cfg ((srv_app srv)\<lparr>fa_config := c, fa_got_first_request := True\<rparr>)" for c
    using assms by simp
  obtain c out r where h: "run_hooks create_all basedir (fa_before_first_request (srv_app srv))
                             (fa_config (srv_app srv)) = ((c, out), r)"
    by (metis prod.exhaust)
  let ?st = "(srv_state srv)\<lparr>stdout := stdout (srv_state srv) @ out\<rparr>"
  show ?thesis
  proof (cases r)
    case (Inl e)
    then show ?thesis using False h by (simp add: full_dispatch_request_def Let_def)
  next
    case (Inr u)
    then have "srv_state (snd (full_dispatch_request create_all basedir E srv x)) = snd (step E ?st x)"
      using False h dispatch_render_step [OF b, of c E ?st x] by (simp add: full_dispatch_request_def Let_def)
    moreover have "app_db ?st = app_db (srv_state srv)" by simp
    ultimately show ?thesis by blast
  qed
qed

text \<open>
  While \<open>create_all\<close> fails on every URI, a request before the first
  successful one prints the first failure, answers 500 and leaves the flag
  unset and the database and sessions as they were.
\<close>

lemma full_dispatch_db_down:
  assumes "\<forall>u. create_all u = Inl e" and "built_by environ cfg (srv_app srv)"
    and "\<not> fa_got_first_request (srv_app srv)"
  shows "\<not> fa_got_first_request (srv_app (snd (full_dispatch_request create_all basedir E srv x))) \<and>
         srv_state (snd (full_dispatch_request create_all basedir E srv x)) =
           (srv_state srv)\<lparr>stdout := stdout (srv_state srv) @ [''> Error: DBMS Exception: '' @ exc_name e]\<rparr> \<and>
         status_code (fst (fst (full_dispatch_request create_all basedir E srv x))) = 500"
proof -
  have "run_hooks create_all basedir (fa_before_first_request (srv_app srv)) (fa_config (srv_app srv)) =
          (((fa_config (srv_app srv))(''SQLALCHEMY_DATABASE_URI'' \<mapsto> CStr (''sqlite:///'' @ basedir @ ''/db.sqlite3'')),
            [''> Error: DBMS Exception: '' @ exc_name e]), Inl e)"
    using assms(1) built_by_parts(3) [OF assms(2)] by (simp add: initialize_database_def)
  with assms(3) show ?thesis
    by (simp add: full_dispatch_request_def Let_def server_error_def split: routing.split)
qed

text \<open>The deployment after one request, \<open>GET /logout\<close>, with a database that sets up.\<close>

lemma demo_served_logout:
  defines "srv \<equiv> snd (full_dispatch_request (\<lambda>u. Inr ()) ''/srv'' demo_env (demo_server [])
                        (RLogout, demo_request 1 GET []))"
  shows "served (\<lambda>u. Inr ()) ''/srv'' demo_env (\<lambda>k. None) (map_of []) demo_app srv"
    and "fa_got_first_request (srv_app srv)" and "srv_state srv = logout_user demo_app 1"
proof -
  show "served (\<lambda>u. Inr ()) ''/srv'' demo_env (\<lambda>k. None) (map_of []) demo_app srv"
    unfolding srv_def demo_server_def by (rule served_step [OF served_init])
  have b: "built_by (\<lambda>k. None) (map_of []) (srv_app (demo_server []))" by (simp add: demo_server_def)
  have "srv = \<lparr>srv_app = (srv_app (demo_server []))\<lparr>fa_got_first_request := True\<rparr>,
               srv_state = logout_user demo_app 1\<rparr>"
    unfolding srv_def using full_dispatch_hooks_ok [OF b] dispatch_render_step [of "\<lambda>k. None" "map_of []"]
    by (simp add: demo_server_def logout_def demo_request_def step_def)
  then show "fa_got_first_request (srv_app srv)" and "srv_state srv = logout_user demo_app 1" by simp_all
qed

subsection \<open>Properties\<close>

text \<open>
  C11. The application \<open>create_app\<close> builds serves as \<open>step\<close>: in every
  server reached from it, once the \<open>before_first_request\<close> hooks have
  returned, each request gets the response \<open>step\<close> gives and leaves the
  application state \<open>step\<close> leaves.  The dispatcher the other properties
  are stated over is the one the factory wires (home blueprint, 405 before
  \<open>CSRFProtect\<close>, the 404 handler).
\<close>

theorem served_dispatch_step:
  assumes "served create_all basedir E environ cfg st0 srv" and "fa_got_first_request (srv_app srv)"
  shows "fst (fst (full_dispatch_request create_all basedir E srv x)) = fst (step E (srv_state srv) x) \<and>
         srv_state (snd (full_dispatch_request create_all basedir E srv x)) = snd (step E (srv_state srv) x)"
  using dispatch_render_step [OF served_built [OF assms(1)]] full_dispatch_started [OF assms(2)] by simp

theorem served_dispatch_step_witness:
  "let srv = snd (full_dispatch_request (\<lambda>u. Inr ()) ''/srv'' demo_env (demo_server [])
               (RLogout, demo_request 1 GET []));
       x = (RMakeAdmin 2, demo_request 5 POST [(''username'', ''root'')])
   in fst (fst (full_dispatch_request (\<lambda>u. Inr ()) ''/srv'' demo_env srv x)) = fst (step demo_env (srv_state srv) x) \<and>
      srv_state (snd (full_dispatch_request (\<lambda>u. Inr ()) ''/srv'' demo_env srv x)) = snd (step demo_env (srv_state srv) x)"
proof -
  let ?srv = "snd (full_dispatch_request (\<lambda>u. Inr ()) ''/srv'' demo_env (demo_server []) (RLogout, demo_request 1 GET []))"
  have s: "served (\<lambda>u. Inr ()) ''/srv'' demo_env (\<lambda>k. None) (map_of []) demo_app ?srv"
    unfolding demo_server_def by (rule served_step [OF served_init])
  have f: "fa_got_first_request (srv_app ?srv)"
    by (simp add: demo_server_def full_dispatch_request_def Let_def initialize_database_def dispatch_render_def
        split: prod.split)
  show ?thesis using served_dispatch_step [OF s f] by simp
qed

text \<open>
  C12. A database that cannot be set up blocks the whole application:
  while \<open>create_all\<close> fails on every URI (the configured one and the
  SQLite fallback), the first-request flag is never set, every request is
  answered with status 500 and reprints the DBMS error, and the database and
  the sessions keep their start values.  Flask runs the hook again on each
  request, as a hook that raises does not set \<open>_got_first_request\<close>.
\<close>

theorem served_db_down:
  assumes "\<forall>u. create_all u = Inl e" and "served create_all basedir E environ cfg st0 srv"
  shows "\<not> fa_got_first_request (srv_app srv) \<and> app_db (srv_state srv) = app_db st0 \<and>
         sessions (srv_state srv) = sessions st0 \<and>
         status_code (fst (fst (full_dispatch_request create_all basedir E srv x))) = 500 \<and>
         stdout (srv_state (snd (full_dispatch_request create_all basedir E srv x))) =
           stdout (srv_state srv) @ [''> Error: DBMS Exception: '' @ exc_name e]"
proof -
  from assms(2) have "\<not> fa_got_first_request (srv_app srv) \<and> app_db (srv_state srv) = app_db st0 \<and>
                      sessions (srv_state srv) = sessions st0"
  proof (induction rule: served.induct)
    case served_init
    then show ?case by simp
  next
    case (served_step srv x)
    then show ?case using full_dispatch_db_down [OF assms(1) served_built [OF served_step.hyps(1)], of basedir E x]
      by simp
  qed
  then show ?thesis
    using full_dispatch_db_down [OF assms(1) served_built [OF assms(2)], of basedir E x] by simp
qed

theorem served_db_down_witness:
  "\<not> fa_got_first_request (srv_app (demo_server [])) \<and> app_db (srv_state (demo_server [])) = app_db demo_app \<and>
   sessions (srv_state (demo_server [])) = sessions demo_app \<and>
   status_code (fst (fst (full_dispatch_request (\<lambda>u. Inl OperationalError) ''/srv'' demo_env (demo_server [])
      (RLogin, demo_request 1 GET [])))) = 500 \<and>
   stdout (srv_state (snd (full_dispatch_request (\<lambda>u. Inl OperationalError) ''/srv'' demo_env (demo_server [])
      (RLogin, demo_request 1 GET [])))) =
     stdout (srv_state (demo_server [])) @ [''> Error: DBMS Exception: '' @ exc_name OperationalError]"
proof -
  have "served (\<lambda>u. Inl OperationalError) ''/srv'' demo_env (\<lambda>k. None) (map_of []) demo_app (demo_server [])"
    unfolding demo_server_def by (rule served_init)
  from served_db_down [OF _ this] show ?thesis by simp
qed

text \<open>
  C13. Every page discloses the users table: once the application serves,
  a client with no session and no login form that requests a URL of no
  route gets the 404 page, rendered with the context of
  \<open>inject_categories\<close>, which holds every row of \<open>jd_users\<close> with its
  e-mail, admin flag and password credential.
\<close>

theorem anonymous_page_gets_users:
  assumes "served create_all basedir E environ cfg st0 srv" and "fa_got_first_request (srv_app srv)"
    and "current_user (srv_state srv) rq = None"
  shows "fst (full_dispatch_request create_all basedir E srv (RNotFound, rq)) =
           (Render ''home/page-404.html'' None 404, [(None, users (app_db (srv_state srv)))])"
proof -
  have b: "built_by environ cfg (srv_app srv)" by (rule served_built [OF assms(1)])
  then show ?thesis
    using dispatch_render_step [OF b, of E "srv_state srv" "(RNotFound, rq)"] full_dispatch_started [OF assms(2)]
      template_context_built [OF b] assms(3)
    by (simp add: step_RNotFound page_not_found_def inject_categories_def)
qed

theorem anonymous_page_gets_users_witness:
  "fst (full_dispatch_request (\<lambda>u. Inr ()) ''/srv'' demo_env
      (snd (full_dispatch_request (\<lambda>u. Inr ()) ''/srv'' demo_env (demo_server []) (RLogout, demo_request 1 GET [])))
      (RNotFound, demo_request 7 GET [])) =
   (Render ''home/page-404.html'' None 404, [(None, users (app_db demo_app))])"
proof -
  let ?srv = "snd (full_dispatch_request (\<lambda>u. Inr ()) ''/srv'' demo_env (demo_server []) (RLogout, demo_request 1 GET []))"
  have s: "served (\<lambda>u. Inr ()) ''/srv'' demo_env (\<lambda>k. None) (map_of []) demo_app ?srv"
    unfolding demo_server_def by (rule served_step [OF served_init])
  have b: "built_by (\<lambda>k. None) (map_of []) (srv_app (demo_server []))" by (simp add: demo_server_def)
  have ok: "?srv = \<lparr>srv_app = (srv_app (demo_server []))\<lparr>fa_got_first_request := True\<rparr>,
                     srv_state = logout_user demo_app 1\<rparr>"
    using full_dispatch_hooks_ok [OF b] dispatch_render_step [of "\<lambda>k. None" "map_of []"]
    by (simp add: demo_server_def logout_def demo_request_def step_def)
  then have st: "srv_state ?srv = logout_user demo_app 1" and f: "fa_got_first_request (srv_app ?srv)"
    by simp_all
  have "current_user (srv_state ?srv) (demo_request 7 GET []) = None"
    unfolding st by (simp add: logout_user_def current_user_def demo_request_def request_loader_def demo_app_def)
  with anonymous_page_gets_users [OF s f] have
    "fst (full_dispatch_request (\<lambda>u. Inr ()) ''/srv'' demo_env ?srv (RNotFound, demo_request 7 GET [])) =
       (Render ''home/page-404.html'' None 404, [(None, users (app_db (srv_state ?srv)))])" by blast
  then show ?thesis unfolding st by (simp add: logout_user_def)
qed

text \<open>
  C20. The served application rejects a write without a CSRF token: once
  it serves, a POST or DELETE without a valid token is answered 400 by
  \<open>CSRFProtect\<close> (405 for a method the route does not accept, the 404 page
  for a URL of no route) and leaves the application state unchanged, so no
  view runs.
\<close>

theorem served_csrf_blocks_writes:
  assumes "served create_all basedir E environ cfg st0 srv" and "fa_got_first_request (srv_app srv)"
    and "rq_method rq \<noteq> GET" and "\<not> rq_csrf_ok rq"
  shows "srv_state (snd (full_dispatch_request create_all basedir E srv (rt, rq))) = srv_state srv \<and>
         fst (fst (full_dispatch_request create_all basedir E srv (rt, rq))) \<in>
           {HttpError 400, HttpError 405, Render ''home/page-404.html'' None 404}"
proof -
  have b: "built_by environ cfg (srv_app srv)" by (rule served_built [OF assms(1)])
  have "dispatch_request (srv_app srv) E (srv_state srv) (rt, rq) \<in>
          {(HttpError 400, srv_state srv), (HttpError 405, srv_state srv),
           (Render ''home/page-404.html'' None 404, srv_state srv)}"
    using built_by_parts [OF b] assms(3,4)
    by (auto simp add: dispatch_request_def match_request_def csrf_rejects_def handle_http_exception_def
        page_not_found_def)
  then show ?thesis
    using full_dispatch_started [OF assms(2)] by (auto simp add: dispatch_render_def)
qed

theorem served_csrf_blocks_writes_witness:
  "let srv = snd (full_dispatch_request (\<lambda>u. Inr ()) ''/srv'' demo_env (demo_server []) (RLogout, demo_request 1 GET []));
       x = (RMakeAdmin 2, (demo_request 5 POST [(''username'', ''root'')])\<lparr>rq_csrf_ok := False\<rparr>)
   in srv_state (snd (full_dispatch_request (\<lambda>u. Inr ()) ''/srv'' demo_env srv x)) = srv_state srv \<and>
      fst (fst (full_dispatch_request (\<lambda>u. Inr ()) ''/srv'' demo_env srv x)) \<in>
        {HttpError 400, HttpError 405, Render ''home/page-404.html'' None 404}"
proof -
  have "rq_method ((demo_request 5 POST [(''username'', ''root'')])\<lparr>rq_csrf_ok := False\<rparr>) \<noteq> GET"
    and "\<not> rq_csrf_ok ((demo_request 5 POST [(''username'', ''root'')])\<lparr>rq_csrf_ok := False\<rparr>)"
    by (simp_all add: demo_request_def)
  from served_csrf_blocks_writes [OF demo_served_logout(1,2) this, of "RMakeAdmin 2"] show ?thesis by simp
qed

end
