(* ===== verification/Spec2Isabelle.thy ===== *)
theory Spec2Isabelle
  imports Access Shop Abstraction Services Factory
begin

text \<open>
  A verification development of the turbo-potato Flask backend
  (\<open>src/apps\<close>): account registration and session login, admin user
  management, and a Stripe checkout whose success URL carries the order id
  encrypted with Fernet.

  \<^bold>\<open>Parts of the program and how they interact.\<close>  A request reaches
  a view of \<open>routes.py\<close> through the blueprint's route table and
  Flask-WTF's \<open>CSRFProtect\<close> (set up in \<open>__init__.py\<close>).  Views read
  and write the \<open>jd_users\<close> and \<open>jd_orders\<close> tables of
  \<open>models.py\<close>, resolve the current user through flask_login's
  \<open>user_loader\<close>/\<open>request_loader\<close>, are guarded by the decorators of
  \<open>util.py\<close>, hash and verify passwords with \<open>hash_pass\<close>/
  \<open>verify_pass\<close>, and pass order ids through \<open>encrypt_order_id\<close>/
  \<open>decrypt_order_id\<close>.  \<open>create_app\<close> (\<open>__init__.py\<close>) assembles the
  application: configuration, extensions, the blueprint, the database hook
  run before the first request, the 404 handler and a context processor
  that adds the users table to every rendered template.

  \<^bold>\<open>Library layout.\<close>
  \<^item> \<open>Prelude\<close>: the Python run-time vocabulary shared by all components:
    \<open>byte = 8 word\<close>, strings as Latin-1 \<open>string\<close>s, exceptions as the
    left side of \<open>py_exc + 'a\<close> with \<open>sbind\<close> for propagation, the
    built-in codecs the code calls (ASCII and UTF-8 \<open>encode\<close>/\<open>decode\<close>,
    \<open>hexdigest\<close>, \<open>binascii.hexlify\<close>, SQL \<open>lower\<close>) with their round
    trips.
  \<^item> \<open>PyInt\<close>: \<open>str(int)\<close> and \<open>int(str)\<close> as Python defines them,
    and which strings and integers \<open>float()\<close> converts.
  \<^item> \<open>Codec\<close>: \<open>encrypt_order_id\<close>/\<open>decrypt_order_id\<close>
    (\<open>util.py\<close> 16--27) over an interface record \<open>fernet\<close> for the
    \<open>cryptography\<close> library and its contract \<open>fernet_contract\<close>.
  \<^item> \<open>Password\<close>: \<open>hash_pass\<close>, \<open>verify_pass\<close>,
    \<open>password_callable\<close>, \<open>is_valid_password\<close> (\<open>util.py\<close> 65--95)
    over an interface record \<open>hashlib\<close> with its output lengths as the
    contract.
  \<^item> \<open>Models\<close>: the \<open>User\<close> and \<open>Order\<close> rows (\<open>models.py\<close>), the
    records of the other tables, their constructors and methods, the queries the views run, INSERT with the NOT NULL and
    UNIQUE checks of the schema and the binding of an order's values to its
    columns, updates, deletion, the login loaders, and
    the table invariant \<open>db_wf\<close>.  A table is its rows in rowid order.
  \<^item> \<open>Web\<close>: the request (\<open>request\<close>), the application state
    (\<open>app\<close>: database, per-client flask sessions, stdout), responses, the
    environment of library interfaces (\<open>env\<close>), \<open>current_user\<close>,
    \<open>login_user\<close>/\<open>logout_user\<close>, the decorators \<open>admin_required\<close>,
    \<open>user_logged_in\<close>, \<open>login_required\<close>, and the two forms of
    \<open>forms.py\<close>.
  \<^item> \<open>Routes\<close>: one definition per view of \<open>routes.py\<close> with every
    guard and early return; an uncaught exception is the 500 page with the
    state committed so far; \<open>step\<close> dispatches a (route, request) pair.
    Its lemmas are the frame facts (which views touch which table or the
    sessions) the properties share.
  \<^item> \<open>Services\<close>: \<open>send_enquiry_email_to_admin\<close>, \<open>get_image_url\<close>
    (\<open>util.py\<close>) and \<open>get_segment\<close> (\<open>routes.py\<close>), over interfaces
    for the mail transport, the template loader and Cloudinary.
  \<^item> \<open>Deployment\<close>: a concrete deployment (\<open>demo_env\<close>, \<open>demo_app\<close>,
    requests on it) that the witnesses evaluate on.
  \<^item> \<open>Factory\<close>: \<open>create_app\<close> and its helpers (\<open>__init__.py\<close>) as an
    application record \<open>flask_app\<close>, \<open>initialize_database\<close> over an
    interface for \<open>db.create_all\<close>, \<open>inject_categories\<close>, and Flask's
    request cycle over the record (\<open>full_dispatch_request\<close>), with the
    servers a deployment reaches (\<open>served\<close>).  Its lemmas show that the
    application \<open>create_app\<close> builds dispatches as \<open>step\<close>.
  \<^item> \<open>Access\<close> and \<open>Shop\<close>: the properties of the routes, for
    authentication and access control, and for checkout and payment.
  \<^item> \<open>Abstraction\<close>: an abstract shop (admin flags of users, payment
    status of orders, as maps from ids), its transitions \<open>astep\<close>, the
    abstraction \<open>abs_db\<close> and the refinement of \<open>step\<close> to it.
  \<^item> This theory: the runs of a deployment (\<open>reach\<close>) and the
    properties that hold along them and along the runs of the served
    application.

  Each library interface has an executable instance that meets its contract
  (\<open>hex_fernet\<close>, \<open>toy_hashlib\<close>): they are no models of the libraries,
  only evidence that the contracts are satisfiable, and they let the
  witnesses evaluate by \<open>simp\<close> and \<open>code_simp\<close>.  The randomness the
  code draws (\<open>os.urandom(60)\<close>, Fernet's IV and time stamp,
  \<open>datetime.utcnow()\<close>) is a field of the request.  No definition needs
  fuel: every loop of the code is a \<open>for\<close> over a finite list and is
  modelled by structural recursion.  The one place where Python could loop
  forever is \<open>any()\<close> driving an iterator; it is modelled as a
  \<open>partial_function (option)\<close> (\<open>py_any_iter\<close>) and proved to return on
  the password generator.

  \<^bold>\<open>What is proved.\<close>  Codec: the round trip for every integer and
  every contract-abiding cipher, and that rejected tokens raise.  Password:
  verification accepts the hashed password and decides exactly by equality
  of the derived keys under the stored salt; credentials are 192 hex digits;
  distinct salts give distinct credentials.  Routes: the Stripe session a 200
  checkout answers with is the one created for the success URL whose token
  encrypts the newly committed order, and the success callback pays exactly
  that order and changes nothing without the secret argument and an existing
  order; only \<open>/success\<close> changes payment status; only an admin changes
  the users table; only a login whose password verified opens a session; a
  correct login logs
  the user in and a wrong one is refused; admins list and delete users.
  Every stored order can still be paid by one request (liveness);
  \<open>any()\<close> over the password generator returns after one step
  (termination).
  Refinement: each request is a stutter or one transition of the abstract
  shop, and every run is a sequence of abstract transitions, also the runs
  of the application \<open>create_app\<close> builds.  Factory: once its database
  hook has returned, that application answers every request as \<open>step\<close>
  does, and a POST or DELETE without a CSRF token changes nothing; while
  \<open>create_all\<close> fails, every request answers 500 and changes no data.  Runs: the
  table invariant holds in every reachable state, paid orders stay paid,
  and without an admin the users table never changes.  Checkout and the
  database: an order's values are bound as SQLAlchemy and \<open>sqlite3\<close> bind
  them (\<open>float()\<close> on the \<open>Numeric\<close> price, SQLite's signed 64-bit
  INTEGER for the user id, NOT NULL), so a price \<open>float()\<close> rejects fails
  the commit with nothing written, and an order is written exactly when
  an integer user id lies in \<open>[-2^63, 2^63)\<close> (bounds).  Services: the enquiry e-mail's addresses and contents (and,
  as lemmas, that it never raises, \<open>get_image_url\<close>'s \<open>KeyError\<close> and
  the last path segment).  Findings, proved as theorems: registration always
  fails (NOT NULL \<open>biography\<close>), \<open>request_loader\<close> lets an anonymous
  form impersonate an admin, login prints passwords, an inactive user is
  redirected as if logged in, deleting a user leaves its orders behind,
  the enquiry e-mail's reply address is the company's own,
  checkout with items
  and \<open>/orders\<close> always fail on the undefined \<open>Product\<close> (the former after
  committing an unpaid order), malformed credentials are answered
  \<open>False\<close> instead of the specification's error,
  \<open>is_valid_password\<close> checks the length only, and every rendered page,
  the 404 page of an anonymous visitor included, receives every user row
  with its password credential.

  \<^bold>\<open>Not modelled.\<close>  Template rendering (a response carries the
  template's name), flash messages and logging below the default level,
  the raw CSRF token kept in the session cookie, the rows of the tables no
  view writes (their columns are modelled as records in \<open>Models\<close>, the
  tables themselves stay empty), the remember-me cookie, the blueprint's
  403 and 404 error handlers (no view calls \<open>abort\<close>, so they never run),
  the effect of \<open>shutdown_session\<close> beyond dropping uncommitted writes, the
  SQLAlchemy session's state after a failed commit, JSON numbers with a
  fraction (\<open>jval\<close> has integers only), the \<open>OverflowError\<close> a decrypted
  order id of \<open>2^63\<close> or more would raise in \<open>/success\<close> (it needs the
  Fernet key to produce, and is answered 404 in the model), and the
  internals of the libraries behind the interfaces.  The extensions \<open>create_app\<close>
  registers are names; only \<open>CSRFProtect\<close>, the blueprint, the hooks,
  the 404 handler and the context processor have behaviour in the model.
  Python strings are limited to code points below 256; an exception's text
  is abstracted to its class name.

  \<^bold>\<open>Library versions.\<close>  No version is pinned in \<open>src/\<close>; the model
  follows Flask 2.0 to 2.2 (\<open>before_first_request\<close>, \<open>get_json\<close>
  answering \<open>None\<close>), Flask-SQLAlchemy 2, WTForms 3, Python 3.11's
  \<open>sqlite3\<close> (\<open>InterfaceError\<close> for an unbindable value) and
  Flask-Login before 0.6, where every loaded user counts as authenticated.
  From Flask-Login 0.6 on, \<open>is_authenticated\<close> is \<open>is_active\<close>, and the
  decorators would turn an inactive admin away.
\<close>

section \<open>Runs of the application\<close>

text \<open>
  The states a deployment reaches from a start state \<open>st0\<close> by any sequence
  of requests, each dispatched by \<open>step\<close>.
\<close>

inductive reach :: "env \<Rightarrow> app \<Rightarrow> app \<Rightarrow> bool" for E st0 where
  reach_init: "reach E st0 st0"
| reach_step: "reach E st0 st \<Longrightarrow> reach E st0 (snd (step E st x))"

lemma reach_users_frozen_step:
  assumes "\<forall>u\<in>set (users (app_db st)). \<not> u_is_admin u"
  shows "users (app_db (snd (step E st x))) = users (app_db st)"
proof (rule ccontr)
  obtain rt rq where x: "x = (rt, rq)" by (cases x)
  assume "users (app_db (snd (step E st x))) \<noteq> users (app_db st)"
  then obtain u where "current_user st rq = Some u" and "u_is_admin u"
    using step_users_change [of E st rt rq "fst (step E st x)" "snd (step E st x)"] x by auto
  with assms show False using current_user_in_db by blast
qed

subsection \<open>Properties\<close>

text \<open>
  C6. The table invariant holds in every reachable state: from a well-formed
  database (increasing rowids, UNIQUE usernames and e-mails, NOT NULL columns
  set), every sequence of requests leaves a well-formed database.
\<close>

theorem reach_db_wf:
  assumes "reach E st0 st" and "db_wf (app_db st0)"
  shows "db_wf (app_db st)"
  using assms by (induction rule: reach.induct) (simp_all add: step_db_wf)

theorem reach_db_wf_witness:
  "db_wf (app_db (snd (step demo_env (snd (step demo_env demo_app (RCheckout, demo_checkout [])))
                          (RMakeAdmin 2, demo_request 5 POST [(''username'', ''root'')]))))"
proof -
  have "db_wf (app_db demo_app)"
    by (simp add: demo_app_def demo_user_def db_wf_def users_wf_def orders_wf_def)
  with reach_db_wf [OF reach_step [OF reach_step [OF reach_init]]] show ?thesis by blast
qed

text \<open>
  C16. Without an administrator the users table never changes: from a state
  whose users table holds no admin, no sequence of requests adds, deletes or
  alters a user, since registration always fails and every other write is
  behind \<open>admin_required\<close>.  A fresh deployment therefore stays without
  users unless the database is edited outside the application.
\<close>

theorem reach_users_frozen:
  assumes "reach E st0 st" and "\<forall>u\<in>set (users (app_db st0)). \<not> u_is_admin u"
  shows "users (app_db st) = users (app_db st0)"
  using assms by (induction rule: reach.induct) (simp_all add: reach_users_frozen_step)

theorem reach_users_frozen_witness:
  "users (app_db (snd (step demo_env (demo_app\<lparr>app_db := \<lparr>users = [demo_user 2 ''bob'' False], orders = []\<rparr>\<rparr>)
                        (RMakeAdmin 2, demo_request 5 POST [(''username'', ''bob'')])))) =
   [demo_user 2 ''bob'' False]"
proof -
  let ?st0 = "demo_app\<lparr>app_db := \<lparr>users = [demo_user 2 ''bob'' False], orders = []\<rparr>\<rparr>"
  have "\<forall>u\<in>set (users (app_db ?st0)). \<not> u_is_admin u" by (simp add: demo_user_def)
  from reach_users_frozen [OF reach_step [OF reach_init] this] show ?thesis by simp
qed

text \<open>
  C19. A paid order stays paid: along every run, each order that was paid in
  the start state has a paid row with the same id in every reachable state.
  Only \<open>/success\<close> writes payment status and it only sets it; checkout
  only appends; no route deletes an order.
\<close>

theorem reach_paid_stays_paid:
  assumes "reach E st0 st" and "r \<in> set (orders (app_db st0))" and "o_payment_status r"
  shows "\<exists>r'\<in>set (orders (app_db st)). o_id r' = o_id r \<and> o_payment_status r'"
  using assms
proof (induction rule: reach.induct)
  case reach_init
  then show ?case by blast
next
  case (reach_step st x)
  then obtain r' where "r' \<in> set (orders (app_db st))" and "o_id r' = o_id r" and "o_payment_status r'"
    by blast
  moreover from this step_paid_kept [of st E x] obtain r'' where
    "r'' \<in> set (orders (app_db (snd (step E st x))))" and "o_id r'' = o_id r'" and "o_payment_status r''"
    unfolding paid_kept_def by blast
  ultimately show ?case by auto
qed

theorem reach_paid_stays_paid_witness:
  "\<exists>r'\<in>set (orders (app_db (snd (step demo_env (demo_shop\<lparr>app_db := (app_db demo_shop)\<lparr>orders :=
        [order_init (JInt 2) 0 (JInt 10)\<lparr>o_id := 1, o_payment_status := True\<rparr>]\<rparr>\<rparr>)
        (RCheckout, demo_checkout []))))).
     o_id r' = 1 \<and> o_payment_status r'"
proof -
  let ?r = "order_init (JInt 2) 0 (JInt 10)\<lparr>o_id := 1, o_payment_status := True\<rparr>"
  let ?st0 = "demo_shop\<lparr>app_db := (app_db demo_shop)\<lparr>orders := [?r]\<rparr>\<rparr>"
  have "reach demo_env ?st0 (snd (step demo_env ?st0 (RCheckout, demo_checkout [])))"
    by (rule reach_step [OF reach_init])
  moreover have "?r \<in> set (orders (app_db ?st0))" and "o_payment_status ?r" by simp_all
  ultimately show ?thesis using reach_paid_stays_paid by fastforce
qed

text \<open>
  C10. Refinement along runs: from a well-formed database, the abstract shop
  of every reachable state is reached from the start's abstract shop by a
  sequence of abstract transitions (\<open>astep\<close>).
\<close>

theorem reach_refines:
  assumes "reach E st0 st" and "db_wf (app_db st0)"
  shows "astep\<^sup>*\<^sup>* (abs_db (app_db st0)) (abs_db (app_db st))"
proof -
  from assms have "db_wf (app_db st) \<and> astep\<^sup>*\<^sup>* (abs_db (app_db st0)) (abs_db (app_db st))"
  proof (induction rule: reach.induct)
    case reach_init
    then show ?case by simp
  next
    case (reach_step st x)
    then show ?case
      using step_db_wf [of st E x] step_astep [of st E x] by (auto intro: rtranclp.rtrancl_into_rtrancl)
  qed
  then show ?thesis ..
qed

theorem reach_refines_witness:
  "astep\<^sup>*\<^sup>* (abs_db (app_db demo_app))
     (abs_db (app_db (snd (step demo_env demo_app (RCheckout, demo_checkout [])))))"
proof -
  have "db_wf (app_db demo_app)"
    by (simp add: demo_app_def demo_user_def db_wf_def users_wf_def orders_wf_def)
  with reach_refines [OF reach_step [OF reach_init]] show ?thesis by blast
qed

text \<open>
  C14. Refinement for the served application: from a well-formed database,
  every state of a server that \<open>create_app\<close> built and Flask ran, first
  request and failing database hooks included, holds a well-formed database
  whose abstract shop is reached from the start's by abstract transitions.
\<close>

theorem served_refines:
  assumes "served create_all basedir E environ cfg st0 srv" and "db_wf (app_db st0)"
  shows "db_wf (app_db (srv_state srv)) \<and> astep\<^sup>*\<^sup>* (abs_db (app_db st0)) (abs_db (app_db (srv_state srv)))"
  using assms
proof (induction rule: served.induct)
  case served_init
  then show ?case by simp
next
  case (served_step srv x)
  then have wf: "db_wf (app_db (srv_state srv))" and r: "astep\<^sup>*\<^sup>* (abs_db (app_db st0)) (abs_db (app_db (srv_state srv)))"
    by simp_all
  from full_dispatch_state [OF served_built [OF served_step.hyps(1)], of create_all basedir E x]
  show ?case
  proof
    assume "app_db (srv_state (snd (full_dispatch_request create_all basedir E srv x))) = app_db (srv_state srv)"
    with wf r show ?case by simp
  next
    assume "\<exists>st. app_db st = app_db (srv_state srv) \<and>
              srv_state (snd (full_dispatch_request create_all basedir E srv x)) = snd (step E st x)"
    then obtain st where "app_db st = app_db (srv_state srv)"
      and "srv_state (snd (full_dispatch_request create_all basedir E srv x)) = snd (step E st x)" by blast
    with wf r show ?case
      using step_db_wf [of st E x] step_astep [of st E x] by (auto intro: rtranclp.rtrancl_into_rtrancl)
  qed
qed

theorem served_refines_witness:
  "db_wf (app_db (srv_state (demo_server []))) \<and>
   astep\<^sup>*\<^sup>* (abs_db (app_db demo_app)) (abs_db (app_db (srv_state (demo_server []))))"
proof -
  have "served (\<lambda>u. Inr ()) ''/srv'' demo_env (\<lambda>k. None) (map_of []) demo_app (demo_server [])"
    unfolding demo_server_def by (rule served_init)
  moreover have "db_wf (app_db demo_app)"
    by (simp add: demo_app_def demo_user_def db_wf_def users_wf_def orders_wf_def)
  ultimately show ?thesis by (rule served_refines)
qed

end
